(* ===== verification/FM_Prelude.thy ===== *)
theory FM_Prelude
  imports Complex_Main
begin

text \<open>
  Shared ground of the development: the fact collections the component theories
  fill and use, and the lemmas on real numbers and lists that more than one
  component needs.

  Numbers. The shaders compute in GLSL \<^verbatim>\<open>float\<close> and the scripts in JavaScript
  doubles. Both are idealised as \<^typ>\<open>real\<close>: rounding is not modelled, the
  algebra of the kernels is. The one place where a JavaScript number leaves the
  reals, the division \<^verbatim>\<open>innerWidth / innerHeight\<close> by a zero height, is kept
  apart in the type \<open>jsnum\<close> of theory \<open>Engine\<close>.
\<close>

section \<open>Fact collections\<close>

named_theorems vec_simps "componentwise rewriting of the GLSL vector operations"
named_theorems kernel_defs "definitions of the shader functions, for unfolding"
named_theorems clock_defs "definitions of the clock operations, for unfolding"
named_theorems engine_defs "definitions of the engine's handlers, for unfolding"

section \<open>The unit interval\<close>

text \<open>
  Both kernels push a sine or cosine through \<open>0.5 + 0.5 * _\<close> to obtain a factor
  in the unit interval, and blend with it.
\<close>

definition unit_interval :: "real \<Rightarrow> bool" where
  "unit_interval a \<longleftrightarrow> 0 \<le> a \<and> a \<le> 1"

lemma unit_intervalI [intro]: "0 \<le> a \<Longrightarrow> a \<le> 1 \<Longrightarrow> unit_interval a"
  by (simp add: unit_interval_def)

lemma unit_intervalD: "unit_interval a \<Longrightarrow> 0 \<le> a \<and> a \<le> 1"
  by (simp add: unit_interval_def)

lemma unit_interval_0 [simp]: "unit_interval 0"
  and unit_interval_1 [simp]: "unit_interval 1"
  by (simp_all add: unit_interval_def)

lemma unit_interval_half:
  assumes "- 1 \<le> s" "s \<le> 1"
  shows "unit_interval (0.5 + 0.5 * s)"
proof
  from assms show "0 \<le> 0.5 + 0.5 * s" "0.5 + 0.5 * s \<le> 1" by simp_all
qed

lemma unit_interval_half_sin [simp]: "unit_interval (0.5 + 0.5 * sin a)"
  by (rule unit_interval_half) simp_all

lemma avg_sin_cos_bounds:
  fixes a b :: real
  shows "- 1 \<le> (sin a + cos b) * 0.5" "(sin a + cos b) * 0.5 \<le> 1"
proof -
  have "- 1 \<le> sin a" "sin a \<le> 1" "- 1 \<le> cos b" "cos b \<le> 1" by simp_all
  then have "- 2 \<le> sin a + cos b" "sin a + cos b \<le> 2" by linarith+
  then show "- 1 \<le> (sin a + cos b) * 0.5" "(sin a + cos b) * 0.5 \<le> 1" by simp_all
qed

text \<open>A convex combination stays between its end points.\<close>

lemma convex_lower:
  assumes "unit_interval t" "lo \<le> a" "lo \<le> b"
  shows "lo \<le> (1 - t) * a + t * b"
proof -
  from assms have "(1 - t) * lo \<le> (1 - t) * a" "t * lo \<le> t * b"
    by (simp_all add: unit_interval_def mult_left_mono)
  then have "(1 - t) * lo + t * lo \<le> (1 - t) * a + t * b" by linarith
  then show ?thesis by (simp add: algebra_simps)
qed

lemma convex_upper:
  assumes "unit_interval t" "a \<le> hi" "b \<le> hi"
  shows "(1 - t) * a + t * b \<le> hi"
proof -
  from assms have "(1 - t) * a \<le> (1 - t) * hi" "t * b \<le> t * hi"
    by (simp_all add: unit_interval_def mult_left_mono)
  then have "(1 - t) * a + t * b \<le> (1 - t) * hi + t * hi" by linarith
  then show ?thesis by (simp add: algebra_simps)
qed

lemma scale_unit_lower: "unit_interval s \<Longrightarrow> 0 \<le> a \<Longrightarrow> 0 \<le> s * a"
  by (simp add: unit_interval_def)

lemma scale_unit_upper: "unit_interval s \<Longrightarrow> 0 \<le> a \<Longrightarrow> a \<le> hi \<Longrightarrow> s * a \<le> hi"
proof -
  assume s: "unit_interval s" and a: "0 \<le> a" "a \<le> hi"
  from s a have "s * a \<le> 1 * a"
    by (intro mult_right_mono) (simp_all add: unit_interval_def)
  with a show ?thesis by simp
qed

section \<open>Periods of the trigonometric terms\<close>

lemma sin_period_nat: "sin (a + 2 * pi * real n) = sin a"
proof (induction n)
  case 0
  show ?case by simp
next
  case (Suc n)
  have "sin (a + 2 * pi * real (Suc n)) = sin (a + 2 * pi * real n + 2 * pi)"
    by (simp add: algebra_simps)
  also have "\<dots> = sin (a + 2 * pi * real n)" by (rule sin_periodic)
  finally show ?case using Suc.IH by simp
qed

lemma cos_period_nat: "cos (a + 2 * pi * real n) = cos a"
proof (induction n)
  case 0
  show ?case by simp
next
  case (Suc n)
  have "cos (a + 2 * pi * real (Suc n)) = cos (a + 2 * pi * real n + 2 * pi)"
    by (simp add: algebra_simps)
  also have "\<dots> = cos (a + 2 * pi * real n)" by (rule cos_periodic)
  finally show ?case using Suc.IH by simp
qed

section \<open>Quotients within a bound\<close>

lemma abs_divide_le_one:
  fixes a d :: real
  assumes "0 < d"
  shows "\<bar>a / d\<bar> \<le> 1 \<longleftrightarrow> \<bar>a\<bar> \<le> d"
  using assms by (simp add: pos_divide_le_eq)

lemma abs_times_le:
  fixes q d :: real
  assumes "0 < d" "\<bar>q\<bar> \<le> 1"
  shows "\<bar>q * d\<bar> \<le> d"
  using assms by (simp add: abs_mult mult_left_le_one_le)

section \<open>Lists\<close>

text \<open>The last element of a sorted list bounds the others.\<close>

lemma sorted_le_last: "sorted xs \<Longrightarrow> x \<in> set xs \<Longrightarrow> x \<le> last (xs :: 'a :: linorder list)"
  by (induction xs) auto

end
