(* ===== verification/GLSL.thy ===== *)
theory GLSL
  imports FM_Prelude
begin

text \<open>
  The part of the GLSL vocabulary the two fragment shaders use: the vector types
  \<open>vec2\<close>, \<open>vec3\<close> and \<open>vec4\<close> with their constructors, componentwise addition,
  subtraction and multiplication by a float (obtained by making the vectors
  instances of \<open>real_vector\<close>, so that the shader expressions are written with the
  library's \<open>+\<close>, \<open>-\<close> and \<open>*\<^sub>R\<close>), and the built-in functions \<open>length\<close> and
  \<open>mix\<close>. A \<open>vec2\<close> is read as a complex number by \<open>cplx\<close>; the lemmas at the end
  connect the componentwise arithmetic of the shader with the field operations on
  \<^typ>\<open>complex\<close>.
\<close>

section \<open>Vector types\<close>

datatype vec2 = vec2 (vx: real) (vy: real)

datatype vec3 = vec3 (red: real) (green: real) (blue: real)

datatype vec4 = vec4 (rgb: vec3) (alpha: real)

text \<open>The one-argument constructors \<^verbatim>\<open>vec2(a)\<close> and \<^verbatim>\<open>vec3(a)\<close> repeat the float.\<close>

definition vec2s :: "real \<Rightarrow> vec2" where
  "vec2s a = vec2 a a"

definition vec3s :: "real \<Rightarrow> vec3" where
  "vec3s a = vec3 a a a"

instantiation vec2 :: real_vector
begin

definition zero_vec2 :: vec2 where
  "zero_vec2 = vec2 0 0"

definition plus_vec2 :: "vec2 \<Rightarrow> vec2 \<Rightarrow> vec2" where
  "plus_vec2 a b = vec2 (vx a + vx b) (vy a + vy b)"

definition minus_vec2 :: "vec2 \<Rightarrow> vec2 \<Rightarrow> vec2" where
  "minus_vec2 a b = vec2 (vx a - vx b) (vy a - vy b)"

definition uminus_vec2 :: "vec2 \<Rightarrow> vec2" where
  "uminus_vec2 a = vec2 (- vx a) (- vy a)"

definition scaleR_vec2 :: "real \<Rightarrow> vec2 \<Rightarrow> vec2" where
  "scaleR_vec2 k a = vec2 (k * vx a) (k * vy a)"

instance
  by standard
    (simp_all add: zero_vec2_def plus_vec2_def minus_vec2_def uminus_vec2_def
      scaleR_vec2_def algebra_simps)

end

instantiation vec3 :: real_vector
begin

definition zero_vec3 :: vec3 where
  "zero_vec3 = vec3 0 0 0"

definition plus_vec3 :: "vec3 \<Rightarrow> vec3 \<Rightarrow> vec3" where
  "plus_vec3 a b = vec3 (red a + red b) (green a + green b) (blue a + blue b)"

definition minus_vec3 :: "vec3 \<Rightarrow> vec3 \<Rightarrow> vec3" where
  "minus_vec3 a b = vec3 (red a - red b) (green a - green b) (blue a - blue b)"

definition uminus_vec3 :: "vec3 \<Rightarrow> vec3" where
  "uminus_vec3 a = vec3 (- red a) (- green a) (- blue a)"

definition scaleR_vec3 :: "real \<Rightarrow> vec3 \<Rightarrow> vec3" where
  "scaleR_vec3 k a = vec3 (k * red a) (k * green a) (k * blue a)"

instance
  by standard
    (simp_all add: zero_vec3_def plus_vec3_def minus_vec3_def uminus_vec3_def
      scaleR_vec3_def algebra_simps)

end

section \<open>Built-in functions\<close>

text \<open>\<^verbatim>\<open>length(v)\<close> is the Euclidean norm; \<^verbatim>\<open>mix(x, y, a)\<close> is \<open>x * (1 - a) + y * a\<close>.\<close>

definition length_v2 :: "vec2 \<Rightarrow> real" where
  "length_v2 v = sqrt (vx v * vx v + vy v * vy v)"

definition mix :: "'a::real_vector \<Rightarrow> 'a \<Rightarrow> real \<Rightarrow> 'a" where
  "mix x y a = (1 - a) *\<^sub>R x + a *\<^sub>R y"

text \<open>A colour whose three channels lie between two bounds.\<close>

definition channels_in :: "real \<Rightarrow> real \<Rightarrow> vec3 \<Rightarrow> bool" where
  "channels_in lo hi c \<longleftrightarrow>
     lo \<le> red c \<and> red c \<le> hi \<and> lo \<le> green c \<and> green c \<le> hi \<and> lo \<le> blue c \<and> blue c \<le> hi"

section \<open>Componentwise rewriting\<close>

lemma vx_plus [vec_simps]: "vx (a + b) = vx a + vx b"
  and vy_plus [vec_simps]: "vy (a + b) = vy a + vy b"
  and vx_minus [vec_simps]: "vx (a - b) = vx a - vx b"
  and vy_minus [vec_simps]: "vy (a - b) = vy a - vy b"
  and vx_scale [vec_simps]: "vx (k *\<^sub>R a) = k * vx a"
  and vy_scale [vec_simps]: "vy (k *\<^sub>R a) = k * vy a"
  and vx_zero [vec_simps]: "vx 0 = 0"
  and vy_zero [vec_simps]: "vy 0 = 0"
  by (simp_all add: plus_vec2_def minus_vec2_def scaleR_vec2_def zero_vec2_def)

lemma vec2s_sel [vec_simps]: "vx (vec2s a) = a" "vy (vec2s a) = a"
  by (simp_all add: vec2s_def)

lemma vec2s_0 [vec_simps]: "vec2s 0 = 0"
  by (simp add: vec2s_def zero_vec2_def)

lemma red_plus [vec_simps]: "red (a + b) = red a + red b"
  and green_plus [vec_simps]: "green (a + b) = green a + green b"
  and blue_plus [vec_simps]: "blue (a + b) = blue a + blue b"
  and red_scale [vec_simps]: "red (k *\<^sub>R a) = k * red a"
  and green_scale [vec_simps]: "green (k *\<^sub>R a) = k * green a"
  and blue_scale [vec_simps]: "blue (k *\<^sub>R a) = k * blue a"
  by (simp_all add: plus_vec3_def scaleR_vec3_def)

lemma vec3s_sel [vec_simps]: "red (vec3s a) = a" "green (vec3s a) = a" "blue (vec3s a) = a"
  by (simp_all add: vec3s_def)

lemma vec2_eq_iff: "a = b \<longleftrightarrow> vx a = vx b \<and> vy a = vy b"
  by (cases a, cases b) simp

lemma vec3_eq_iff: "a = b \<longleftrightarrow> red a = red b \<and> green a = green b \<and> blue a = blue b"
  by (cases a, cases b) simp

lemma mix_red [vec_simps]: "red (mix x y a) = (1 - a) * red x + a * red y"
  and mix_green [vec_simps]: "green (mix x y a) = (1 - a) * green x + a * green y"
  and mix_blue [vec_simps]: "blue (mix x y a) = (1 - a) * blue x + a * blue y"
  by (simp_all add: mix_def vec_simps)

section \<open>Properties of \<open>mix\<close>\<close>

lemma mix_0 [simp]: "mix x y 0 = x"
  and mix_1 [simp]: "mix x y 1 = y"
  by (simp_all add: mix_def)

lemma mix_same [simp]: "mix x x a = x"
  by (simp add: mix_def scaleR_left_diff_distrib)

lemma mix_half: "mix x y (1/2) = (1/2) *\<^sub>R (x + y)"
  by (simp add: mix_def scaleR_right_distrib)

lemma channels_in_mix:
  assumes "unit_interval a" "channels_in lo hi x" "channels_in lo hi y"
  shows "channels_in lo hi (mix x y a)"
  using assms by (simp add: channels_in_def vec_simps convex_lower convex_upper)

lemma channels_in_scale:
  assumes "unit_interval s" "channels_in 0 hi c"
  shows "channels_in 0 hi (s *\<^sub>R c)"
  using assms by (simp add: channels_in_def vec_simps scale_unit_lower scale_unit_upper)

lemma channels_in_mono:
  "channels_in lo hi c \<Longrightarrow> lo' \<le> lo \<Longrightarrow> hi \<le> hi' \<Longrightarrow> channels_in lo' hi' c"
  by (auto simp: channels_in_def)

section \<open>Vectors of two floats as complex numbers\<close>

definition cplx :: "vec2 \<Rightarrow> complex" where
  "cplx v = Complex (vx v) (vy v)"

lemma cplx_vec2 [simp]: "cplx (vec2 a b) = Complex a b"
  by (simp add: cplx_def)

lemma cplx_zero [simp]: "cplx 0 = 0"
  by (simp add: cplx_def vec_simps complex_eq_iff)

lemma cplx_add: "cplx (a + b) = cplx a + cplx b"
  by (simp add: cplx_def vec_simps complex_eq_iff)

lemma cplx_inj: "cplx a = cplx b \<longleftrightarrow> a = b"
  by (simp add: cplx_def vec2_eq_iff)

lemma cplx_square: "Complex (vx z * vx z - vy z * vy z) (2 * vx z * vy z) = cplx z * cplx z"
  by (simp add: cplx_def complex_eq_iff)

lemma length_v2_cmod: "length_v2 v = cmod (cplx v)"
  by (simp add: length_v2_def cplx_def cmod_def power2_eq_square)

lemma length_v2_nonneg [simp]: "0 \<le> length_v2 v"
  by (simp add: length_v2_cmod)

text \<open>The escape test of the fractal, free of the square root: decidable on rationals.\<close>

lemma length_v2_gt_2_iff: "length_v2 v > 2 \<longleftrightarrow> vx v * vx v + vy v * vy v > 4"
proof -
  have "sqrt 4 < sqrt (vx v * vx v + vy v * vy v) \<longleftrightarrow> 4 < vx v * vx v + vy v * vy v"
    by (rule real_sqrt_less_iff)
  then show ?thesis by (simp add: length_v2_def)
qed

end
