(* ===== verification/Uniforms.thy ===== *)
theory Uniforms
  imports GLSL
begin

text \<open>
  The uniform set: the parameters a script hands to its fragment shader, constant
  during one draw. The two fractal scripts declare \<open>time\<close> and \<open>resolution\<close>; the
  interference script declares \<open>collapse\<close> in addition, so its uniform set is the
  record extension of the first. Everything that only touches \<open>time\<close> and
  \<open>resolution\<close> (the resize handler, the frame callback, the fractal shader) is
  stated over the record scheme and applies to both.
\<close>

record uniforms =
  time :: real
  resolution :: vec2

record quantum_uniforms = uniforms +
  collapse :: real

text \<open>
  The initial values given to \<^verbatim>\<open>THREE.ShaderMaterial\<close>: time \<open>0.0\<close>, the
  resolution of the window at construction (\<open>w\<close>, \<open>h\<close> are \<^verbatim>\<open>window.innerWidth\<close> and
  \<^verbatim>\<open>window.innerHeight\<close>), and \<open>collapse\<close> \<open>0.0\<close>.
\<close>

definition fractal_uniforms_init :: "nat \<Rightarrow> nat \<Rightarrow> uniforms" where
  "fractal_uniforms_init w h = \<lparr>time = 0, resolution = vec2 (real w) (real h)\<rparr>"

definition quantum_uniforms_init :: "nat \<Rightarrow> nat \<Rightarrow> quantum_uniforms" where
  "quantum_uniforms_init w h =
     \<lparr>time = 0, resolution = vec2 (real w) (real h), collapse = 0\<rparr>"

lemma fractal_uniforms_init_sel [simp]:
  "time (fractal_uniforms_init w h) = 0"
  "resolution (fractal_uniforms_init w h) = vec2 (real w) (real h)"
  by (simp_all add: fractal_uniforms_init_def)

lemma quantum_uniforms_init_sel [simp]:
  "time (quantum_uniforms_init w h) = 0"
  "resolution (quantum_uniforms_init w h) = vec2 (real w) (real h)"
  "collapse (quantum_uniforms_init w h) = 0"
  by (simp_all add: quantum_uniforms_init_def)

end
