(* ===== verification/Fractal_Kernel.thy ===== *)
theory Fractal_Kernel
  imports Uniforms
begin

text \<open>
  The fragment shader of \<^verbatim>\<open>FractalAnimation.ts\<close> (and of its copy in
  \<^verbatim>\<open>FractalAnimation.tsx\<close>): the escape-time function \<open>fractal\<close> with its capped
  loop, and \<open>main\<close>, which warps the surface coordinate by the time uniform and
  turns the iteration count into a grey value.

  The loop is \<open>fractal_loop\<close>, a recursive function over the loop variables
  (\<open>i\<close>, \<open>z\<close>, \<open>iterations\<close>) whose termination is proved by the measure \<open>100 - i\<close>.
  Its reference is the iteration \<open>z \<mapsto> z\<^sup>2 + c\<close> on \<^typ>\<open>complex\<close>: \<open>orbit\<close> is the
  sequence of iterates from \<open>0\<close>, \<open>escape_steps\<close> counts iterations up to the first
  iterate of modulus above \<open>2\<close>, and \<open>escape_time\<close> is that count under the cap of
  \<open>100\<close>. The lemmas show that the shader computes \<open>escape_time\<close>, characterise the
  count by the orbit, and derive the facts on which the picture rests: an orbit
  that has left the disc of radius \<open>2\<close> never returns, so stopping at the first
  escape loses nothing; parameters outside the disc give count \<open>1\<close>; parameters
  of modulus at most \<open>1/4\<close> give the full count.
\<close>

section \<open>The shader\<close>

function fractal_loop :: "vec2 \<Rightarrow> int \<Rightarrow> vec2 \<Rightarrow> real \<Rightarrow> real" where
  "fractal_loop c i z iterations =
     (if i < 100 then
        (if length_v2 z > 2 then iterations
         else fractal_loop c (i + 1)
                (vec2 (vx z * vx z - vy z * vy z) (2 * vx z * vy z) + c)
                (iterations + 1))
      else iterations)"
  by pat_completeness auto
termination
  by (relation "measure (\<lambda>(c, i, z, iterations). nat (100 - i))") auto

declare fractal_loop.simps [simp del]

definition fractal :: "vec2 \<Rightarrow> real" where
  "fractal uv =
     (let c = 3 *\<^sub>R uv - vec2 1.5 1.5;
          z = vec2s 0;
          iterations = 0
      in fractal_loop c 0 z iterations)"

definition main_fractal :: "'a uniforms_scheme \<Rightarrow> vec2 \<Rightarrow> vec4" where
  "main_fractal u vUv =
     (let uv = vUv;
          uv = vec2 (vx uv + sin (time u + vy uv * 10) * 0.1) (vy uv);
          uv = vec2 (vx uv) (vy uv + cos (time u + vx uv * 10) * 0.1);
          m = fractal uv;
          color = m / 100
      in vec4 (vec3s color) 1)"

section \<open>The reference: escape time of the quadratic iteration\<close>

primrec orbit :: "complex \<Rightarrow> nat \<Rightarrow> complex" where
  "orbit c 0 = 0"
| "orbit c (Suc n) = orbit c n * orbit c n + c"

fun escape_steps :: "complex \<Rightarrow> complex \<Rightarrow> nat \<Rightarrow> nat" where
  "escape_steps c z 0 = 0"
| "escape_steps c z (Suc n) =
     (if cmod z > 2 then 0 else Suc (escape_steps c (z * z + c) n))"

definition escape_time :: "complex \<Rightarrow> nat" where
  "escape_time c = escape_steps c 0 100"

text \<open>The complex parameter of a surface coordinate, and the warped coordinate.\<close>

definition param :: "vec2 \<Rightarrow> complex" where
  "param uv = cplx (3 *\<^sub>R uv - vec2 1.5 1.5)"

definition warp :: "real \<Rightarrow> vec2 \<Rightarrow> vec2" where
  "warp t uv =
     (let x = vx uv + sin (t + vy uv * 10) * 0.1
      in vec2 x (vy uv + cos (t + x * 10) * 0.1))"

lemmas [kernel_defs] = fractal_def main_fractal_def param_def warp_def escape_time_def

section \<open>The loop computes the reference\<close>

lemma fractal_loop_exit: "fractal_loop c 100 z it = it"
  by (subst fractal_loop.simps) simp

lemma fractal_loop_escaped:
  "i < 100 \<Longrightarrow> length_v2 z > 2 \<Longrightarrow> fractal_loop c i z it = it"
  by (subst fractal_loop.simps) simp

lemma fractal_loop_iterate:
  "i < 100 \<Longrightarrow> \<not> length_v2 z > 2 \<Longrightarrow>
   fractal_loop c i z it =
     fractal_loop c (i + 1) (vec2 (vx z * vx z - vy z * vy z) (2 * vx z * vy z) + c) (it + 1)"
  by (subst fractal_loop.simps) simp

lemma fractal_loop_steps:
  "n \<le> 100 \<Longrightarrow>
   fractal_loop c (100 - int n) z it = it + real (escape_steps (cplx c) (cplx z) n)"
proof (induction n arbitrary: z it)
  case 0
  show ?case by (simp add: fractal_loop_exit)
next
  case (Suc n)
  let ?i = "100 - int (Suc n)"
  let ?z' = "vec2 (vx z * vx z - vy z * vy z) (2 * vx z * vy z) + c"
  have i: "?i < 100" and i': "?i + 1 = 100 - int n" by simp_all
  show ?case
  proof (cases "length_v2 z > 2")
    case True
    with i have "fractal_loop c ?i z it = it" by (rule fractal_loop_escaped)
    with True show ?thesis by (simp add: length_v2_cmod)
  next
    case False
    from Suc.prems have "n \<le> 100" by simp
    then have "fractal_loop c (100 - int n) ?z' (it + 1) =
        it + 1 + real (escape_steps (cplx c) (cplx ?z') n)"
      by (rule Suc.IH)
    moreover have "cplx ?z' = cplx z * cplx z + cplx c"
      by (simp add: cplx_add cplx_square)
    moreover from i False have "fractal_loop c ?i z it = fractal_loop c (?i + 1) ?z' (it + 1)"
      by (rule fractal_loop_iterate)
    ultimately show ?thesis using False i' by (simp add: length_v2_cmod)
  qed
qed

lemma fractal_escape_time: "fractal uv = real (escape_time (param uv))"
  using fractal_loop_steps [of 100 "3 *\<^sub>R uv - vec2 1.5 1.5" 0 0]
  by (simp add: kernel_defs vec_simps)

section \<open>The count and the orbit\<close>

text \<open>The iterates from an arbitrary start; \<open>orbit\<close> is the case of start \<open>0\<close>.\<close>

primrec iterate :: "complex \<Rightarrow> complex \<Rightarrow> nat \<Rightarrow> complex" where
  "iterate c z 0 = z"
| "iterate c z (Suc n) = iterate c (z * z + c) n"

lemma iterate_Suc_right: "iterate c z (Suc n) = iterate c z n * iterate c z n + c"
  by (induction n arbitrary: z) simp_all

lemma orbit_iterate: "orbit c n = iterate c 0 n"
  by (induction n) (simp_all add: iterate_Suc_right del: iterate.simps(2))

lemma escape_steps_le: "escape_steps c z n \<le> n"
  by (induction n arbitrary: z) simp_all

lemma escape_steps_inside:
  "j < escape_steps c z n \<Longrightarrow> cmod (iterate c z j) \<le> 2"
proof (induction n arbitrary: z j)
  case 0
  then show ?case by simp
next
  case (Suc n)
  then show ?case by (cases j) (auto split: if_splits)
qed

lemma escape_steps_outside:
  "escape_steps c z n < n \<Longrightarrow> cmod (iterate c z (escape_steps c z n)) > 2"
  by (induction n arbitrary: z) (auto split: if_splits)

lemma escape_steps_full:
  "(\<And>j. j < n \<Longrightarrow> cmod (iterate c z j) \<le> 2) \<Longrightarrow> escape_steps c z n = n"
proof (induction n arbitrary: z)
  case 0
  show ?case by simp
next
  case (Suc n)
  from Suc.prems [of 0] have "cmod z \<le> 2" by simp
  moreover have "escape_steps c (z * z + c) n = n"
  proof (rule Suc.IH)
    fix j assume "j < n"
    then show "cmod (iterate c (z * z + c) j) \<le> 2" using Suc.prems [of "Suc j"] by simp
  qed
  ultimately show ?case by simp
qed

lemma escape_steps_first:
  assumes "m < n" "cmod (iterate c z m) > 2" "\<And>j. j < m \<Longrightarrow> cmod (iterate c z j) \<le> 2"
  shows "escape_steps c z n = m"
proof -
  let ?e = "escape_steps c z n"
  have "\<not> m < ?e" using escape_steps_inside [of m c z n] assms(2) by auto
  moreover have "\<not> ?e < m"
  proof
    assume "?e < m"
    with assms(1) have "?e < n" by simp
    then have "cmod (iterate c z ?e) > 2" by (rule escape_steps_outside)
    with assms(3) [OF \<open>?e < m\<close>] show False by simp
  qed
  ultimately show ?thesis by simp
qed

section \<open>Escaped orbits do not return\<close>

lemma escape_grows:
  assumes "cmod z > 2" "cmod c \<le> cmod z"
  shows "cmod (z * z + c) > cmod z"
proof -
  have "cmod (z * z) - cmod c \<le> cmod (z * z + c)"
    using norm_triangle_ineq2 [of "z * z" "- c"] by simp
  moreover have "cmod (z * z) = cmod z * cmod z" by (rule norm_mult)
  moreover from assms(1) have "2 * cmod z < cmod z * cmod z"
    by (intro mult_strict_right_mono) auto
  ultimately show ?thesis using assms(2) by linarith
qed

lemma iterate_escaped_stays:
  assumes "cmod z > 2" "cmod c \<le> cmod z"
  shows "cmod (iterate c z k) > 2 \<and> cmod c \<le> cmod (iterate c z k)"
  using assms
proof (induction k arbitrary: z)
  case 0
  then show ?case by simp
next
  case (Suc k)
  from Suc.prems have "cmod (z * z + c) > cmod z" by (rule escape_grows)
  with Suc.prems have "cmod (z * z + c) > 2" "cmod c \<le> cmod (z * z + c)" by simp_all
  then show ?case using Suc.IH by simp
qed

lemma iterate_add: "iterate c z (m + k) = iterate c (iterate c z m) k"
  by (induction m arbitrary: z) simp_all

lemma orbit_ge_param:
  assumes "cmod c > 2"
  shows "cmod (orbit c (Suc n)) > 2 \<and> cmod c \<le> cmod (orbit c (Suc n))"
proof -
  have "orbit c (Suc n) = iterate c c n"
    using iterate_add [of c 0 1 n] by (simp add: orbit_iterate)
  with assms show ?thesis using iterate_escaped_stays [of c c n] by simp
qed

lemma orbit_escaped_stays:
  assumes "cmod (orbit c n) > 2"
  shows "cmod (orbit c (n + k)) > 2"
proof -
  have "cmod c \<le> cmod (orbit c n)"
  proof (cases "cmod c > 2")
    case True
    from assms obtain n' where "n = Suc n'" by (cases n) auto
    with True show ?thesis using orbit_ge_param [of c n'] by simp
  next
    case False
    with assms show ?thesis by simp
  qed
  with assms have "cmod (iterate c (orbit c n) k) > 2"
    using iterate_escaped_stays by blast
  then show ?thesis by (simp add: orbit_iterate iterate_add)
qed

lemma cmod_gt_2_iff: "cmod z > 2 \<longleftrightarrow> Re z * Re z + Im z * Im z > 4"
proof -
  have "sqrt 4 < sqrt (Re z * Re z + Im z * Im z) \<longleftrightarrow> 4 < Re z * Re z + Im z * Im z"
    by (rule real_sqrt_less_iff)
  then show ?thesis by (simp add: cmod_def power2_eq_square)
qed

lemma cmod_le_2_iff: "cmod z \<le> 2 \<longleftrightarrow> Re z * Re z + Im z * Im z \<le> 4"
  using cmod_gt_2_iff [of z] by auto

lemma escape_steps_pos: "cmod z \<le> 2 \<Longrightarrow> 0 < n \<Longrightarrow> 0 < escape_steps c z n"
  by (cases n) simp_all

lemma escape_time_le: "escape_time c \<le> 100"
  by (simp add: escape_time_def escape_steps_le)

lemma escape_time_pos: "1 \<le> escape_time c"
  using escape_steps_pos [of 0 100 c] by (simp add: escape_time_def)

lemma escape_time_inside: "j < escape_time c \<Longrightarrow> cmod (orbit c j) \<le> 2"
  by (simp add: escape_time_def orbit_iterate escape_steps_inside)

lemma escape_time_outside: "escape_time c < 100 \<Longrightarrow> cmod (orbit c (escape_time c)) > 2"
  using escape_steps_outside [of c 0 100] by (simp add: escape_time_def orbit_iterate)

lemma escape_time_first:
  assumes "m < 100" "cmod (orbit c m) > 2" "\<And>j. j < m \<Longrightarrow> cmod (orbit c j) \<le> 2"
  shows "escape_time c = m"
  unfolding escape_time_def
  using assms by (intro escape_steps_first) (simp_all add: orbit_iterate)

lemma escape_time_full:
  assumes "\<And>j. j < 100 \<Longrightarrow> cmod (orbit c j) \<le> 2"
  shows "escape_time c = 100"
  unfolding escape_time_def
  using assms by (intro escape_steps_full) (simp_all add: orbit_iterate)

lemma orbit_small:
  assumes "cmod c \<le> 1/4"
  shows "cmod (orbit c n) \<le> 1/2"
proof (induction n)
  case 0
  show ?case by simp
next
  case (Suc n)
  have "cmod (orbit c n * orbit c n + c) \<le> cmod (orbit c n) * cmod (orbit c n) + cmod c"
    using norm_triangle_ineq [of "orbit c n * orbit c n" c] by (simp add: norm_mult)
  moreover from Suc.IH have "cmod (orbit c n) * cmod (orbit c n) \<le> (1/2) * (1/2)"
    by (intro mult_mono) simp_all
  ultimately show ?case using assms by simp
qed

lemma main_fractal_warp:
  "main_fractal u vUv = vec4 (vec3s (fractal (warp (time u) vUv) / 100)) 1"
  by (simp add: main_fractal_def warp_def Let_def)

lemma main_fractal_resolution [simp]:
  "main_fractal (u\<lparr>resolution := r\<rparr>) vUv = main_fractal u vUv"
  by (simp add: main_fractal_warp)

lemma warp_period: "warp (t + 2 * pi * real n) uv = warp t uv"
proof -
  have "sin (t + 2 * pi * real n + vy uv * 10) = sin (t + vy uv * 10)"
    using sin_period_nat [of "t + vy uv * 10" n] by (simp add: algebra_simps)
  moreover have "cos (t + 2 * pi * real n + a) = cos (t + a)" for a
    using cos_period_nat [of "t + a" n] by (simp add: algebra_simps)
  ultimately show ?thesis by (simp add: warp_def Let_def)
qed

section \<open>Properties of the fractal kernel\<close>

text \<open>
  C1. The loop of \<open>fractal\<close> refines the escape time of the quadratic iteration:
  read through \<open>param\<close> (the parameter \<open>c = uv * 3 - 1.5\<close> as a complex number),
  the float the shader returns is the number of iterations of \<open>z \<mapsto> z\<^sup>2 + c\<close> from
  \<open>0\<close> that are completed before an iterate of modulus above \<open>2\<close> is met, capped
  at \<open>100\<close>.
\<close>

theorem fractal_refines_escape_time: "fractal uv = real (escape_time (param uv))"
proof -
  let ?c = "3 *\<^sub>R uv - vec2 1.5 1.5"
  have "fractal uv = fractal_loop ?c 0 (vec2s 0) 0" by (simp add: fractal_def)
  also have "\<dots> = 0 + real (escape_steps (cplx ?c) (cplx (vec2s 0)) 100)"
    using fractal_loop_steps [of 100 ?c 0 0] by (simp add: vec_simps)
  also have "\<dots> = real (escape_time (param uv))"
    by (simp add: escape_time_def param_def vec_simps cplx_zero)
  finally show ?thesis .
qed

text \<open>
  C6. Stopping at the first escape loses nothing: the value of \<open>fractal\<close> is the
  number of the first hundred iterates that lie in the closed disc of radius
  \<open>2\<close>, because an orbit that has left the disc does not come back.
\<close>

theorem fractal_counts_bounded_iterates:
  "fractal uv = real (card {n. n < 100 \<and> cmod (orbit (param uv) n) \<le> 2})"
proof -
  let ?c = "param uv" and ?e = "escape_time (param uv)"
  have "{n. n < 100 \<and> cmod (orbit ?c n) \<le> 2} = {n. n < ?e}"
  proof (intro set_eqI iffI; clarsimp)
    fix n assume n: "n < 100" "cmod (orbit ?c n) \<le> 2"
    show "n < ?e"
    proof (rule ccontr)
      assume "\<not> n < ?e"
      then obtain k where k: "n = ?e + k" using le_Suc_ex [of ?e n] by auto
      with n have "?e < 100" by simp
      then have "cmod (orbit ?c (?e + k)) > 2"
        by (intro orbit_escaped_stays escape_time_outside)
      with n k show False by simp
    qed
  next
    fix n assume "n < ?e"
    then show "n < 100 \<and> cmod (orbit ?c n) \<le> 2"
      using escape_time_le [of ?c] by (simp add: escape_time_inside)
  qed
  then show ?thesis by (simp add: fractal_escape_time)
qed

text \<open>
  The iteration count is a whole number between \<open>1\<close> and \<open>100\<close>: the first
  test is on \<open>z = 0\<close> and never breaks, so the count is never \<open>0\<close>, and the loop
  bound caps it.
\<close>

theorem fractal_range: "\<exists>n. fractal uv = real n \<and> 1 \<le> n \<and> n \<le> 100"
  using escape_time_pos escape_time_le fractal_escape_time by blast

text \<open>
  C10. A parameter outside the closed disc of radius \<open>2\<close> escapes at once: the
  loop completes exactly one iteration (the one that moves \<open>z\<close> from \<open>0\<close> to \<open>c\<close>).
\<close>

theorem fractal_far_parameter:
  assumes "cmod (param uv) > 2"
  shows "fractal uv = 1"
proof -
  have "escape_time (param uv) = 1"
    using assms by (intro escape_time_first) simp_all
  then show ?thesis by (simp add: fractal_escape_time)
qed

theorem fractal_far_parameter_witness:
  "cmod (param (vec2 0 0)) > 2 \<and> fractal (vec2 0 0) = 1"
proof -
  have far: "cmod (param (vec2 0 0)) > 2"
    by (simp add: param_def vec_simps cplx_def cmod_gt_2_iff)
  from far fractal_far_parameter [OF far] show ?thesis by simp
qed

text \<open>
  C11. A parameter of modulus at most \<open>1/4\<close> never escapes (its orbit stays in
  the disc of radius \<open>1/2\<close>), so the loop runs to its cap and \<open>fractal\<close> returns
  \<open>100\<close>: full intensity.
\<close>

theorem fractal_interior_white:
  assumes "cmod (param uv) \<le> 1/4"
  shows "fractal uv = 100"
proof -
  have "cmod (orbit (param uv) j) \<le> 2" for j
    using orbit_small [OF assms, of j] by simp
  then have "escape_time (param uv) = 100" by (intro escape_time_full)
  then show ?thesis by (simp add: fractal_escape_time)
qed

theorem fractal_interior_white_witness:
  "cmod (param (vec2 (1/2) (1/2))) \<le> 1/4 \<and> fractal (vec2 (1/2) (1/2)) = 100"
proof -
  have "param (vec2 (1/2) (1/2)) = 0"
    by (simp add: param_def vec_simps cplx_def complex_eq_iff)
  then have near: "cmod (param (vec2 (1/2) (1/2))) \<le> 1/4" by simp
  from near fractal_interior_white [OF near] show ?thesis by simp
qed

text \<open>
  C12. Below the cap the count is the index of the first iterate outside the
  disc: \<open>fractal uv = n\<close> for \<open>n < 100\<close> exactly when the \<open>n\<close>-th iterate has
  modulus above \<open>2\<close> and no earlier one has. The test is strict: an iterate of
  modulus exactly \<open>2\<close> has not escaped.
\<close>

theorem fractal_first_escape:
  assumes "n < 100"
  shows "fractal uv = real n \<longleftrightarrow>
    cmod (orbit (param uv) n) > 2 \<and> (\<forall>j<n. cmod (orbit (param uv) j) \<le> 2)"
proof
  assume "fractal uv = real n"
  then have "escape_time (param uv) = n" by (simp add: fractal_escape_time)
  with assms show "cmod (orbit (param uv) n) > 2 \<and> (\<forall>j<n. cmod (orbit (param uv) j) \<le> 2)"
    using escape_time_outside [of "param uv"] escape_time_inside [of _ "param uv"] by auto
next
  assume "cmod (orbit (param uv) n) > 2 \<and> (\<forall>j<n. cmod (orbit (param uv) j) \<le> 2)"
  with assms have "escape_time (param uv) = n" by (intro escape_time_first) simp_all
  then show "fractal uv = real n" by (simp add: fractal_escape_time)
qed

theorem fractal_first_escape_witness: "fractal (vec2 (5/6) (1/2)) = 3"
proof -
  have c: "param (vec2 (5/6) (1/2)) = 1"
    by (simp add: param_def vec_simps cplx_def complex_eq_iff)
  have "cmod (orbit 1 3) > 2 \<and> (\<forall>j<3. cmod (orbit 1 j) \<le> 2)"
    by (simp add: eval_nat_numeral less_Suc_eq)
  with fractal_first_escape [of 3 "vec2 (5/6) (1/2)"] c show ?thesis by simp
qed

text \<open>
  The colour \<open>main\<close> writes is grey and opaque, and its intensity is the
  iteration count of the warped coordinate divided by \<open>100\<close>, so it lies between
  \<open>0.01\<close> and \<open>1\<close>: no channel leaves the displayable range.
\<close>

theorem main_fractal_output:
  "\<exists>g. main_fractal u vUv = vec4 (vec3s g) 1 \<and> g = fractal (warp (time u) vUv) / 100
     \<and> 1/100 \<le> g \<and> g \<le> 1"
proof -
  let ?n = "escape_time (param (warp (time u) vUv))"
  have "1 \<le> ?n" "?n \<le> 100" by (rule escape_time_pos escape_time_le)+
  then show ?thesis
    by (intro exI [of _ "real ?n / 100"]) (simp add: main_fractal_warp fractal_escape_time)
qed

text \<open>
  The fractal animation is periodic in the time uniform with period \<open>2\<pi>\<close>:
  the picture at time \<open>t + 2\<pi>k\<close> is the picture at time \<open>t\<close>.
\<close>

theorem main_fractal_time_periodic:
  "main_fractal (u\<lparr>time := time u + 2 * pi * real k\<rparr>) vUv = main_fractal u vUv"
  by (simp add: main_fractal_warp warp_period)

section \<open>Symmetry\<close>

lemma escape_steps_cnj: "escape_steps (cnj c) (cnj z) n = escape_steps c z n"
proof (induction n arbitrary: z)
  case 0
  show ?case by simp
next
  case (Suc n)
  have "cnj z * cnj z + cnj c = cnj (z * z + c)" by simp
  with Suc.IH [of "z * z + c"] show ?case by (simp del: complex_cnj_add complex_cnj_mult)
qed

lemma escape_time_cnj: "escape_time (cnj c) = escape_time c"
  using escape_steps_cnj [of c 0 100] by (simp add: escape_time_def)

lemma param_mirror: "param (vec2 x (1 - y)) = cnj (param (vec2 x y))"
  by (simp add: param_def cplx_def vec_simps complex_eq_iff)

text \<open>
  The iteration count is symmetric about the horizontal midline of the
  surface: mirroring \<open>uv\<close> conjugates the parameter, and conjugate parameters have
  conjugate orbits.
\<close>

theorem fractal_mirror: "fractal (vec2 x (1 - y)) = fractal (vec2 x y)"
  by (simp add: fractal_escape_time param_mirror escape_time_cnj)

end
