(* ===== verification/Fractal_While.thy ===== *)
theory Fractal_While
  imports Fractal_Kernel "HOL-Library.While_Combinator"
begin

text \<open>
  The \<^verbatim>\<open>for\<close> loop of \<open>fractal\<close> kept as a loop. Theory \<open>Fractal_Kernel\<close> models
  the loop by the recursive function \<open>fractal_loop\<close>, whose termination is settled
  when it is defined. Here the same lines are read as the shader executes them: a
  state of the loop variables (\<open>i\<close>, \<open>z\<close>, \<open>iterations\<close>, and whether \<^verbatim>\<open>break\<close> was
  taken), the loop test, and the body as a state transformer, run by
  \<open>while_option\<close>. That this loop returns is then a theorem: it stops after at most
  100 completed iterations, and its result is the value of \<open>fractal\<close>.
\<close>

section \<open>The loop as a state transformer\<close>

record loop_state =
  ls_i :: int
  ls_z :: vec2
  ls_iterations :: real
  ls_break :: bool

definition loop_init :: loop_state where
  "loop_init = \<lparr>ls_i = 0, ls_z = vec2s 0, ls_iterations = 0, ls_break = False\<rparr>"

definition loop_cond :: "loop_state \<Rightarrow> bool" where
  "loop_cond s \<longleftrightarrow> ls_i s < 100 \<and> \<not> ls_break s"

definition loop_body :: "vec2 \<Rightarrow> loop_state \<Rightarrow> loop_state" where
  "loop_body c s =
     (if length_v2 (ls_z s) > 2 then s\<lparr>ls_break := True\<rparr>
      else s\<lparr>ls_z := vec2 (vx (ls_z s) * vx (ls_z s) - vy (ls_z s) * vy (ls_z s))
                       (2 * vx (ls_z s) * vy (ls_z s)) + c,
             ls_iterations := ls_iterations s + 1,
             ls_i := ls_i s + 1\<rparr>)"

definition fractal_for :: "vec2 \<Rightarrow> real option" where
  "fractal_for uv =
     (let c = 3 *\<^sub>R uv - vec2 1.5 1.5
      in map_option ls_iterations (while_option loop_cond (loop_body c) loop_init))"

section \<open>Invariant and measure\<close>

text \<open>
  The float \<open>iterations\<close> and the integer \<open>i\<close> count the same thing, and \<open>i\<close> never
  passes the bound. What decreases with every execution of the body is the distance
  of \<open>i\<close> to the bound, or, when the body takes the \<^verbatim>\<open>break\<close>, the flag.
\<close>

definition loop_inv_for :: "loop_state \<Rightarrow> bool" where
  "loop_inv_for s \<longleftrightarrow> 0 \<le> ls_i s \<and> ls_i s \<le> 100 \<and> ls_iterations s = real_of_int (ls_i s)"

definition loop_measure :: "loop_state \<Rightarrow> nat" where
  "loop_measure s = (if ls_break s then 0 else nat (101 - ls_i s))"

lemma loop_inv_for_init [simp]: "loop_inv_for loop_init"
  by (simp add: loop_inv_for_def loop_init_def)

lemma loop_body_inv:
  assumes "loop_inv_for s" "loop_cond s"
  shows "loop_inv_for (loop_body c s)" "loop_measure (loop_body c s) < loop_measure s"
  using assms by (auto simp: loop_inv_for_def loop_cond_def loop_body_def loop_measure_def)

lemma loop_halts:
  assumes "loop_inv_for s"
  shows "\<exists>t. while_option loop_cond (loop_body c) s = Some t"
  using _ assms
  by (rule measure_while_option_Some [where P = loop_inv_for and f = loop_measure])
    (simp add: loop_body_inv)

lemma loop_result_inv:
  assumes "while_option loop_cond (loop_body c) s = Some t" "loop_inv_for s"
  shows "loop_inv_for t"
  using _ assms by (rule while_option_rule) (rule loop_body_inv)

section \<open>The loop and the recursive function\<close>

lemma loop_fractal_loop:
  "while_option loop_cond (loop_body c)
      \<lparr>ls_i = i, ls_z = z, ls_iterations = it, ls_break = False\<rparr> = Some t \<Longrightarrow>
   ls_iterations t = fractal_loop c i z it"
proof (induction c i z it arbitrary: t rule: fractal_loop.induct)
  case (1 c i z it)
  let ?s = "\<lparr>ls_i = i, ls_z = z, ls_iterations = it, ls_break = False\<rparr>"
  show ?case
  proof (cases "i < 100")
    case False
    with "1.prems" have "t = ?s" by (subst (asm) while_option_unfold) (simp add: loop_cond_def)
    with False show ?thesis by (subst fractal_loop.simps) simp
  next
    case True
    then have run: "while_option loop_cond (loop_body c) (loop_body c ?s) = Some t"
      using "1.prems" by (subst (asm) while_option_unfold) (simp add: loop_cond_def)
    show ?thesis
    proof (cases "length_v2 z > 2")
      case escaped: True
      with run have "t = ?s\<lparr>ls_break := True\<rparr>"
        by (subst (asm) while_option_unfold) (simp add: loop_cond_def loop_body_def)
      with True escaped show ?thesis by (simp add: fractal_loop_escaped)
    next
      case False
      let ?z' = "vec2 (vx z * vx z - vy z * vy z) (2 * vx z * vy z) + c"
      from False have "loop_body c ?s =
          \<lparr>ls_i = i + 1, ls_z = ?z', ls_iterations = it + 1, ls_break = False\<rparr>"
        by (simp add: loop_body_def)
      with run have "ls_iterations t = fractal_loop c (i + 1) ?z' (it + 1)"
        using True False by (intro "1.IH") simp_all
      with True False show ?thesis by (simp add: fractal_loop_iterate)
    qed
  qed
qed

section \<open>Termination\<close>

text \<open>
  C35. The \<^verbatim>\<open>for\<close> loop of \<open>fractal\<close> terminates, for every surface coordinate: run
  as a loop over its variables it reaches a final state, in which \<open>i\<close> is at most
  \<open>100\<close> and equals the float \<open>iterations\<close>, and the value returned is the value of
  the recursive \<open>fractal\<close>.
\<close>

theorem fractal_for_terminates:
  "\<exists>t. while_option loop_cond (loop_body (3 *\<^sub>R uv - vec2 1.5 1.5)) loop_init = Some t \<and>
     ls_i t \<le> 100 \<and> ls_iterations t = real_of_int (ls_i t) \<and>
     fractal_for uv = Some (fractal uv)"
proof -
  let ?c = "3 *\<^sub>R uv - vec2 1.5 1.5"
  obtain t where t: "while_option loop_cond (loop_body ?c) loop_init = Some t"
    using loop_halts [of loop_init ?c] by auto
  then have "loop_inv_for t" by (rule loop_result_inv) simp
  moreover from t have "ls_iterations t = fractal uv"
    unfolding loop_init_def by (simp add: loop_fractal_loop fractal_def)
  ultimately show ?thesis using t by (simp add: loop_inv_for_def fractal_for_def)
qed

text \<open>A closed instance runs by unfolding the loop: outside the disc the first test after
  the first update takes the \<^verbatim>\<open>break\<close>.\<close>

lemma fractal_for_corner: "fractal_for (vec2 0 0) = Some 1"
  by (simp add: fractal_for_def loop_init_def while_option_unfold loop_cond_def loop_body_def
      vec_simps length_v2_gt_2_iff)

end
