(* ===== verification/Interference_Kernel.thy ===== *)
theory Interference_Kernel
  imports Uniforms
begin

text \<open>
  The fragment shader of \<^verbatim>\<open>QuantumVisualization.tsx\<close>: the wave pattern
  \<open>interference\<close> and \<open>main\<close>, which blends the two colour states by a factor that
  oscillates with time (the superposition), blends the result towards \<open>stateA\<close> by
  the \<open>collapse\<close> uniform, and scales it by the pattern.

  \<open>main_quantum\<close> is the body of \<open>main\<close> with its local variables as a chain of
  \<open>let\<close>s. \<open>blendFactor\<close>, \<open>superposition\<close> and \<open>brightness\<close> name three of these
  locals as functions of their inputs, so that the lemmas can speak of them. The
  lemmas give the colour on both values of the mode flag, the range of every
  channel, and the periods of the picture in time and space.
\<close>

section \<open>The shader\<close>

definition interference :: "vec2 \<Rightarrow> real \<Rightarrow> real" where
  "interference uv t =
     (let wave1 = sin ((vx uv + t) * 10);
          wave2 = cos ((vy uv - t) * 10)
      in (wave1 + wave2) * 0.5)"

definition stateA :: vec3 where
  "stateA = vec3 0.2 0.4 0.8"

definition stateB :: vec3 where
  "stateB = vec3 0.8 0.3 0.3"

definition main_quantum :: "quantum_uniforms \<Rightarrow> vec2 \<Rightarrow> vec4" where
  "main_quantum u vUv =
     (let uv = vUv;
          pattern = interference uv (time u);
          blendFactor = 0.5 + 0.5 * sin (time u * 2);
          superposition = mix stateA stateB blendFactor;
          finalColor = mix superposition stateA (collapse u);
          finalColor = (0.5 + 0.5 * pattern) *\<^sub>R finalColor
      in vec4 finalColor 1)"

section \<open>The locals of \<open>main\<close> as functions\<close>

definition blendFactor :: "real \<Rightarrow> real" where
  "blendFactor t = 0.5 + 0.5 * sin (t * 2)"

definition superposition :: "real \<Rightarrow> vec3" where
  "superposition t = mix stateA stateB (blendFactor t)"

definition brightness :: "vec2 \<Rightarrow> real \<Rightarrow> real" where
  "brightness uv t = 0.5 + 0.5 * interference uv t"

lemmas [kernel_defs] =
  interference_def main_quantum_def blendFactor_def superposition_def brightness_def

lemma main_quantum_unfold:
  "main_quantum u vUv =
     vec4 (brightness vUv (time u) *\<^sub>R mix (superposition (time u)) stateA (collapse u)) 1"
  by (simp add: kernel_defs Let_def)

section \<open>Ranges\<close>

lemma interference_bounds: "- 1 \<le> interference uv t" "interference uv t \<le> 1"
  using avg_sin_cos_bounds [of "(vx uv + t) * 10" "(vy uv - t) * 10"]
  by (simp_all add: interference_def Let_def)

lemma unit_blendFactor [simp]: "unit_interval (blendFactor t)"
  unfolding blendFactor_def by (rule unit_interval_half_sin)

lemma unit_brightness [simp]: "unit_interval (brightness uv t)"
  unfolding brightness_def by (rule unit_interval_half) (rule interference_bounds)+

lemma channels_states [simp]:
  "channels_in (1/5) (4/5) stateA" "channels_in (1/5) (4/5) stateB"
  by (simp_all add: channels_in_def stateA_def stateB_def)

lemma channels_superposition [simp]: "channels_in (1/5) (4/5) (superposition t)"
  unfolding superposition_def by (rule channels_in_mix) simp_all

text \<open>The colour after the collapse mix and the scaling by the pattern.\<close>

lemma channels_shaded:
  assumes "unit_interval a"
  shows "channels_in 0 (4/5) (brightness uv t *\<^sub>R mix (superposition t) stateA a)"
proof -
  have "channels_in (1/5) (4/5) (mix (superposition t) stateA a)"
    using assms by (intro channels_in_mix) simp_all
  then have "channels_in 0 (4/5) (mix (superposition t) stateA a)"
    by (rule channels_in_mono) simp_all
  then show ?thesis by (intro channels_in_scale) simp_all
qed

lemma main_quantum_resolution [simp]:
  "main_quantum (u\<lparr>resolution := r\<rparr>) vUv = main_quantum u vUv"
  by (simp add: main_quantum_unfold)

section \<open>Periods\<close>

lemma sin_minus_period_nat: "sin (a - 2 * pi * real n) = sin a"
  using sin_period_nat [of "a - 2 * pi * real n" n] by simp

lemma cos_minus_period_nat: "cos (a - 2 * pi * real n) = cos a"
  using cos_period_nat [of "a - 2 * pi * real n" n] by simp

lemma interference_time_period: "interference uv (t + pi * real k) = interference uv t"
proof -
  have "(vx uv + (t + pi * real k)) * 10 = (vx uv + t) * 10 + 2 * pi * real (5 * k)"
    and "(vy uv - (t + pi * real k)) * 10 = (vy uv - t) * 10 - 2 * pi * real (5 * k)"
    by (simp_all add: algebra_simps)
  then show ?thesis
    by (simp only: interference_def sin_period_nat cos_minus_period_nat)
qed

lemma blendFactor_period: "blendFactor (t + pi * real k) = blendFactor t"
proof -
  have "(t + pi * real k) * 2 = t * 2 + 2 * pi * real k" by (simp add: algebra_simps)
  then show ?thesis by (simp only: blendFactor_def sin_period_nat)
qed

lemma interference_space_period:
  "interference (uv + vec2 (pi / 5 * real m) (pi / 5 * real n)) t = interference uv t"
proof -
  have "sin ((vx uv + pi / 5 * real m + t) * 10) = sin ((vx uv + t) * 10)"
    using sin_period_nat [of "(vx uv + t) * 10" m] by (simp add: algebra_simps)
  moreover have "cos ((vy uv + pi / 5 * real n - t) * 10) = cos ((vy uv - t) * 10)"
    using cos_period_nat [of "(vy uv - t) * 10" n] by (simp add: algebra_simps)
  ultimately show ?thesis
    by (simp only: interference_def Let_def vec_simps vec2.sel)
qed

section \<open>Properties of the interference kernel\<close>

text \<open>
  C7. The mode flag selects the colour state. With \<open>collapse = 1\<close> the colour is
  \<open>stateA\<close> scaled by the brightness of the pattern, whatever the blend factor
  is at that time; with \<open>collapse = 0\<close> it is the superposition scaled by the
  same brightness.
\<close>

theorem main_quantum_collapse:
  assumes "collapse u = 0 \<or> collapse u = 1"
  shows "main_quantum u vUv =
    vec4 (brightness vUv (time u) *\<^sub>R (if collapse u = 1 then stateA else superposition (time u))) 1"
  using assms by (auto simp: main_quantum_unfold)

theorem main_quantum_collapse_witness:
  "main_quantum \<lparr>time = 0, resolution = vec2 800 600, collapse = 1\<rparr> (vec2 0 0)
     = vec4 ((3/4) *\<^sub>R stateA) 1"
proof -
  have "brightness (vec2 0 0) 0 = 3/4" by (simp add: brightness_def interference_def)
  with main_quantum_collapse [of "\<lparr>time = 0, resolution = vec2 800 600, collapse = 1\<rparr>" "vec2 0 0"]
  show ?thesis by simp
qed

text \<open>
  C8. For a mode flag in the unit interval (the engine only ever writes \<open>0\<close> and
  \<open>1\<close>) every colour channel \<open>main\<close> writes lies between \<open>0\<close> and \<open>0.8\<close>, and the
  alpha channel is \<open>1\<close>: the output needs no clamping.
\<close>

theorem main_quantum_range:
  assumes "unit_interval (collapse u)"
  shows "channels_in 0 (4/5) (rgb (main_quantum u vUv)) \<and> alpha (main_quantum u vUv) = 1"
  using channels_shaded [OF assms] by (simp add: main_quantum_unfold)

theorem main_quantum_range_witness:
  "channels_in 0 (4/5) (rgb (main_quantum \<lparr>time = 0, resolution = vec2 800 600, collapse = 0\<rparr> (vec2 0 0)))
   \<and> alpha (main_quantum \<lparr>time = 0, resolution = vec2 800 600, collapse = 0\<rparr> (vec2 0 0)) = 1"
  using main_quantum_range [of "\<lparr>time = 0, resolution = vec2 800 600, collapse = 0\<rparr>" "vec2 0 0"]
  by simp

text \<open>
  The interference animation is periodic in the time uniform with period
  \<open>\<pi>\<close>: the two waves have period \<open>\<pi>/5\<close> in time and the blend factor has period
  \<open>\<pi>\<close>.
\<close>

theorem main_quantum_time_periodic:
  "main_quantum (u\<lparr>time := time u + pi * real k\<rparr>) vUv = main_quantum u vUv"
  by (simp add: main_quantum_unfold brightness_def superposition_def
      interference_time_period blendFactor_period)

text \<open>
  At time \<open>0\<close> the blend factor is \<open>0.5\<close> and the superposition is the exact
  midpoint of the two colour states, \<open>(0.5, 0.35, 0.55)\<close>.
\<close>

theorem superposition_at_start:
  "blendFactor 0 = 1/2 \<and> superposition 0 = (1/2) *\<^sub>R (stateA + stateB)
     \<and> superposition 0 = vec3 0.5 0.35 0.55"
proof -
  have b: "blendFactor 0 = 1/2" by (simp add: blendFactor_def)
  have "superposition 0 = (1/2) *\<^sub>R (stateA + stateB)"
    unfolding superposition_def b by (rule mix_half)
  moreover have "(1/2) *\<^sub>R (stateA + stateB) = vec3 0.5 0.35 0.55"
    by (simp add: vec3_eq_iff vec_simps stateA_def stateB_def)
  ultimately show ?thesis using b by simp
qed

text \<open>
  The interference picture repeats in space: shifting the surface coordinate
  by a multiple of \<open>\<pi>/5\<close> in either direction changes no colour.
\<close>

theorem main_quantum_space_periodic:
  "main_quantum u (vUv + vec2 (pi / 5 * real m) (pi / 5 * real n)) = main_quantum u vUv"
  unfolding main_quantum_unfold brightness_def interference_space_period ..

end
