(* ===== verification/Three_Clock.thy ===== *)
theory Three_Clock
  imports FM_Prelude
begin

text \<open>
  The clock the scripts create with \<^verbatim>\<open>new THREE.Clock()\<close> and read once per frame
  with \<^verbatim>\<open>clock.getElapsedTime()\<close>. The class belongs to the three.js library, not to
  the repository; it is modelled after its documented behaviour, which is what
  section 4.1 of the specification abstracts: the clock starts itself on the first
  read (\<open>autoStart\<close>), and each later read adds the time since the previous read to
  \<open>elapsedTime\<close>. The host's \<^verbatim>\<open>performance.now()\<close> is the argument \<open>now\<close>, in
  milliseconds; results are in seconds.

  The abstract clock of the specification is \<open>elapsed\<close>: seconds since a recorded
  origin. \<open>clock_inv\<close> is the invariant that ties the accumulated \<open>elapsedTime\<close> to
  it, and the lemmas show that the reads refine \<open>elapsed\<close> and are monotone as long
  as the host's time does not run backwards. \<open>stop\<close>, which no script calls,
  completes the class: a stopped clock keeps its last reading.
\<close>

section \<open>The clock\<close>

record clock =
  autoStart :: bool
  startTime :: real
  oldTime :: real
  elapsedTime :: real
  running :: bool

definition Clock :: clock where
  "Clock = \<lparr>autoStart = True, startTime = 0, oldTime = 0, elapsedTime = 0, running = False\<rparr>"

definition start :: "real \<Rightarrow> clock \<Rightarrow> clock" where
  "start now c = c\<lparr>startTime := now, oldTime := now, elapsedTime := 0, running := True\<rparr>"

definition getDelta :: "real \<Rightarrow> clock \<Rightarrow> real \<times> clock" where
  "getDelta now c =
     (if autoStart c \<and> \<not> running c then (0, start now c)
      else if running c then
        (let diff = (now - oldTime c) / 1000
         in (diff, c\<lparr>oldTime := now, elapsedTime := elapsedTime c + diff\<rparr>))
      else (0, c))"

definition getElapsedTime :: "real \<Rightarrow> clock \<Rightarrow> real \<times> clock" where
  "getElapsedTime now c = (let c' = snd (getDelta now c) in (elapsedTime c', c'))"

text \<open>
  \<^verbatim>\<open>Clock.stop\<close> takes a last reading and switches the clock and its automatic
  start off. No script calls it: the engine's invariant has the clock running.
\<close>

definition stop :: "real \<Rightarrow> clock \<Rightarrow> clock" where
  "stop now c = (snd (getElapsedTime now c))\<lparr>running := False, autoStart := False\<rparr>"

section \<open>The abstract clock\<close>

definition elapsed :: "real \<Rightarrow> real \<Rightarrow> real" where
  "elapsed origin now = (now - origin) / 1000"

definition clock_inv :: "clock \<Rightarrow> bool" where
  "clock_inv c \<longleftrightarrow>
     (if running c then elapsedTime c = elapsed (startTime c) (oldTime c)
      else autoStart c \<and> elapsedTime c = 0)"

lemmas [clock_defs] = Clock_def start_def getDelta_def getElapsedTime_def elapsed_def

section \<open>Reads\<close>

lemma clock_inv_Clock [simp]: "clock_inv Clock"
  by (simp add: clock_inv_def Clock_def)

lemma getElapsedTime_first:
  "\<not> running c \<Longrightarrow> autoStart c \<Longrightarrow>
   getElapsedTime now c = (0, c\<lparr>startTime := now, oldTime := now, elapsedTime := 0, running := True\<rparr>)"
  by (simp add: clock_defs)

lemma getElapsedTime_running:
  "running c \<Longrightarrow>
   getElapsedTime now c =
     (elapsedTime c + (now - oldTime c) / 1000,
      c\<lparr>oldTime := now, elapsedTime := elapsedTime c + (now - oldTime c) / 1000\<rparr>)"
  by (simp add: clock_defs Let_def)

lemma getElapsedTime_result: "fst (getElapsedTime now c) = elapsedTime (snd (getElapsedTime now c))"
  by (simp add: getElapsedTime_def Let_def)

lemma getElapsedTime_inv:
  assumes "clock_inv c"
  shows "clock_inv (snd (getElapsedTime now c))"
proof (cases "running c")
  case True
  with assms show ?thesis
    by (simp add: getElapsedTime_running clock_inv_def elapsed_def diff_divide_distrib)
next
  case False
  with assms show ?thesis
    by (simp add: getElapsedTime_first clock_inv_def elapsed_def)
qed

lemma getElapsedTime_running_after:
  "clock_inv c \<Longrightarrow> running (snd (getElapsedTime now c))"
  by (cases "running c") (simp_all add: getElapsedTime_first getElapsedTime_running clock_inv_def)

lemma getElapsedTime_oldTime:
  "clock_inv c \<Longrightarrow> oldTime (snd (getElapsedTime now c)) = now"
  by (cases "running c") (simp_all add: getElapsedTime_first getElapsedTime_running clock_inv_def)

lemma getElapsedTime_startTime:
  "running c \<Longrightarrow> startTime (snd (getElapsedTime now c)) = startTime c"
  by (simp add: getElapsedTime_running)

text \<open>A read of a running clock returns the abstract clock's value at the read.\<close>

lemma getElapsedTime_refines:
  assumes "clock_inv c" "running c"
  shows "fst (getElapsedTime now c) = elapsed (startTime c) now"
  using assms by (simp add: getElapsedTime_running clock_inv_def elapsed_def diff_divide_distrib)

lemma getElapsedTime_mono:
  assumes "clock_inv c" "oldTime c \<le> now"
  shows "elapsedTime c \<le> fst (getElapsedTime now c)"
proof (cases "running c")
  case True
  with assms show ?thesis by (simp add: getElapsedTime_running)
next
  case False
  with assms show ?thesis by (simp add: getElapsedTime_first clock_inv_def)
qed

section \<open>The stopped clock\<close>

text \<open>A stopped clock holds the reading taken when it was stopped, whatever the time.\<close>

lemma stop_reading:
  assumes "clock_inv c" "running c"
  shows "elapsedTime (stop now c) = elapsed (startTime c) now"
  using getElapsedTime_refines [OF assms, of now]
  by (simp add: stop_def getElapsedTime_result)

lemma stop_frozen: "getElapsedTime now' (stop now c) = (elapsedTime (stop now c), stop now c)"
  by (simp add: stop_def getElapsedTime_def getDelta_def)

end
