(* ===== verification/Engine.thy ===== *)
theory Engine
  imports Uniforms Three_Clock
begin

text \<open>
  The scripts outside their shaders: what \<^verbatim>\<open>initFractalAnimation\<close>
  (\<^verbatim>\<open>FractalAnimation.ts\<close>) and the effects of the two React components
  (\<^verbatim>\<open>FractalAnimation.tsx\<close>, \<^verbatim>\<open>QuantumVisualization.tsx\<close>) construct, and the
  closures they register: \<open>handleResize\<close>, \<open>handleClick\<close>, \<open>animate\<close> and the cleanup
  functions.

  State. \<open>host\<close> is what the scripts read of the browser: the window's inner size,
  whether the mount node exists, \<^verbatim>\<open>performance.now()\<close> and the console. \<open>world\<close>
  extends it by the objects a script creates and the registrations it makes: camera,
  renderer, geometry, the material's uniforms, the scene, the clock, the listeners on
  the window and on the canvas, the queue of requested animation frames, the cleanup
  function React holds, and \<open>frames\<close>, the log of the draws issued (one entry per
  \<^verbatim>\<open>renderer.render\<close>, with the uniforms and the projection the draw used). The type
  parameter of \<open>world\<close> is the extension of the uniform record: \<open>unit\<close> for the fractal
  scripts, the \<open>collapse\<close> field for the interference script.

  Calls into three.js and the DOM appear as the field updates they cause. The
  quotient \<^verbatim>\<open>innerWidth / innerHeight\<close> is a \<open>jsnum\<close>: a JavaScript division by zero
  yields \<open>Infinity\<close> or \<open>NaN\<close> where HOL's would yield \<open>0\<close>.
\<close>

section \<open>JavaScript numbers that may leave the reals\<close>

datatype jsnum = Num real | Infinity | NaN

definition js_div :: "nat \<Rightarrow> nat \<Rightarrow> jsnum" where
  "js_div w h =
     (if h = 0 then (if w = 0 then NaN else Infinity) else Num (real w / real h))"

section \<open>Objects\<close>

record camera =
  fov :: real
  aspect :: jsnum
  near :: real
  far :: real
  position_z :: real
  projection :: "real \<times> jsnum \<times> real \<times> real"

record renderer =
  antialias :: bool
  canvas_size :: "nat \<times> nat"
  disposed :: bool

record plane_geometry =
  width :: real
  height :: real
  widthSegments :: nat
  heightSegments :: nat

record 'u frame =
  frame_uniforms :: "'u uniforms_scheme"
  frame_projection :: "real \<times> jsnum \<times> real \<times> real"
  frame_size :: "nat \<times> nat"
  frame_disposed :: bool

record host =
  innerWidth :: nat
  innerHeight :: nat
  container :: bool
  performance_now :: real
  console :: "string list"

record 'u world = host +
  camera :: camera
  renderer :: renderer
  canvas_attached :: bool
  geometry :: plane_geometry
  geometry_disposed :: bool
  material_uniforms :: "'u uniforms_scheme"
  material_disposed :: bool
  scene :: nat
  resize_listener :: bool
  click_listener :: bool
  clock :: clock
  raf_queue :: nat
  frames :: "'u frame list"
  cleanup_held :: bool

type_synonym fractal_world = "unit world"
type_synonym quantum_world = "unit quantum_uniforms_ext world"

section \<open>Library calls\<close>

text \<open>
  \<^verbatim>\<open>camera.updateProjectionMatrix()\<close> recomputes the projection from the camera's
  current parameters; the model keeps the parameters it was computed from. The
  constructor computes it once. \<^verbatim>\<open>renderer.render(scene, camera)\<close> issues a draw.
\<close>

definition updateProjectionMatrix :: "camera \<Rightarrow> camera" where
  "updateProjectionMatrix c = c\<lparr>projection := (fov c, aspect c, near c, far c)\<rparr>"

definition PerspectiveCamera :: "real \<Rightarrow> jsnum \<Rightarrow> real \<Rightarrow> real \<Rightarrow> camera" where
  "PerspectiveCamera f a n fr =
     \<lparr>fov = f, aspect = a, near = n, far = fr, position_z = 0, projection = (f, a, n, fr)\<rparr>"

definition render :: "'u world \<Rightarrow> 'u world" where
  "render s =
     s\<lparr>frames := frames s @
        [\<lparr>frame_uniforms = material_uniforms s,
          frame_projection = projection (camera s),
          frame_size = canvas_size (renderer s),
          frame_disposed = disposed (renderer s)\<rparr>]\<rparr>"

section \<open>The closures\<close>

definition handleResize :: "'u world \<Rightarrow> 'u world" where
  "handleResize s =
     (let s = s\<lparr>camera := (camera s)\<lparr>aspect := js_div (innerWidth s) (innerHeight s)\<rparr>\<rparr>;
          s = s\<lparr>camera := updateProjectionMatrix (camera s)\<rparr>;
          s = s\<lparr>renderer := (renderer s)\<lparr>canvas_size := (innerWidth s, innerHeight s)\<rparr>\<rparr>;
          s = s\<lparr>material_uniforms := (material_uniforms s)
                \<lparr>resolution := vec2 (real (innerWidth s)) (real (innerHeight s))\<rparr>\<rparr>
      in s)"

definition handleClick :: "quantum_world \<Rightarrow> quantum_world" where
  "handleClick s =
     s\<lparr>material_uniforms := (material_uniforms s)
        \<lparr>collapse := (if collapse (material_uniforms s) = 0 then 1 else 0)\<rparr>\<rparr>"

definition animate :: "'u world \<Rightarrow> 'u world" where
  "animate s =
     (let s = s\<lparr>raf_queue := raf_queue s + 1\<rparr>;
          (t, c) = getElapsedTime (performance_now s) (clock s);
          s = s\<lparr>clock := c, material_uniforms := (material_uniforms s)\<lparr>time := t\<rparr>\<rparr>
      in render s)"

definition cleanup_fractal :: "'u world \<Rightarrow> 'u world" where
  "cleanup_fractal s =
     (let s = s\<lparr>resize_listener := False\<rparr>;
          s = (if canvas_attached s then s\<lparr>canvas_attached := False\<rparr> else s);
          s = s\<lparr>renderer := (renderer s)\<lparr>disposed := True\<rparr>\<rparr>;
          s = s\<lparr>geometry_disposed := True\<rparr>;
          s = s\<lparr>material_disposed := True\<rparr>
      in s)"

definition cleanup_quantum :: "quantum_world \<Rightarrow> quantum_world" where
  "cleanup_quantum s =
     (let s = s\<lparr>resize_listener := False\<rparr>;
          s = s\<lparr>click_listener := False\<rparr>;
          s = (if canvas_attached s then s\<lparr>canvas_attached := False\<rparr> else s);
          s = s\<lparr>renderer := (renderer s)\<lparr>disposed := True\<rparr>\<rparr>;
          s = s\<lparr>geometry_disposed := True\<rparr>;
          s = s\<lparr>material_disposed := True\<rparr>
      in s)"

section \<open>Construction\<close>

text \<open>
  Each script checks for its mount node first. Without one,
  \<^verbatim>\<open>initFractalAnimation\<close> logs an error and returns; the two effects return
  silently. The result \<open>Inl\<close> carries the host as the script leaves it: nothing was
  constructed. With a mount node the script builds its objects, registers its
  listeners and calls \<open>animate\<close> once; the two effects also hand their cleanup
  function to React.
\<close>

definition initFractalAnimation :: "host \<Rightarrow> host + fractal_world" where
  "initFractalAnimation h =
     (if \<not> container h then Inl (h\<lparr>console := console h @ [''No container found'']\<rparr>)
      else
        let cam = PerspectiveCamera 75 (js_div (innerWidth h) (innerHeight h)) 0.1 1000;
            cam = cam\<lparr>position_z := 2\<rparr>;
            rend = \<lparr>antialias = True, canvas_size = (innerWidth h, innerHeight h),
                    disposed = False\<rparr>;
            geom = \<lparr>width = 4, height = 4, widthSegments = 100, heightSegments = 100\<rparr>;
            unis = \<lparr>time = 0, resolution = vec2 (real (innerWidth h)) (real (innerHeight h))\<rparr>
        in Inr (animate
          \<lparr>innerWidth = innerWidth h, innerHeight = innerHeight h, container = container h,
            performance_now = performance_now h, console = console h,
            camera = cam, renderer = rend, canvas_attached = True,
            geometry = geom, geometry_disposed = False,
            material_uniforms = unis, material_disposed = False, scene = 1,
            resize_listener = True, click_listener = False,
            clock = Clock, raf_queue = 0, frames = [], cleanup_held = False\<rparr>))"

definition FractalAnimation :: "host \<Rightarrow> host + fractal_world" where
  "FractalAnimation h =
     (if \<not> container h then Inl h
      else
        let cam = PerspectiveCamera 75 (js_div (innerWidth h) (innerHeight h)) 0.1 1000;
            cam = cam\<lparr>position_z := 2\<rparr>;
            rend = \<lparr>antialias = True, canvas_size = (innerWidth h, innerHeight h),
                    disposed = False\<rparr>;
            geom = \<lparr>width = 4, height = 4, widthSegments = 100, heightSegments = 100\<rparr>;
            unis = \<lparr>time = 0, resolution = vec2 (real (innerWidth h)) (real (innerHeight h))\<rparr>
        in Inr (animate
          \<lparr>innerWidth = innerWidth h, innerHeight = innerHeight h, container = container h,
            performance_now = performance_now h, console = console h,
            camera = cam, renderer = rend, canvas_attached = True,
            geometry = geom, geometry_disposed = False,
            material_uniforms = unis, material_disposed = False, scene = 1,
            resize_listener = True, click_listener = False,
            clock = Clock, raf_queue = 0, frames = [], cleanup_held = True\<rparr>))"

definition QuantumVisualization :: "host \<Rightarrow> host + quantum_world" where
  "QuantumVisualization h =
     (if \<not> container h then Inl h
      else
        let cam = PerspectiveCamera 75 (js_div (innerWidth h) (innerHeight h)) 0.1 1000;
            cam = cam\<lparr>position_z := 2\<rparr>;
            rend = \<lparr>antialias = True, canvas_size = (innerWidth h, innerHeight h),
                    disposed = False\<rparr>;
            geom = \<lparr>width = 4, height = 4, widthSegments = 100, heightSegments = 100\<rparr>;
            unis = \<lparr>time = 0, resolution = vec2 (real (innerWidth h)) (real (innerHeight h)),
                    collapse = 0\<rparr>
        in Inr (animate
          \<lparr>innerWidth = innerWidth h, innerHeight = innerHeight h, container = container h,
            performance_now = performance_now h, console = console h,
            camera = cam, renderer = rend, canvas_attached = True,
            geometry = geom, geometry_disposed = False,
            material_uniforms = unis, material_disposed = False, scene = 1,
            resize_listener = True, click_listener = True,
            clock = Clock, raf_queue = 0, frames = [], cleanup_held = True\<rparr>))"

lemmas [engine_defs] =
  js_div_def updateProjectionMatrix_def PerspectiveCamera_def render_def
  handleResize_def handleClick_def animate_def cleanup_fractal_def cleanup_quantum_def

lemmas init_defs = initFractalAnimation_def FractalAnimation_def QuantumVisualization_def

section \<open>One engine, three scripts\<close>

text \<open>
  What the three constructions share: \<open>mount\<close> builds the world from the host, given
  the initial uniform set, whether a click listener is registered and whether a
  cleanup function is returned, and calls \<open>animate\<close>.
\<close>

definition mount :: "'u uniforms_scheme \<Rightarrow> bool \<Rightarrow> bool \<Rightarrow> host \<Rightarrow> 'u world" where
  "mount unis click cleanup h =
     animate
       \<lparr>innerWidth = innerWidth h, innerHeight = innerHeight h, container = container h,
         performance_now = performance_now h, console = console h,
         camera = (PerspectiveCamera 75 (js_div (innerWidth h) (innerHeight h)) 0.1 1000)
           \<lparr>position_z := 2\<rparr>,
         renderer = \<lparr>antialias = True, canvas_size = (innerWidth h, innerHeight h),
           disposed = False\<rparr>,
         canvas_attached = True,
         geometry = \<lparr>width = 4, height = 4, widthSegments = 100, heightSegments = 100\<rparr>,
         geometry_disposed = False,
         material_uniforms = unis, material_disposed = False, scene = 1,
         resize_listener = True, click_listener = click,
         clock = Clock, raf_queue = 0, frames = [], cleanup_held = cleanup\<rparr>"

lemma initFractalAnimation_mount:
  "container h \<Longrightarrow>
   initFractalAnimation h =
     Inr (mount (fractal_uniforms_init (innerWidth h) (innerHeight h)) False False h)"
  by (simp add: initFractalAnimation_def mount_def fractal_uniforms_init_def)

lemma FractalAnimation_mount:
  "container h \<Longrightarrow>
   FractalAnimation h =
     Inr (mount (fractal_uniforms_init (innerWidth h) (innerHeight h)) False True h)"
  by (simp add: FractalAnimation_def mount_def fractal_uniforms_init_def)

lemma QuantumVisualization_mount:
  "container h \<Longrightarrow>
   QuantumVisualization h =
     Inr (mount (quantum_uniforms_init (innerWidth h) (innerHeight h)) True True h)"
  by (simp add: QuantumVisualization_def mount_def quantum_uniforms_init_def)

section \<open>The closures as single updates\<close>

lemma animate_unfold:
  "animate s =
     s\<lparr>raf_queue := raf_queue s + 1,
       clock := snd (getElapsedTime (performance_now s) (clock s)),
       material_uniforms := (material_uniforms s)
         \<lparr>time := fst (getElapsedTime (performance_now s) (clock s))\<rparr>,
       frames := frames s @
         [\<lparr>frame_uniforms = (material_uniforms s)
             \<lparr>time := fst (getElapsedTime (performance_now s) (clock s))\<rparr>,
           frame_projection = projection (camera s),
           frame_size = canvas_size (renderer s),
           frame_disposed = disposed (renderer s)\<rparr>]\<rparr>"
  by (simp add: animate_def render_def Let_def split_def)

lemma handleResize_unfold:
  "handleResize s =
     s\<lparr>camera := (camera s)
         \<lparr>aspect := js_div (innerWidth s) (innerHeight s),
           projection := (fov (camera s), js_div (innerWidth s) (innerHeight s),
             near (camera s), far (camera s))\<rparr>,
       renderer := (renderer s)\<lparr>canvas_size := (innerWidth s, innerHeight s)\<rparr>,
       material_uniforms := (material_uniforms s)
         \<lparr>resolution := vec2 (real (innerWidth s)) (real (innerHeight s))\<rparr>\<rparr>"
  by (simp add: handleResize_def updateProjectionMatrix_def Let_def)

lemma cleanup_fractal_unfold:
  "cleanup_fractal s =
     s\<lparr>resize_listener := False, canvas_attached := False,
       renderer := (renderer s)\<lparr>disposed := True\<rparr>,
       geometry_disposed := True, material_disposed := True\<rparr>"
  by (simp add: cleanup_fractal_def Let_def)

lemma cleanup_quantum_unfold:
  "cleanup_quantum s =
     s\<lparr>resize_listener := False, click_listener := False, canvas_attached := False,
       renderer := (renderer s)\<lparr>disposed := True\<rparr>,
       geometry_disposed := True, material_disposed := True\<rparr>"
  by (simp add: cleanup_quantum_def Let_def)

lemmas closure_unfolds =
  animate_unfold handleResize_unfold cleanup_fractal_unfold cleanup_quantum_unfold
  handleClick_def

text \<open>The first \<open>animate\<close>, on the fresh clock, starts it and draws at time \<open>0\<close>.\<close>

lemma mount_unfold:
  "mount unis click cleanup h =
     \<lparr>innerWidth = innerWidth h, innerHeight = innerHeight h, container = container h,
       performance_now = performance_now h, console = console h,
       camera = \<lparr>fov = 75, aspect = js_div (innerWidth h) (innerHeight h), near = 0.1,
         far = 1000, position_z = 2,
         projection = (75, js_div (innerWidth h) (innerHeight h), 0.1, 1000)\<rparr>,
       renderer = \<lparr>antialias = True, canvas_size = (innerWidth h, innerHeight h),
         disposed = False\<rparr>,
       canvas_attached = True,
       geometry = \<lparr>width = 4, height = 4, widthSegments = 100, heightSegments = 100\<rparr>,
       geometry_disposed = False,
       material_uniforms = unis\<lparr>time := 0\<rparr>, material_disposed = False, scene = 1,
       resize_listener = True, click_listener = click,
       clock = \<lparr>autoStart = True, startTime = performance_now h,
         oldTime = performance_now h, elapsedTime = 0, running = True\<rparr>,
       raf_queue = 1,
       frames = [\<lparr>frame_uniforms = unis\<lparr>time := 0\<rparr>,
         frame_projection = (75, js_div (innerWidth h) (innerHeight h), 0.1, 1000),
         frame_size = (innerWidth h, innerHeight h), frame_disposed = False\<rparr>],
       cleanup_held = cleanup\<rparr>"
  by (simp add: mount_def animate_unfold PerspectiveCamera_def getElapsedTime_first Clock_def)

end
