(* ===== verification/Engine_Run.thy ===== *)
theory Engine_Run
  imports Engine
begin

text \<open>
  The engine in motion. After construction a script only runs when the host calls
  one of the closures it registered, so an execution is the constructed world
  followed by a sequence of host events: a resize of the window, a click on the
  canvas, an animation frame, the unmount of the React component.

  \<open>dispatch\<close> is the host's side of one event: it changes what the host owns (the
  window size, the time, the frame queue, the cleanup function it holds) and calls
  the closures that are registered at that moment. The click handler and the cleanup
  function differ between the scripts and are parameters; \<open>step_fractal\<close> and
  \<open>step_quantum\<close> are the two instances. \<open>run\<close> folds a step over a list of events,
  and \<open>reachable\<close> is the set of worlds an execution can be in when the host's time
  does not run backwards (\<open>wf_event\<close>).

  The invariant \<open>engine_inv\<close> collects what every reachable world satisfies: one
  animation frame is always requested, the clock is running and was last read at the
  host's current time, the time uniform is the clock's elapsed time, the last draw
  used the current time, the times of the draws never decrease, and as long as the
  resize listener is registered the resolution uniform, the canvas size, the camera's
  aspect and its projection agree with the window.
\<close>

section \<open>Events and dispatch\<close>

datatype event = Resize nat nat | Click | Frame real | Unmount

fun wf_event :: "event \<Rightarrow> bool" where
  "wf_event (Frame dt) = (0 \<le> dt)"
| "wf_event _ = True"

fun dispatch ::
  "('u world \<Rightarrow> 'u world) \<Rightarrow> ('u world \<Rightarrow> 'u world) \<Rightarrow> 'u world \<Rightarrow> event \<Rightarrow> 'u world" where
  "dispatch onclick cleanup s (Resize w h) =
     (let s = s\<lparr>innerWidth := w, innerHeight := h\<rparr>
      in if resize_listener s then handleResize s else s)"
| "dispatch onclick cleanup s Click = (if click_listener s then onclick s else s)"
| "dispatch onclick cleanup s (Frame dt) =
     (let n = raf_queue s;
          s = s\<lparr>performance_now := performance_now s + dt, raf_queue := 0\<rparr>
      in (animate ^^ n) s)"
| "dispatch onclick cleanup s Unmount =
     (if cleanup_held s then cleanup (s\<lparr>cleanup_held := False\<rparr>) else s)"

definition step_fractal :: "fractal_world \<Rightarrow> event \<Rightarrow> fractal_world" where
  "step_fractal = dispatch id cleanup_fractal"

definition step_quantum :: "quantum_world \<Rightarrow> event \<Rightarrow> quantum_world" where
  "step_quantum = dispatch handleClick cleanup_quantum"

definition run :: "('s \<Rightarrow> event \<Rightarrow> 's) \<Rightarrow> 's \<Rightarrow> event list \<Rightarrow> 's" where
  "run step s es = foldl step s es"

inductive reachable :: "('s \<Rightarrow> event \<Rightarrow> 's) \<Rightarrow> 's \<Rightarrow> 's \<Rightarrow> bool"
  for step :: "'s \<Rightarrow> event \<Rightarrow> 's" and s0 :: 's where
  reach_init: "reachable step s0 s0"
| reach_step: "reachable step s0 s \<Longrightarrow> wf_event e \<Longrightarrow> reachable step s0 (step s e)"

section \<open>What an execution is measured by\<close>

fun is_frame :: "event \<Rightarrow> bool" where
  "is_frame (Frame dt) = True"
| "is_frame _ = False"

fun frame_ms :: "event \<Rightarrow> real" where
  "frame_ms (Frame dt) = dt"
| "frame_ms _ = 0"

definition clicks_before_unmount :: "event list \<Rightarrow> nat" where
  "clicks_before_unmount es = count_list (takeWhile (\<lambda>e. e \<noteq> Unmount) es) Click"

definition frame_times :: "'u world \<Rightarrow> real list" where
  "frame_times s = map (\<lambda>f. time (frame_uniforms f)) (frames s)"

section \<open>The invariant\<close>

definition viewport_synced :: "'u world \<Rightarrow> bool" where
  "viewport_synced s \<longleftrightarrow>
     resolution (material_uniforms s) = vec2 (real (innerWidth s)) (real (innerHeight s)) \<and>
     canvas_size (renderer s) = (innerWidth s, innerHeight s) \<and>
     aspect (camera s) = js_div (innerWidth s) (innerHeight s) \<and>
     projection (camera s) = (fov (camera s), aspect (camera s), near (camera s), far (camera s))"

definition loop_inv :: "'u world \<Rightarrow> bool" where
  "loop_inv s \<longleftrightarrow>
     raf_queue s = 1 \<and> running (clock s) \<and> clock_inv (clock s) \<and>
     oldTime (clock s) = performance_now s \<and>
     time (material_uniforms s) = elapsedTime (clock s) \<and>
     frames s \<noteq> [] \<and> last (frame_times s) = time (material_uniforms s) \<and>
     sorted (frame_times s)"

definition teardown_inv :: "'u world \<Rightarrow> bool" where
  "teardown_inv s \<longleftrightarrow>
     (cleanup_held s \<longrightarrow> resize_listener s) \<and>
     (disposed (renderer s) \<longleftrightarrow> \<not> resize_listener s) \<and>
     (canvas_attached s \<longleftrightarrow> resize_listener s)"

definition engine_inv :: "'u world \<Rightarrow> bool" where
  "engine_inv s \<longleftrightarrow> loop_inv s \<and> teardown_inv s \<and> (resize_listener s \<longrightarrow> viewport_synced s)"

lemmas inv_defs = engine_inv_def loop_inv_def teardown_inv_def viewport_synced_def frame_times_def

lemma engine_inv_last_frame:
  assumes "engine_inv s"
  shows "time (frame_uniforms (last (frames s))) = time (material_uniforms s)"
    and "raf_queue s = 1"
proof -
  from assms have "frames s \<noteq> []" "last (frame_times s) = time (material_uniforms s)"
    by (simp_all add: engine_inv_def loop_inv_def)
  then show "time (frame_uniforms (last (frames s))) = time (material_uniforms s)"
    by (simp add: frame_times_def last_map)
  from assms show "raf_queue s = 1" by (simp add: engine_inv_def loop_inv_def)
qed

section \<open>Runs\<close>

lemma run_Nil [simp]: "run step s [] = s"
  and run_Cons [simp]: "run step s (e # es) = run step (step s e) es"
  and run_append: "run step s (es @ es') = run step (run step s es) es'"
  by (simp_all add: run_def)

lemma run_snoc [simp]: "run step s (es @ [e]) = step (run step s es) e"
  by (simp add: run_def)

lemma reachable_run: "list_all wf_event es \<Longrightarrow> reachable step s (run step s es)"
proof (induction es rule: rev_induct)
  case Nil
  show ?case by (simp add: reach_init)
next
  case (snoc e es)
  then show ?case by (auto intro: reach_step)
qed

lemma reachable_is_run: "reachable step s0 s \<Longrightarrow> \<exists>es. list_all wf_event es \<and> s = run step s0 es"
proof (induction rule: reachable.induct)
  case reach_init
  have "list_all wf_event [] \<and> s0 = run step s0 []" by simp
  then show ?case by blast
next
  case (reach_step s e)
  then obtain es where "list_all wf_event es" "s = run step s0 es" by blast
  with reach_step.hyps(2) have "list_all wf_event (es @ [e]) \<and> step s e = run step s0 (es @ [e])"
    by simp
  then show ?case by blast
qed

lemma reachable_invariant:
  assumes "reachable step s0 s" "I s0" "\<And>s e. I s \<Longrightarrow> wf_event e \<Longrightarrow> I (step s e)"
  shows "I s"
  using assms by (induction rule: reachable.induct) auto

lemma run_invariant:
  assumes "\<And>s e. I s \<Longrightarrow> wf_event e \<Longrightarrow> I (step s e)"
  shows "I s \<Longrightarrow> list_all wf_event es \<Longrightarrow> I (run step s es)"
  by (induction es arbitrary: s) (simp_all add: assms)

section \<open>The closures keep the invariant\<close>

lemma animate_after_tick:
  assumes "loop_inv s" "0 \<le> dt"
  shows "loop_inv (animate (s\<lparr>performance_now := performance_now s + dt, raf_queue := 0\<rparr>))"
proof -
  let ?c = "clock s" and ?now = "performance_now s + dt"
  from assms(1) have c: "running ?c" "clock_inv ?c" "oldTime ?c = performance_now s"
    and t: "time (material_uniforms s) = elapsedTime ?c"
    and f: "frames s \<noteq> []" "last (frame_times s) = time (material_uniforms s)"
      "sorted (frame_times s)"
    by (simp_all add: loop_inv_def)
  have read: "getElapsedTime ?now ?c =
      (elapsedTime ?c + dt / 1000, ?c\<lparr>oldTime := ?now, elapsedTime := elapsedTime ?c + dt / 1000\<rparr>)"
    using c by (simp add: getElapsedTime_running)
  have "clock_inv (snd (getElapsedTime ?now ?c))" using c(2) by (rule getElapsedTime_inv)
  moreover have "\<forall>x \<in> set (frame_times s). x \<le> elapsedTime ?c + dt / 1000"
  proof
    fix x assume "x \<in> set (frame_times s)"
    with f(3) have "x \<le> last (frame_times s)" by (simp add: sorted_le_last)
    with f(2) t assms(2) show "x \<le> elapsedTime ?c + dt / 1000" by simp
  qed
  ultimately show ?thesis
    using c f by (simp add: loop_inv_def animate_unfold read frame_times_def sorted_append)
qed

lemma handleResize_loop_inv: "loop_inv s \<Longrightarrow> loop_inv (handleResize s)"
  by (simp add: loop_inv_def handleResize_unfold frame_times_def)

lemma handleResize_synced: "viewport_synced (handleResize s)"
  by (simp add: viewport_synced_def handleResize_unfold)

section \<open>The contract between the host and a script's own closures\<close>

text \<open>
  The click handler and the cleanup function are the parts in which the scripts
  differ. What \<open>dispatch\<close> needs of them is stated once: a click handler rewrites
  the uniform set and leaves \<open>time\<close> and \<open>resolution\<close>, which belong to the frame
  callback and the resize handler, alone; a cleanup function does what
  \<open>cleanup_fractal\<close> does and may remove the click listener too. The lemmas on
  \<open>dispatch\<close> assume the contracts; the scripts' closures satisfy them.
\<close>

definition click_contract :: "('u world \<Rightarrow> 'u world) \<Rightarrow> bool" where
  "click_contract f \<longleftrightarrow>
     (\<exists>g. \<forall>s. f s = s\<lparr>material_uniforms := g (material_uniforms s)\<rparr> \<and>
        time (g (material_uniforms s)) = time (material_uniforms s) \<and>
        resolution (g (material_uniforms s)) = resolution (material_uniforms s))"

definition cleanup_contract :: "('u world \<Rightarrow> 'u world) \<Rightarrow> bool" where
  "cleanup_contract f \<longleftrightarrow>
     (\<exists>keep. \<forall>s. f s = (cleanup_fractal s)\<lparr>click_listener := keep \<and> click_listener s\<rparr>)"

lemma click_contract_id: "click_contract id"
  unfolding click_contract_def by (rule exI [of _ id]) simp

lemma click_contract_handleClick: "click_contract handleClick"
  unfolding click_contract_def
  by (rule exI [of _ "\<lambda>u. u\<lparr>collapse := (if collapse u = 0 then 1 else 0)\<rparr>"])
    (simp add: handleClick_def)

lemma cleanup_contract_fractal: "cleanup_contract cleanup_fractal"
  unfolding cleanup_contract_def by (rule exI [of _ True]) (simp add: cleanup_fractal_unfold)

lemma cleanup_contract_quantum: "cleanup_contract cleanup_quantum"
  unfolding cleanup_contract_def
  by (rule exI [of _ False]) (simp add: cleanup_quantum_unfold cleanup_fractal_unfold)

lemma click_contract_inv:
  assumes "click_contract f" "engine_inv s"
  shows "engine_inv (f s)"
proof -
  from assms(1) obtain g where "f s = s\<lparr>material_uniforms := g (material_uniforms s)\<rparr>"
    "time (g (material_uniforms s)) = time (material_uniforms s)"
    "resolution (g (material_uniforms s)) = resolution (material_uniforms s)"
    unfolding click_contract_def by blast
  with assms(2) show ?thesis by (simp add: inv_defs)
qed

lemma cleanup_contract_inv:
  assumes "cleanup_contract f" "engine_inv s"
  shows "engine_inv (f (s\<lparr>cleanup_held := False\<rparr>))"
proof -
  from assms(1) obtain keep where
    "f (s\<lparr>cleanup_held := False\<rparr>) =
      (cleanup_fractal (s\<lparr>cleanup_held := False\<rparr>))\<lparr>click_listener := keep \<and> click_listener s\<rparr>"
    unfolding cleanup_contract_def by force
  with assms(2) show ?thesis by (simp add: inv_defs cleanup_fractal_unfold)
qed

section \<open>Every event keeps the invariant\<close>

lemma dispatch_engine_inv:
  assumes "click_contract onclick" "cleanup_contract cleanup" "engine_inv s" "wf_event e"
  shows "engine_inv (dispatch onclick cleanup s e)"
proof (cases e)
  case (Resize w h)
  let ?s = "s\<lparr>innerWidth := w, innerHeight := h\<rparr>"
  from assms(3) have "loop_inv ?s" "teardown_inv ?s"
    by (simp_all add: inv_defs)
  then have "engine_inv (if resize_listener ?s then handleResize ?s else ?s)"
    using handleResize_loop_inv [of ?s] handleResize_synced [of ?s]
    by (simp add: engine_inv_def) (simp add: teardown_inv_def handleResize_unfold)
  with Resize show ?thesis by (simp add: Let_def)
next
  case Click
  with assms(1,3) show ?thesis by (simp add: click_contract_inv)
next
  case (Frame dt)
  from assms(3) have q: "raf_queue s = 1" and l: "loop_inv s" by (simp_all add: inv_defs)
  from l Frame assms(4)
  have "loop_inv (animate (s\<lparr>performance_now := performance_now s + dt, raf_queue := 0\<rparr>))"
    by (intro animate_after_tick) simp_all
  with assms(3) have "engine_inv (animate (s\<lparr>performance_now := performance_now s + dt, raf_queue := 0\<rparr>))"
    by (simp add: engine_inv_def) (simp add: teardown_inv_def viewport_synced_def animate_unfold)
  with Frame q show ?thesis by simp
next
  case Unmount
  with assms(2,3) show ?thesis by (simp add: cleanup_contract_inv)
qed

lemma mount_engine_inv:
  "resolution unis = vec2 (real (innerWidth h)) (real (innerHeight h)) \<Longrightarrow>
   engine_inv (mount unis click cleanup h)"
  by (simp add: inv_defs mount_unfold clock_inv_def elapsed_def)

lemma run_engine_inv:
  assumes "click_contract onclick" "cleanup_contract cleanup"
  shows "engine_inv s \<Longrightarrow> list_all wf_event es \<Longrightarrow>
    engine_inv (run (dispatch onclick cleanup) s es)"
  by (induction es arbitrary: s) (simp_all add: dispatch_engine_inv assms)

lemmas fractal_contracts = click_contract_id cleanup_contract_fractal
lemmas quantum_contracts = click_contract_handleClick cleanup_contract_quantum

end
