(* ===== verification/Engine_Properties.thy ===== *)
theory Engine_Properties
  imports Engine_Run
begin

text \<open>
  Lemmas on executions, generic in the script. The first part are lemmas on
  \<open>dispatch\<close> under the contracts of theory \<open>Engine_Run\<close>, lifted to runs by
  induction on the event list; then come the worlds the scripts construct (with
  \<open>demo_host\<close>, a concrete host for instances), the mode flag of the interference
  script and its invariant \<open>mode_inv\<close>, the state after the unmount
  (\<open>managed\<close>, \<open>torn_down\<close>) and the role of the cleanup function the host holds.
\<close>

section \<open>Single events\<close>

lemma click_contract_fields:
  assumes "click_contract f"
  shows "raf_queue (f s) = raf_queue s" "frames (f s) = frames s" "clock (f s) = clock s"
    "resize_listener (f s) = resize_listener s" "click_listener (f s) = click_listener s"
    "cleanup_held (f s) = cleanup_held s" "renderer (f s) = renderer s"
    "camera (f s) = camera s" "performance_now (f s) = performance_now s"
    "time (material_uniforms (f s)) = time (material_uniforms s)"
proof -
  from assms obtain g where "f s = s\<lparr>material_uniforms := g (material_uniforms s)\<rparr>"
    "time (g (material_uniforms s)) = time (material_uniforms s)"
    unfolding click_contract_def by blast
  then show "raf_queue (f s) = raf_queue s" "frames (f s) = frames s" "clock (f s) = clock s"
    "resize_listener (f s) = resize_listener s" "click_listener (f s) = click_listener s"
    "cleanup_held (f s) = cleanup_held s" "renderer (f s) = renderer s"
    "camera (f s) = camera s" "performance_now (f s) = performance_now s"
    "time (material_uniforms (f s)) = time (material_uniforms s)"
    by simp_all
qed

lemma cleanup_contract_fields:
  assumes "cleanup_contract f"
  shows "raf_queue (f s) = raf_queue s" "frames (f s) = frames s" "clock (f s) = clock s"
    "\<not> resize_listener (f s)" "cleanup_held (f s) = cleanup_held s"
    "disposed (renderer (f s))" "material_uniforms (f s) = material_uniforms s"
    "camera (f s) = camera s" "performance_now (f s) = performance_now s"
    "click_listener (f s) \<Longrightarrow> click_listener s"
proof -
  from assms obtain keep where
    eq: "f s = (cleanup_fractal s)\<lparr>click_listener := keep \<and> click_listener s\<rparr>"
    unfolding cleanup_contract_def by blast
  show "raf_queue (f s) = raf_queue s" "frames (f s) = frames s" "clock (f s) = clock s"
    "\<not> resize_listener (f s)" "cleanup_held (f s) = cleanup_held s"
    "disposed (renderer (f s))" "material_uniforms (f s) = material_uniforms s"
    "camera (f s) = camera s" "performance_now (f s) = performance_now s"
    "click_listener (f s) \<Longrightarrow> click_listener s"
    by (simp_all add: eq cleanup_fractal_unfold)
qed

lemma dispatch_frames:
  assumes "click_contract onclick" "cleanup_contract cleanup" "raf_queue s = 1"
  shows "length (frames (dispatch onclick cleanup s e)) =
    length (frames s) + (if is_frame e then 1 else 0)"
  using assms
  by (cases e)
    (simp_all add: Let_def handleResize_unfold animate_unfold
      click_contract_fields cleanup_contract_fields)

lemma dispatch_time:
  assumes "click_contract onclick" "cleanup_contract cleanup" "engine_inv s"
  shows "time (material_uniforms (dispatch onclick cleanup s e)) =
    time (material_uniforms s) + frame_ms e / 1000"
proof (cases e)
  case (Frame dt)
  from assms(3) have "raf_queue s = 1" "running (clock s)"
    "oldTime (clock s) = performance_now s" "time (material_uniforms s) = elapsedTime (clock s)"
    by (simp_all add: inv_defs)
  with Frame show ?thesis by (simp add: animate_unfold getElapsedTime_running)
qed (use assms in \<open>simp_all add: Let_def handleResize_unfold
      click_contract_fields cleanup_contract_fields\<close>)

lemma dispatch_now:
  assumes "click_contract onclick" "cleanup_contract cleanup" "raf_queue s = 1"
  shows "performance_now (dispatch onclick cleanup s e) = performance_now s + frame_ms e"
  using assms
  by (cases e)
    (simp_all add: Let_def handleResize_unfold animate_unfold
      click_contract_fields cleanup_contract_fields)

lemma dispatch_resize_listener:
  assumes "click_contract onclick" "e \<noteq> Unmount" "raf_queue s = 1"
  shows "resize_listener (dispatch onclick cleanup s e) = resize_listener s"
  using assms
  by (cases e) (simp_all add: Let_def handleResize_unfold animate_unfold click_contract_fields)

text \<open>Whether the registrations are still under the control of a cleanup function.\<close>

definition removes_click :: "('u world \<Rightarrow> 'u world) \<Rightarrow> bool" where
  "removes_click f \<longleftrightarrow> (\<forall>s. \<not> click_listener (f s))"

definition managed :: "('u world \<Rightarrow> 'u world) \<Rightarrow> 'u world \<Rightarrow> bool" where
  "managed cleanup s \<longleftrightarrow>
     (resize_listener s \<longrightarrow> cleanup_held s) \<and>
     (click_listener s \<longrightarrow> cleanup_held s \<and> removes_click cleanup)"

lemma removes_click_quantum: "removes_click cleanup_quantum"
  by (simp add: removes_click_def cleanup_quantum_unfold)

lemma dispatch_managed:
  assumes "click_contract onclick" "cleanup_contract cleanup" "raf_queue s = 1"
    "managed cleanup s"
  shows "managed cleanup (dispatch onclick cleanup s e)"
proof (cases e)
  case Unmount
  show ?thesis
  proof (cases "cleanup_held s")
    case True
    let ?t = "cleanup (s\<lparr>cleanup_held := False\<rparr>)"
    have "\<not> resize_listener ?t" "\<not> cleanup_held ?t"
      by (simp_all add: cleanup_contract_fields assms(2))
    moreover have "\<not> click_listener ?t"
    proof
      assume c: "click_listener ?t"
      then have "click_listener (s\<lparr>cleanup_held := False\<rparr>)"
        by (rule cleanup_contract_fields(10) [OF assms(2)])
      with assms(4) have "removes_click cleanup" by (simp add: managed_def)
      with c show False by (simp add: removes_click_def)
    qed
    ultimately show ?thesis using Unmount True by (simp add: managed_def)
  next
    case False
    with Unmount assms(4) show ?thesis by simp
  qed
qed (use assms in \<open>simp_all add: managed_def Let_def handleResize_unfold animate_unfold
      click_contract_fields\<close>)

text \<open>Once the cleanup function has run, the host finds no listener to call.\<close>

definition torn_down :: "'u world \<Rightarrow> bool" where
  "torn_down s \<longleftrightarrow> \<not> resize_listener s \<and> \<not> click_listener s \<and> \<not> cleanup_held s"

lemma dispatch_unmount_torn_down:
  assumes "click_contract onclick" "cleanup_contract cleanup" "raf_queue s = 1"
    "managed cleanup s"
  shows "torn_down (dispatch onclick cleanup s Unmount)"
proof -
  let ?t = "dispatch onclick cleanup s Unmount"
  from assms have "managed cleanup ?t" by (rule dispatch_managed)
  moreover have "\<not> cleanup_held ?t"
    by (simp add: cleanup_contract_fields assms(2))
  ultimately show ?thesis by (auto simp: managed_def torn_down_def)
qed

lemma dispatch_torn_down_inert:
  assumes "torn_down s"
  shows "dispatch onclick cleanup s (Resize w h) = s\<lparr>innerWidth := w, innerHeight := h\<rparr>"
    "dispatch onclick cleanup s Click = s" "dispatch onclick cleanup s Unmount = s"
  using assms by (simp_all add: torn_down_def)

section \<open>Runs\<close>

lemma run_frames:
  assumes "click_contract onclick" "cleanup_contract cleanup"
  shows "engine_inv s \<Longrightarrow> list_all wf_event es \<Longrightarrow>
    length (frames (run (dispatch onclick cleanup) s es)) =
      length (frames s) + length (filter is_frame es)"
proof (induction es arbitrary: s)
  case Nil
  show ?case by simp
next
  case (Cons e es)
  from Cons.prems have "engine_inv (dispatch onclick cleanup s e)" "list_all wf_event es"
    by (simp_all add: dispatch_engine_inv assms)
  then have "length (frames (run (dispatch onclick cleanup) (dispatch onclick cleanup s e) es)) =
      length (frames (dispatch onclick cleanup s e)) + length (filter is_frame es)"
    by (rule Cons.IH)
  moreover from Cons.prems(1) have "raf_queue s = 1" by (simp add: inv_defs)
  ultimately show ?case by (simp add: dispatch_frames assms)
qed

lemma run_time:
  assumes "click_contract onclick" "cleanup_contract cleanup"
  shows "engine_inv s \<Longrightarrow> list_all wf_event es \<Longrightarrow>
    time (material_uniforms (run (dispatch onclick cleanup) s es)) =
      time (material_uniforms s) + sum_list (map frame_ms es) / 1000"
proof (induction es arbitrary: s)
  case Nil
  show ?case by simp
next
  case (Cons e es)
  from Cons.prems have "engine_inv (dispatch onclick cleanup s e)" "list_all wf_event es"
    by (simp_all add: dispatch_engine_inv assms)
  then have "time (material_uniforms (run (dispatch onclick cleanup) (dispatch onclick cleanup s e) es)) =
      time (material_uniforms (dispatch onclick cleanup s e)) + sum_list (map frame_ms es) / 1000"
    by (rule Cons.IH)
  with Cons.prems(1) show ?case by (simp add: dispatch_time assms add_divide_distrib)
qed

lemma run_now:
  assumes "click_contract onclick" "cleanup_contract cleanup"
  shows "engine_inv s \<Longrightarrow> list_all wf_event es \<Longrightarrow>
    performance_now (run (dispatch onclick cleanup) s es) =
      performance_now s + sum_list (map frame_ms es)"
proof (induction es arbitrary: s)
  case Nil
  show ?case by simp
next
  case (Cons e es)
  from Cons.prems have "engine_inv (dispatch onclick cleanup s e)" "list_all wf_event es"
    by (simp_all add: dispatch_engine_inv assms)
  then have "performance_now (run (dispatch onclick cleanup) (dispatch onclick cleanup s e) es) =
      performance_now (dispatch onclick cleanup s e) + sum_list (map frame_ms es)"
    by (rule Cons.IH)
  moreover from Cons.prems(1) have "raf_queue s = 1" by (simp add: inv_defs)
  ultimately show ?case by (simp add: dispatch_now assms)
qed

lemma run_resize_listener:
  assumes "click_contract onclick" "cleanup_contract cleanup"
  shows "engine_inv s \<Longrightarrow> list_all wf_event es \<Longrightarrow> Unmount \<notin> set es \<Longrightarrow>
    resize_listener (run (dispatch onclick cleanup) s es) = resize_listener s"
proof (induction es arbitrary: s)
  case Nil
  show ?case by simp
next
  case (Cons e es)
  from Cons.prems have "engine_inv (dispatch onclick cleanup s e)" "list_all wf_event es"
    "Unmount \<notin> set es"
    by (simp_all add: dispatch_engine_inv assms)
  then have "resize_listener (run (dispatch onclick cleanup) (dispatch onclick cleanup s e) es) =
      resize_listener (dispatch onclick cleanup s e)"
    by (rule Cons.IH)
  moreover from Cons.prems have "raf_queue s = 1" "e \<noteq> Unmount" by (auto simp: inv_defs)
  ultimately show ?case by (simp add: dispatch_resize_listener assms)
qed

lemma run_managed:
  assumes "click_contract onclick" "cleanup_contract cleanup"
  shows "engine_inv s \<Longrightarrow> managed cleanup s \<Longrightarrow> list_all wf_event es \<Longrightarrow>
    managed cleanup (run (dispatch onclick cleanup) s es)"
proof (induction es arbitrary: s)
  case Nil
  then show ?case by simp
next
  case (Cons e es)
  from Cons.prems have "raf_queue s = 1" by (simp add: inv_defs)
  with Cons.prems have "engine_inv (dispatch onclick cleanup s e)"
    "managed cleanup (dispatch onclick cleanup s e)" "list_all wf_event es"
    by (simp_all add: dispatch_engine_inv dispatch_managed assms)
  then show ?case using Cons.IH by simp
qed

section \<open>The worlds the scripts construct\<close>

text \<open>A host with a mount node and a window of 800 by 600, for concrete instances.\<close>

definition demo_host :: host where
  "demo_host =
     \<lparr>innerWidth = 800, innerHeight = 600, container = True, performance_now = 0, console = []\<rparr>"

lemma initFractalAnimation_Inr:
  assumes "initFractalAnimation h = Inr s0"
  shows "s0 = mount (fractal_uniforms_init (innerWidth h) (innerHeight h)) False False h"
proof (cases "container h")
  case True
  with assms show ?thesis by (simp add: initFractalAnimation_mount)
next
  case False
  with assms show ?thesis by (simp add: initFractalAnimation_def)
qed

lemma FractalAnimation_Inr:
  assumes "FractalAnimation h = Inr s0"
  shows "s0 = mount (fractal_uniforms_init (innerWidth h) (innerHeight h)) False True h"
proof (cases "container h")
  case True
  with assms show ?thesis by (simp add: FractalAnimation_mount)
next
  case False
  with assms show ?thesis by (simp add: FractalAnimation_def)
qed

lemma QuantumVisualization_Inr:
  assumes "QuantumVisualization h = Inr s0"
  shows "s0 = mount (quantum_uniforms_init (innerWidth h) (innerHeight h)) True True h"
proof (cases "container h")
  case True
  with assms show ?thesis by (simp add: QuantumVisualization_mount)
next
  case False
  with assms show ?thesis by (simp add: QuantumVisualization_def)
qed

lemma demo_mounts:
  "initFractalAnimation demo_host = Inr (mount (fractal_uniforms_init 800 600) False False demo_host)"
  "FractalAnimation demo_host = Inr (mount (fractal_uniforms_init 800 600) False True demo_host)"
  "QuantumVisualization demo_host = Inr (mount (quantum_uniforms_init 800 600) True True demo_host)"
  using initFractalAnimation_mount [of demo_host] FractalAnimation_mount [of demo_host]
    QuantumVisualization_mount [of demo_host]
  by (simp_all add: demo_host_def)

lemma mount_fractal_inv [simp]:
  "engine_inv (mount (fractal_uniforms_init (innerWidth h) (innerHeight h)) click cleanup h)"
  by (rule mount_engine_inv) simp

lemma mount_quantum_inv [simp]:
  "engine_inv (mount (quantum_uniforms_init (innerWidth h) (innerHeight h)) click cleanup h)"
  by (rule mount_engine_inv) simp

lemma mount_managed:
  "click \<longrightarrow> cleanup \<and> removes_click f \<Longrightarrow> managed f (mount unis click cleanup h) = cleanup"
  by (auto simp: managed_def mount_unfold)

lemmas script_Inr = initFractalAnimation_Inr FractalAnimation_Inr QuantumVisualization_Inr

section \<open>The mode flag\<close>

lemma animate_funpow_fields:
  "click_listener ((animate ^^ n) s) = click_listener s"
  "cleanup_held ((animate ^^ n) s) = cleanup_held s"
  by (induction n arbitrary: s) (simp_all add: animate_unfold funpow_swap1)

lemma animate_funpow_collapse:
  "collapse (material_uniforms ((animate ^^ n) s)) = collapse (material_uniforms s)"
  by (induction n arbitrary: s) (simp_all add: animate_unfold funpow_swap1)

lemma step_quantum_collapse:
  "collapse (material_uniforms (step_quantum s e)) =
     (if e = Click \<and> click_listener s
      then (if collapse (material_uniforms s) = 0 then 1 else 0)
      else collapse (material_uniforms s))"
  by (cases e)
    (simp_all add: step_quantum_def Let_def handleResize_unfold handleClick_def
      cleanup_quantum_unfold animate_funpow_collapse)

lemma step_quantum_listening:
  "click_listener (step_quantum s e) = (click_listener s \<and> \<not> (e = Unmount \<and> cleanup_held s))"
  "cleanup_held (step_quantum s e) = (cleanup_held s \<and> e \<noteq> Unmount)"
  by (cases e;
      simp add: step_quantum_def Let_def handleResize_unfold handleClick_def
        cleanup_quantum_unfold animate_funpow_fields)+

lemma run_quantum_deaf:
  "\<not> click_listener s \<Longrightarrow>
   collapse (material_uniforms (run step_quantum s es)) = collapse (material_uniforms s)"
  by (induction es arbitrary: s) (simp_all add: step_quantum_collapse step_quantum_listening)

lemma run_quantum_parity:
  assumes "click_listener s" "cleanup_held s" "collapse (material_uniforms s) = real (k mod 2)"
  shows "collapse (material_uniforms (run step_quantum s es)) =
    real ((k + clicks_before_unmount es) mod 2)"
  using assms
proof (induction es arbitrary: s k)
  case Nil
  then show ?case by (simp add: clicks_before_unmount_def)
next
  case (Cons e es)
  show ?case
  proof (cases "e = Unmount")
    case True
    with Cons.prems show ?thesis
      by (simp add: clicks_before_unmount_def run_quantum_deaf step_quantum_listening
          step_quantum_collapse)
  next
    case False
    let ?k' = "if e = Click then Suc k else k"
    from False Cons.prems have "click_listener (step_quantum s e)" "cleanup_held (step_quantum s e)"
      "collapse (material_uniforms (step_quantum s e)) = real (?k' mod 2)"
      by (simp_all add: step_quantum_listening step_quantum_collapse mod_Suc)
    then have "collapse (material_uniforms (run step_quantum (step_quantum s e) es)) =
        real ((?k' + clicks_before_unmount es) mod 2)"
      by (rule Cons.IH)
    with False show ?thesis by (simp add: clicks_before_unmount_def)
  qed
qed

section \<open>After the unmount\<close>

lemma dispatch_torn_down:
  assumes "raf_queue s = 1" "torn_down s"
  shows "torn_down (dispatch onclick cleanup s e)"
  using assms by (cases e) (simp_all add: torn_down_def animate_unfold)

lemma run_torn_down:
  assumes "click_contract onclick" "cleanup_contract cleanup"
  shows "engine_inv s \<Longrightarrow> managed cleanup s \<or> torn_down s \<Longrightarrow> list_all wf_event es \<Longrightarrow>
    Unmount \<in> set es \<or> torn_down s \<Longrightarrow> torn_down (run (dispatch onclick cleanup) s es)"
proof (induction es arbitrary: s)
  case Nil
  then show ?case by simp
next
  case (Cons e es)
  let ?t = "dispatch onclick cleanup s e"
  from Cons.prems have q: "raf_queue s = 1" by (simp add: inv_defs)
  from Cons.prems have inv: "engine_inv ?t" "list_all wf_event es"
    by (simp_all add: dispatch_engine_inv assms)
  from Cons.prems(2) q have m: "managed cleanup ?t \<or> torn_down ?t"
    by (auto simp: dispatch_managed dispatch_torn_down assms)
  have "Unmount \<in> set es \<or> torn_down ?t"
  proof (cases "torn_down s")
    case True
    with q show ?thesis by (simp add: dispatch_torn_down)
  next
    case False
    with Cons.prems(2,4) have ms: "managed cleanup s" and e: "e = Unmount \<or> Unmount \<in> set es"
      by auto
    show ?thesis
    proof (cases "e = Unmount")
      case True
      then have "torn_down ?t"
        using dispatch_unmount_torn_down [OF assms q ms] by (simp only:)
      then show ?thesis ..
    next
      case False
      with e show ?thesis by simp
    qed
  qed
  with inv m show ?case using Cons.IH by simp
qed

lemma dispatch_frame_disposed:
  assumes "raf_queue s = 1"
  shows "frame_disposed (last (frames (dispatch onclick cleanup s (Frame dt)))) =
    disposed (renderer s)"
  using assms by (simp add: animate_unfold)

lemma dispatch_frame_projection:
  assumes "raf_queue s = 1"
  shows "frame_projection (last (frames (dispatch onclick cleanup s (Frame dt)))) =
    projection (camera s)"
    and "camera (dispatch onclick cleanup s (Frame dt)) = camera s"
    and "frame_uniforms (last (frames (dispatch onclick cleanup s (Frame dt)))) =
      material_uniforms (dispatch onclick cleanup s (Frame dt))"
  using assms by (simp_all add: animate_unfold)

text \<open>What is drawn once the listeners are gone: every further draw uses the disposed renderer.\<close>

lemma dispatch_torn_down_frames:
  assumes "raf_queue s = 1" "torn_down s" "disposed (renderer s)"
  shows "\<exists>fs. frames (dispatch onclick cleanup s e) = frames s @ fs \<and> list_all frame_disposed fs"
    and "disposed (renderer (dispatch onclick cleanup s e))"
  using assms by (cases e; simp add: torn_down_def animate_unfold)+

lemma run_torn_down_frames:
  assumes "click_contract onclick" "cleanup_contract cleanup"
  shows "engine_inv s \<Longrightarrow> torn_down s \<Longrightarrow> list_all wf_event es \<Longrightarrow>
    \<exists>fs. frames (run (dispatch onclick cleanup) s es) = frames s @ fs \<and>
      list_all frame_disposed fs"
proof (induction es arbitrary: s)
  case Nil
  show ?case by simp
next
  case (Cons e es)
  let ?t = "dispatch onclick cleanup s e"
  from Cons.prems(1,2) have q: "raf_queue s = 1" and d: "disposed (renderer s)"
    by (simp_all add: inv_defs torn_down_def)
  from dispatch_torn_down_frames(1) [OF q Cons.prems(2) d]
  obtain fs where fs: "frames ?t = frames s @ fs" "list_all frame_disposed fs" by blast
  from Cons.prems have "engine_inv ?t" "torn_down ?t" "list_all wf_event es"
    using q by (simp_all add: dispatch_engine_inv dispatch_torn_down assms)
  then obtain fs' where "frames (run (dispatch onclick cleanup) ?t es) = frames ?t @ fs'"
    "list_all frame_disposed fs'"
    using Cons.IH by blast
  with fs have "frames (run (dispatch onclick cleanup) s (e # es)) = frames s @ (fs @ fs') \<and>
      list_all frame_disposed (fs @ fs')"
    by simp
  then show ?case by blast
qed

section \<open>The cleanup function held by the host\<close>

text \<open>
  Whether React holds a cleanup function matters to the unmount only: every other
  event treats the two worlds alike. This is what relates the plain script, which
  returns no cleanup function, to the component.
\<close>

lemma animate_funpow_cleanup_held:
  "(animate ^^ n) (s\<lparr>cleanup_held := c\<rparr>) = ((animate ^^ n) s)\<lparr>cleanup_held := c\<rparr>"
  by (induction n) (simp_all add: animate_unfold)

lemma dispatch_cleanup_held:
  assumes "click_contract onclick" "e \<noteq> Unmount"
  shows "dispatch onclick cleanup (s\<lparr>cleanup_held := c\<rparr>) e =
    (dispatch onclick cleanup s e)\<lparr>cleanup_held := c\<rparr>"
proof (cases e)
  case Click
  from assms(1) obtain g where "\<And>s. onclick s = s\<lparr>material_uniforms := g (material_uniforms s)\<rparr>"
    unfolding click_contract_def by blast
  with Click show ?thesis by simp
next
  case (Frame dt)
  let ?t = "s\<lparr>performance_now := performance_now s + dt, raf_queue := 0\<rparr>"
  have "dispatch onclick cleanup (s\<lparr>cleanup_held := c\<rparr>) (Frame dt) =
      (animate ^^ raf_queue s) (?t\<lparr>cleanup_held := c\<rparr>)"
    by (cases s) simp
  also have "\<dots> = ((animate ^^ raf_queue s) ?t)\<lparr>cleanup_held := c\<rparr>"
    by (rule animate_funpow_cleanup_held)
  finally show ?thesis using Frame by simp
qed (use assms in \<open>simp_all add: Let_def handleResize_unfold\<close>)

lemma run_cleanup_held:
  assumes "click_contract onclick"
  shows "Unmount \<notin> set es \<Longrightarrow>
    run (dispatch onclick cleanup) (s\<lparr>cleanup_held := c\<rparr>) es =
      (run (dispatch onclick cleanup) s es)\<lparr>cleanup_held := c\<rparr>"
proof (induction es arbitrary: s)
  case Nil
  show ?case by simp
next
  case (Cons e es)
  then have "e \<noteq> Unmount" "Unmount \<notin> set es" by auto
  with Cons.IH show ?case by (simp add: dispatch_cleanup_held assms)
qed

lemma mount_cleanup_held:
  "mount unis click c h = (mount unis click c' h)\<lparr>cleanup_held := c\<rparr>"
  by (simp add: mount_unfold)

lemma dispatch_no_cleanup:
  assumes "click_contract onclick" "raf_queue s = 1" "\<not> cleanup_held s"
  shows "resize_listener (dispatch onclick cleanup s e) = resize_listener s"
    "cleanup_held (dispatch onclick cleanup s e) = cleanup_held s"
    "renderer (dispatch onclick cleanup s e) =
      (if resize_listener s \<and> (\<exists>w h. e = Resize w h)
       then (renderer s)\<lparr>canvas_size := (innerWidth (dispatch onclick cleanup s e),
         innerHeight (dispatch onclick cleanup s e))\<rparr>
       else renderer s)"
  using assms
  by (cases e; simp add: Let_def handleResize_unfold animate_unfold click_contract_fields)+

section \<open>The mode flag is a bit\<close>

definition mode_inv :: "quantum_world \<Rightarrow> bool" where
  "mode_inv s \<longleftrightarrow>
     collapse (material_uniforms s) \<in> {0, 1} \<and>
     list_all (\<lambda>f. collapse (frame_uniforms f) \<in> {0, 1}) (frames s)"

lemma step_quantum_mode_inv:
  assumes "raf_queue s = 1" "mode_inv s"
  shows "mode_inv (step_quantum s e)"
  using assms
  by (cases e)
    (auto simp: mode_inv_def step_quantum_def Let_def handleResize_unfold handleClick_def
      cleanup_quantum_unfold animate_unfold)

lemma run_quantum_mode_inv:
  assumes "engine_inv s" "mode_inv s" "list_all wf_event es"
  shows "mode_inv (run step_quantum s es)"
proof -
  have "engine_inv (run step_quantum s es) \<and> mode_inv (run step_quantum s es)"
    using _ _ assms(3)
  proof (rule run_invariant [where I = "\<lambda>s. engine_inv s \<and> mode_inv s"])
    fix s e assume "engine_inv s \<and> mode_inv s" "wf_event e"
    then show "engine_inv (step_quantum s e) \<and> mode_inv (step_quantum s e)"
      using dispatch_engine_inv [OF quantum_contracts, of s e]
      by (simp add: step_quantum_mode_inv inv_defs step_quantum_def [symmetric])
  qed (use assms in simp)
  then show ?thesis ..
qed

end
