(* ===== verification/Script_Properties.thy ===== *)
theory Script_Properties
  imports Engine_Properties
begin

text \<open>
  The properties of the three scripts as wholes: construction followed by any
  sequence of host events. The lemmas of theory \<open>Engine_Properties\<close> are first
  instantiated for \<open>step_fractal\<close> and \<open>step_quantum\<close> and for the worlds the
  scripts construct; the properties follow from these instances.
\<close>

section \<open>The instances\<close>

lemma quantum_run:
  assumes "engine_inv s" "list_all wf_event es"
  shows "engine_inv (run step_quantum s es)"
    and "length (frames (run step_quantum s es)) = length (frames s) + length (filter is_frame es)"
    and "time (material_uniforms (run step_quantum s es)) =
      time (material_uniforms s) + sum_list (map frame_ms es) / 1000"
    and "performance_now (run step_quantum s es) = performance_now s + sum_list (map frame_ms es)"
  unfolding step_quantum_def using assms
  by (simp_all add: run_engine_inv run_frames run_time run_now quantum_contracts)

lemma fractal_run:
  assumes "engine_inv s" "list_all wf_event es"
  shows "engine_inv (run step_fractal s es)"
    and "length (frames (run step_fractal s es)) = length (frames s) + length (filter is_frame es)"
    and "time (material_uniforms (run step_fractal s es)) =
      time (material_uniforms s) + sum_list (map frame_ms es) / 1000"
    and "performance_now (run step_fractal s es) = performance_now s + sum_list (map frame_ms es)"
  unfolding step_fractal_def using assms
  by (simp_all add: run_engine_inv run_frames run_time run_now fractal_contracts)

lemma quantum_run_mounted:
  assumes "engine_inv s" "list_all wf_event es" "Unmount \<notin> set es"
  shows "resize_listener (run step_quantum s es) = resize_listener s"
  unfolding step_quantum_def using assms by (simp add: run_resize_listener quantum_contracts)

lemma fractal_run_mounted:
  assumes "engine_inv s" "list_all wf_event es" "Unmount \<notin> set es"
  shows "resize_listener (run step_fractal s es) = resize_listener s"
  unfolding step_fractal_def using assms by (simp add: run_resize_listener fractal_contracts)

lemma quantum_run_unmounted:
  assumes "engine_inv s" "managed cleanup_quantum s" "list_all wf_event es" "Unmount \<in> set es"
  shows "torn_down (run step_quantum s es)"
  unfolding step_quantum_def using assms by (intro run_torn_down quantum_contracts) simp_all

lemma fractal_run_unmounted:
  assumes "engine_inv s" "managed cleanup_fractal s" "list_all wf_event es" "Unmount \<in> set es"
  shows "torn_down (run step_fractal s es)"
  unfolding step_fractal_def using assms by (intro run_torn_down fractal_contracts) simp_all

lemma fractal_frame:
  assumes "engine_inv s" "0 \<le> dt"
  shows "engine_inv (step_fractal s (Frame dt))"
    and "length (frames (step_fractal s (Frame dt))) = length (frames s) + 1"
    and "frame_disposed (last (frames (step_fractal s (Frame dt)))) = disposed (renderer s)"
proof -
  from assms(1) have q: "raf_queue s = 1" by (simp add: inv_defs)
  from assms show "engine_inv (step_fractal s (Frame dt))"
    unfolding step_fractal_def by (intro dispatch_engine_inv fractal_contracts) simp_all
  show "length (frames (step_fractal s (Frame dt))) = length (frames s) + 1"
    unfolding step_fractal_def using dispatch_frames [OF fractal_contracts q, of "Frame dt"]
    by simp
  show "frame_disposed (last (frames (step_fractal s (Frame dt)))) = disposed (renderer s)"
    unfolding step_fractal_def by (rule dispatch_frame_disposed [OF q])
qed

lemma torn_down_quantum_inert:
  assumes "torn_down s"
  shows "step_quantum s Click = s" "step_quantum s Unmount = s"
    "step_quantum s (Resize w h) = s\<lparr>innerWidth := w, innerHeight := h\<rparr>"
  unfolding step_quantum_def by (rule dispatch_torn_down_inert [OF assms])+

text \<open>What holds of the world right after construction.\<close>

lemma quantum_start:
  assumes "QuantumVisualization h = Inr s0"
  shows "engine_inv s0" "managed cleanup_quantum s0"
    "resize_listener s0" "click_listener s0" "cleanup_held s0"
    "length (frames s0) = 1" "time (material_uniforms s0) = 0"
    "collapse (material_uniforms s0) = 0" "performance_now s0 = performance_now h"
    "mode_inv s0"
proof -
  from assms have s0: "s0 = mount (quantum_uniforms_init (innerWidth h) (innerHeight h)) True True h"
    by (rule QuantumVisualization_Inr)
  show "engine_inv s0" unfolding s0 by simp
  show "managed cleanup_quantum s0" unfolding s0 by (simp add: mount_managed removes_click_quantum)
  show "resize_listener s0" "click_listener s0" "cleanup_held s0"
    "length (frames s0) = 1" "time (material_uniforms s0) = 0"
    "collapse (material_uniforms s0) = 0" "performance_now s0 = performance_now h"
    "mode_inv s0"
    unfolding s0 by (simp_all add: mount_unfold mode_inv_def)
qed

lemma plain_start:
  assumes "initFractalAnimation h = Inr s0"
  shows "engine_inv s0" "resize_listener s0" "\<not> click_listener s0" "\<not> cleanup_held s0"
    "length (frames s0) = 1" "\<not> disposed (renderer s0)"
proof -
  from assms have s0: "s0 = mount (fractal_uniforms_init (innerWidth h) (innerHeight h)) False False h"
    by (rule initFractalAnimation_Inr)
  show "engine_inv s0" unfolding s0 by simp
  show "resize_listener s0" "\<not> click_listener s0" "\<not> cleanup_held s0"
    "length (frames s0) = 1" "\<not> disposed (renderer s0)"
    unfolding s0 by (simp_all add: mount_unfold)
qed

lemma fractal_start:
  assumes "FractalAnimation h = Inr s0"
  shows "engine_inv s0" "managed cleanup_fractal s0"
    "resize_listener s0" "\<not> click_listener s0" "cleanup_held s0"
    "length (frames s0) = 1" "time (material_uniforms s0) = 0"
    "performance_now s0 = performance_now h"
proof -
  from assms have s0: "s0 = mount (fractal_uniforms_init (innerWidth h) (innerHeight h)) False True h"
    by (rule FractalAnimation_Inr)
  show "engine_inv s0" unfolding s0 by simp
  show "managed cleanup_fractal s0" unfolding s0 by (simp add: mount_managed)
  show "resize_listener s0" "\<not> click_listener s0" "cleanup_held s0"
    "length (frames s0) = 1" "time (material_uniforms s0) = 0"
    "performance_now s0 = performance_now h"
    unfolding s0 by (simp_all add: mount_unfold)
qed

section \<open>Properties of the scripts\<close>

text \<open>
  C2. The mode flag is the parity of the clicks. In any execution of the
  interference script, whatever resizes and frames come between, the \<open>collapse\<close>
  uniform is \<open>k mod 2\<close>, where \<open>k\<close> is the number of clicks delivered before the
  component is unmounted; clicks after the unmount change nothing.
\<close>

theorem click_parity:
  assumes "QuantumVisualization h = Inr s0"
  shows "collapse (material_uniforms (run step_quantum s0 es)) =
    real (clicks_before_unmount es mod 2)"
  using run_quantum_parity [of s0 0 es] quantum_start [OF assms] by simp

theorem click_parity_witness:
  "collapse (material_uniforms (run step_quantum
      (mount (quantum_uniforms_init 800 600) True True demo_host)
      [Click, Frame 16, Click, Resize 1024 768, Click, Unmount, Click])) = 1"
proof -
  let ?es = "[Click, Frame 16, Click, Resize 1024 768, Click, Unmount, Click]"
  have "collapse (material_uniforms (run step_quantum
      (mount (quantum_uniforms_init 800 600) True True demo_host) ?es)) =
      real (clicks_before_unmount ?es mod 2)"
    by (rule click_parity [OF demo_mounts(3)])
  also have "\<dots> = 1" by (simp add: clicks_before_unmount_def)
  finally show ?thesis .
qed

text \<open>
  C3. A resize reaches every consumer of the viewport. While the component is
  mounted, after the window is resized to \<open>w\<close> by \<open>h'\<close> the resolution uniform is
  \<open>(w, h')\<close>, the canvas has that size, the camera's aspect is the quotient
  \<open>w / h'\<close> as JavaScript computes it, and the projection has been recomputed from
  that aspect.
\<close>

theorem resize_sets_viewport:
  assumes "QuantumVisualization h = Inr s0" "list_all wf_event es" "Unmount \<notin> set es"
  shows "let s = run step_quantum s0 (es @ [Resize w h']) in
    resolution (material_uniforms s) = vec2 (real w) (real h') \<and>
    canvas_size (renderer s) = (w, h') \<and>
    aspect (camera s) = js_div w h' \<and>
    projection (camera s) = (fov (camera s), js_div w h', near (camera s), far (camera s))"
proof -
  have "resize_listener (run step_quantum s0 es)"
    using quantum_run_mounted [OF _ assms(2,3)] quantum_start [OF assms(1)] by simp
  then show ?thesis by (simp add: step_quantum_def Let_def handleResize_unfold)
qed

theorem resize_sets_viewport_witness:
  "let s = run step_quantum (mount (quantum_uniforms_init 800 600) True True demo_host)
      ([Frame 16, Click] @ [Resize 1024 768]) in
    resolution (material_uniforms s) = vec2 (real (1024::nat)) (real (768::nat)) \<and>
    canvas_size (renderer s) = (1024, 768) \<and>
    aspect (camera s) = js_div 1024 768 \<and>
    projection (camera s) = (fov (camera s), js_div 1024 768, near (camera s), far (camera s))"
  by (rule resize_sets_viewport [OF demo_mounts(3)]) simp_all

text \<open>
  C4. The cleanup function does not stop the frame loop. After the component is
  unmounted the renderer is disposed, yet the next animation frame still runs
  \<open>animate\<close>: one more draw is issued, on the disposed renderer, and a further
  frame is requested. Nothing in the cleanup cancels the request that is pending.
\<close>

theorem teardown_keeps_drawing:
  assumes "FractalAnimation h = Inr s0" "list_all wf_event es" "0 \<le> dt"
  shows "let s = run step_fractal s0 (es @ [Unmount]); s' = step_fractal s (Frame dt) in
    disposed (renderer s) \<and> length (frames s') = length (frames s) + 1 \<and>
    frame_disposed (last (frames s')) \<and> raf_queue s' = 1"
proof -
  let ?s = "run step_fractal s0 (es @ [Unmount])"
  note start = fractal_start [OF assms(1)]
  from assms(2) have wf: "list_all wf_event (es @ [Unmount])" by simp
  have inv: "engine_inv ?s" using start(1) wf by (rule fractal_run(1))
  have "torn_down ?s" using start(1,2) wf by (rule fractal_run_unmounted) simp
  with inv have d: "disposed (renderer ?s)" by (simp add: inv_defs torn_down_def)
  note f = fractal_frame [OF inv assms(3)]
  from f(1) have "raf_queue (step_fractal ?s (Frame dt)) = 1" by (simp add: inv_defs)
  with d f(2,3) show ?thesis unfolding Let_def by blast
qed

theorem teardown_keeps_drawing_witness:
  "let s = run step_fractal (mount (fractal_uniforms_init 800 600) False True demo_host)
      ([Frame 16] @ [Unmount]);
     s' = step_fractal s (Frame 16) in
    disposed (renderer s) \<and> length (frames s') = length (frames s) + 1 \<and>
    frame_disposed (last (frames s')) \<and> raf_queue s' = 1"
  by (rule teardown_keeps_drawing [OF demo_mounts(2)]) simp_all

text \<open>
  C5. Time never runs backwards on screen. If the host's time does not decrease
  between frames, the values of the time uniform used by the successive draws
  form a non-decreasing sequence.
\<close>

theorem frame_times_monotone:
  assumes "QuantumVisualization h = Inr s0" "list_all wf_event es"
  shows "sorted (frame_times (run step_quantum s0 es))"
  using quantum_run(1) [OF quantum_start(1) [OF assms(1)] assms(2)]
  by (simp add: engine_inv_def loop_inv_def)

theorem frame_times_monotone_witness:
  "sorted (frame_times (run step_quantum
      (mount (quantum_uniforms_init 800 600) True True demo_host)
      [Frame 16, Click, Frame 17, Unmount, Frame 0]))"
  by (rule frame_times_monotone [OF demo_mounts(3)]) simp

text \<open>
  C17. The time uniform is the clock of the specification. At every moment of an
  execution the \<open>time\<close> uniform is the time, in seconds, that has passed on the
  host since the script was constructed, and it is the time the latest draw was
  issued with: the accumulating three.js clock refines \<open>elapsed\<close>.
\<close>

theorem time_uniform_is_elapsed_time:
  assumes "FractalAnimation h = Inr s0" "list_all wf_event es"
  shows "let s = run step_fractal s0 es in
    time (material_uniforms s) = elapsed (performance_now h) (performance_now s) \<and>
    time (frame_uniforms (last (frames s))) = time (material_uniforms s)"
proof -
  note start = fractal_start [OF assms(1)]
  note r = fractal_run [OF start(1) assms(2)]
  from r(3,4) start(7,8) engine_inv_last_frame(1) [OF r(1)]
  show ?thesis by (simp add: elapsed_def)
qed

theorem time_uniform_is_elapsed_time_witness:
  "let s = run step_fractal (mount (fractal_uniforms_init 800 600) False True demo_host)
      [Frame 16, Resize 640 480, Frame 4] in
    time (material_uniforms s) = elapsed (performance_now demo_host) (performance_now s) \<and>
    time (frame_uniforms (last (frames s))) = time (material_uniforms s)"
  by (rule time_uniform_is_elapsed_time [OF demo_mounts(2)]) simp

text \<open>
  One draw per animation frame, and the loop never stops on its own. In any
  execution of the plain script the number of draws issued is one (the draw of the
  construction) plus the number of animation frames the host has delivered, and
  exactly one further frame is requested.
\<close>

theorem one_draw_per_frame:
  assumes "initFractalAnimation h = Inr s0" "list_all wf_event es"
  shows "length (frames (run step_fractal s0 es)) = 1 + length (filter is_frame es) \<and>
    raf_queue (run step_fractal s0 es) = 1"
proof -
  note start = plain_start [OF assms(1)]
  note r = fractal_run [OF start(1) assms(2)]
  from r(2) start(5) engine_inv_last_frame(2) [OF r(1)] show ?thesis by simp
qed

theorem one_draw_per_frame_witness:
  "length (frames (run step_fractal (mount (fractal_uniforms_init 800 600) False False demo_host)
      [Frame 16, Resize 640 480, Unmount, Frame 4])) =
    1 + length (filter is_frame [Frame 16, Resize 640 480, Unmount, Frame 4]) \<and>
   raf_queue (run step_fractal (mount (fractal_uniforms_init 800 600) False False demo_host)
      [Frame 16, Resize 640 480, Unmount, Frame 4]) = 1"
  by (rule one_draw_per_frame [OF demo_mounts(1)]) simp

text \<open>
  C19. Every world the interference script can reach, by events whose frame
  intervals are not negative, satisfies the engine invariant \<open>engine_inv\<close> (one
  frame requested, clock running and read at the host's time, time uniform equal to
  the clock's elapsed time, draw times sorted, viewport in step with the window
  while mounted), and the mode flag is \<open>0\<close> or \<open>1\<close> in the uniform set and in every
  draw issued.
\<close>

theorem reachable_engine_inv:
  assumes "QuantumVisualization h = Inr s0" "reachable step_quantum s0 s"
  shows "engine_inv s \<and> mode_inv s"
proof -
  note start = quantum_start [OF assms(1)]
  from reachable_is_run [OF assms(2)]
  obtain es where "list_all wf_event es" "s = run step_quantum s0 es" by blast
  with start(1,10) show ?thesis by (simp add: quantum_run(1) run_quantum_mode_inv)
qed

theorem reachable_engine_inv_witness:
  "engine_inv (step_quantum (mount (quantum_uniforms_init 800 600) True True demo_host) Click) \<and>
   mode_inv (step_quantum (mount (quantum_uniforms_init 800 600) True True demo_host) Click)"
  by (rule reachable_engine_inv [OF demo_mounts(3)]) (rule reach_step [OF reach_init], simp)

text \<open>
  Resize is idempotent: delivering the same window size twice leaves the world
  exactly as delivering it once, mounted or not.
\<close>

theorem resize_idempotent:
  "step_quantum (step_quantum s (Resize w h)) (Resize w h) = step_quantum s (Resize w h) \<and>
   step_fractal (step_fractal s' (Resize w h)) (Resize w h) = step_fractal s' (Resize w h)"
  by (simp add: step_quantum_def step_fractal_def Let_def handleResize_unfold)

text \<open>
  C21. A window of height zero is not rejected. After a resize to height \<open>0\<close> the
  camera's aspect is \<open>Infinity\<close> (for a positive width) or \<open>NaN\<close> (for width \<open>0\<close>),
  and the next draw is issued with a projection computed from it.
\<close>

theorem degenerate_viewport:
  assumes "FractalAnimation h = Inr s0" "list_all wf_event es" "Unmount \<notin> set es"
  shows "let s = run step_fractal s0 (es @ [Resize w 0, Frame dt]) in
    aspect (camera s) = (if w = 0 then NaN else Infinity) \<and>
    fst (snd (frame_projection (last (frames s)))) = (if w = 0 then NaN else Infinity)"
proof -
  let ?s1 = "run step_fractal s0 es"
  let ?s2 = "step_fractal ?s1 (Resize w 0)"
  note start = fractal_start [OF assms(1)]
  have inv: "engine_inv ?s1" using start(1) assms(2) by (rule fractal_run(1))
  then have q: "raf_queue ?s1 = 1" by (simp add: inv_defs)
  have "resize_listener ?s1"
    using fractal_run_mounted [OF start(1) assms(2,3)] start(3) by simp
  with q have s2: "aspect (camera ?s2) = js_div w 0" "fst (snd (projection (camera ?s2))) = js_div w 0"
    "raf_queue ?s2 = 1"
    by (simp_all add: step_fractal_def Let_def handleResize_unfold)
  have "run step_fractal s0 (es @ [Resize w 0, Frame dt]) = step_fractal ?s2 (Frame dt)"
    by (simp add: run_append)
  with s2 dispatch_frame_projection [OF s2(3), of id cleanup_fractal dt]
  show ?thesis by (simp add: step_fractal_def js_div_def)
qed

theorem degenerate_viewport_witness:
  "let s = run step_fractal (mount (fractal_uniforms_init 800 600) False True demo_host)
      ([Frame 16] @ [Resize 1024 0, Frame 16]) in
    aspect (camera s) = (if (1024::nat) = 0 then NaN else Infinity) \<and>
    fst (snd (frame_projection (last (frames s)))) = (if (1024::nat) = 0 then NaN else Infinity)"
  by (rule degenerate_viewport [OF demo_mounts(2)]) simp_all

end
