(* ===== verification/Lifecycle.thy ===== *)
theory Lifecycle
  imports Script_Properties
begin

text \<open>
  The two ends of a script's life: construction, with its error path when the mount
  node is missing, and the unmount. The plain script \<^verbatim>\<open>FractalAnimation.ts\<close> returns
  no cleanup function; in the model its world has \<open>cleanup_held = False\<close>, so that an
  \<open>Unmount\<close> finds nothing to call, and it is otherwise the world of the component.
\<close>

section \<open>Instances for the plain script\<close>

lemma plain_step:
  assumes "engine_inv s \<and> resize_listener s \<and> \<not> cleanup_held s" "wf_event e"
  shows "engine_inv (step_fractal s e) \<and> resize_listener (step_fractal s e) \<and>
    \<not> cleanup_held (step_fractal s e)"
proof -
  from assms have "raf_queue s = 1" by (simp add: engine_inv_last_frame)
  with assms show ?thesis
    unfolding step_fractal_def
    by (simp add: dispatch_engine_inv dispatch_no_cleanup fractal_contracts)
qed

lemma plain_run:
  assumes "engine_inv s" "resize_listener s" "\<not> cleanup_held s" "list_all wf_event es"
  shows "engine_inv (run step_fractal s es)" "resize_listener (run step_fractal s es)"
    "\<not> cleanup_held (run step_fractal s es)"
proof -
  from assms(1-3) have "engine_inv s \<and> resize_listener s \<and> \<not> cleanup_held s" by simp
  then have "engine_inv (run step_fractal s es) \<and> resize_listener (run step_fractal s es) \<and>
      \<not> cleanup_held (run step_fractal s es)"
    using assms(4)
    by (rule run_invariant [where I = "\<lambda>s. engine_inv s \<and> resize_listener s \<and> \<not> cleanup_held s",
          rotated]) (rule plain_step)
  then show "engine_inv (run step_fractal s es)" "resize_listener (run step_fractal s es)"
    "\<not> cleanup_held (run step_fractal s es)"
    by simp_all
qed

section \<open>Construction\<close>

text \<open>
  C22. Without a mount node nothing is constructed. \<^verbatim>\<open>initFractalAnimation\<close> reports
  \<^verbatim>\<open>No container found\<close> on the console and returns; the effects of the two
  components return without a report. In each case the result is the host, with
  no world built, no listener registered and no frame requested.
\<close>

theorem missing_container_aborts:
  assumes "\<not> container h"
  shows "initFractalAnimation h = Inl (h\<lparr>console := console h @ [''No container found'']\<rparr>) \<and>
    FractalAnimation h = Inl h \<and> QuantumVisualization h = Inl h"
  using assms by (simp add: init_defs)

theorem missing_container_aborts_witness:
  "initFractalAnimation (demo_host\<lparr>container := False\<rparr>) =
     Inl (demo_host\<lparr>container := False\<rparr>
       \<lparr>console := console (demo_host\<lparr>container := False\<rparr>) @ [''No container found'']\<rparr>) \<and>
   FractalAnimation (demo_host\<lparr>container := False\<rparr>) = Inl (demo_host\<lparr>container := False\<rparr>) \<and>
   QuantumVisualization (demo_host\<lparr>container := False\<rparr>) = Inl (demo_host\<lparr>container := False\<rparr>)"
  by (rule missing_container_aborts) simp

text \<open>
  C23. With a mount node the interference script constructs a world that satisfies
  the engine invariant: the uniform set has its defaults (time \<open>0\<close>, mode \<open>0\<close>,
  resolution the window's size), the scene holds the one mesh, the first draw has
  been issued with exactly these uniforms, the canvas has the window's size, and
  one animation frame is requested.
\<close>

theorem construction_establishes:
  assumes "container h"
  shows "\<exists>s0. QuantumVisualization h = Inr s0 \<and> engine_inv s0 \<and> mode_inv s0 \<and>
    material_uniforms s0 =
      \<lparr>time = 0, resolution = vec2 (real (innerWidth h)) (real (innerHeight h)), collapse = 0\<rparr> \<and>
    map frame_uniforms (frames s0) = [material_uniforms s0] \<and>
    canvas_size (renderer s0) = (innerWidth h, innerHeight h) \<and>
    scene s0 = 1 \<and> raf_queue s0 = 1 \<and> resize_listener s0 \<and> click_listener s0"
proof -
  let ?s0 = "mount (quantum_uniforms_init (innerWidth h) (innerHeight h)) True True h"
  from assms have mounted: "QuantumVisualization h = Inr ?s0" by (rule QuantumVisualization_mount)
  note start = quantum_start [OF mounted]
  have "material_uniforms ?s0 =
      \<lparr>time = 0, resolution = vec2 (real (innerWidth h)) (real (innerHeight h)), collapse = 0\<rparr>"
    "map frame_uniforms (frames ?s0) = [material_uniforms ?s0]"
    "canvas_size (renderer ?s0) = (innerWidth h, innerHeight h)" "scene ?s0 = 1" "raf_queue ?s0 = 1"
    by (simp_all add: mount_unfold quantum_uniforms_init_def)
  with mounted start(1,3,4,10) show ?thesis by - (rule exI [of _ ?s0], simp)
qed

theorem construction_establishes_witness:
  "\<exists>s0. QuantumVisualization demo_host = Inr s0 \<and> engine_inv s0 \<and> mode_inv s0 \<and>
    material_uniforms s0 =
      \<lparr>time = 0, resolution = vec2 (real (innerWidth demo_host)) (real (innerHeight demo_host)),
        collapse = 0\<rparr> \<and>
    map frame_uniforms (frames s0) = [material_uniforms s0] \<and>
    canvas_size (renderer s0) = (innerWidth demo_host, innerHeight demo_host) \<and>
    scene s0 = 1 \<and> raf_queue s0 = 1 \<and> resize_listener s0 \<and> click_listener s0"
  by (rule construction_establishes) (simp add: demo_host_def)

text \<open>
  C24. The plain script and the component are the same engine. Constructed on the
  same host and driven by the same events, with no unmount among them, the worlds
  of \<^verbatim>\<open>FractalAnimation.ts\<close> and \<^verbatim>\<open>FractalAnimation.tsx\<close> are equal except for the
  cleanup function the component has handed to React.
\<close>

theorem plain_and_component_agree:
  assumes "initFractalAnimation h = Inr a" "FractalAnimation h = Inr b" "Unmount \<notin> set es"
  shows "run step_fractal a es = (run step_fractal b es)\<lparr>cleanup_held := False\<rparr>"
proof -
  from assms(1) have a: "a = mount (fractal_uniforms_init (innerWidth h) (innerHeight h)) False False h"
    by (rule initFractalAnimation_Inr)
  from assms(2) have b: "b = mount (fractal_uniforms_init (innerWidth h) (innerHeight h)) False True h"
    by (rule FractalAnimation_Inr)
  have "a = b\<lparr>cleanup_held := False\<rparr>" unfolding a b by (rule mount_cleanup_held)
  with assms(3) show ?thesis
    unfolding step_fractal_def by (simp add: run_cleanup_held click_contract_id)
qed

theorem plain_and_component_agree_witness:
  "run step_fractal (mount (fractal_uniforms_init 800 600) False False demo_host)
      [Frame 16, Resize 640 480, Frame 4] =
   (run step_fractal (mount (fractal_uniforms_init 800 600) False True demo_host)
      [Frame 16, Resize 640 480, Frame 4])\<lparr>cleanup_held := False\<rparr>"
  by (rule plain_and_component_agree [OF demo_mounts(1) demo_mounts(2)]) simp

section \<open>The unmount\<close>

text \<open>
  The cleanup functions are idempotent, and so is the unmount: a second call
  changes nothing.
\<close>

theorem cleanup_idempotent:
  "cleanup_quantum (cleanup_quantum s) = cleanup_quantum s \<and>
   cleanup_fractal (cleanup_fractal s') = cleanup_fractal s' \<and>
   step_quantum (step_quantum s Unmount) Unmount = step_quantum s Unmount \<and>
   step_fractal (step_fractal s' Unmount) Unmount = step_fractal s' Unmount"
  by (simp add: step_quantum_def step_fractal_def cleanup_quantum_unfold cleanup_fractal_unfold)

text \<open>
  C9. The unmounted component is deaf. After the unmount of the interference
  component, wherever in the execution it came, a resize, a click or a second
  unmount changes neither the uniform set nor the camera nor the renderer, and
  issues no draw: the cleanup function has removed both listeners, and removing
  them again does nothing.
\<close>

theorem unmounted_ignores_events:
  assumes "QuantumVisualization h = Inr s0" "list_all wf_event es" "Unmount \<in> set es"
    "\<not> is_frame e"
  shows "let s = run step_quantum s0 es; s' = step_quantum s e in
    material_uniforms s' = material_uniforms s \<and> camera s' = camera s \<and>
    renderer s' = renderer s \<and> frames s' = frames s"
proof -
  note start = quantum_start [OF assms(1)]
  from start(1,2) assms(2,3) have "torn_down (run step_quantum s0 es)"
    by (rule quantum_run_unmounted)
  with assms(4) show ?thesis by (cases e) (simp_all add: torn_down_quantum_inert)
qed

theorem unmounted_ignores_events_witness:
  "let s = run step_quantum (mount (quantum_uniforms_init 800 600) True True demo_host)
      [Click, Frame 16, Unmount];
     s' = step_quantum s Click in
    material_uniforms s' = material_uniforms s \<and> camera s' = camera s \<and>
    renderer s' = renderer s \<and> frames s' = frames s"
  by (rule unmounted_ignores_events [OF demo_mounts(3)]) simp_all

text \<open>
  The extent of the draws after the unmount. However the execution of the
  fractal component continues after its unmount, every animation frame delivered
  issues one more draw, and each of these draws uses the disposed renderer.
\<close>

theorem draws_after_unmount:
  assumes "FractalAnimation h = Inr s0" "list_all wf_event es" "list_all wf_event es'"
  shows "let s = run step_fractal s0 (es @ [Unmount]); s' = run step_fractal s es' in
    length (frames s') = length (frames s) + length (filter is_frame es') \<and>
    list_all frame_disposed (drop (length (frames s)) (frames s'))"
proof -
  let ?s = "run step_fractal s0 (es @ [Unmount])"
  note start = fractal_start [OF assms(1)]
  from assms(2) have wf: "list_all wf_event (es @ [Unmount])" by simp
  have inv: "engine_inv ?s" using start(1) wf by (rule fractal_run(1))
  have "torn_down ?s" using start(1,2) wf by (rule fractal_run_unmounted) simp
  with inv assms(3) obtain fs where "frames (run step_fractal ?s es') = frames ?s @ fs"
    "list_all frame_disposed fs"
    unfolding step_fractal_def using run_torn_down_frames [OF fractal_contracts] by blast
  with fractal_run(2) [OF inv assms(3)] show ?thesis by (simp add: Let_def)
qed

theorem draws_after_unmount_witness:
  "let s = run step_fractal (mount (fractal_uniforms_init 800 600) False True demo_host)
      ([Frame 16] @ [Unmount]);
     s' = run step_fractal s [Frame 16, Resize 640 480, Frame 17] in
    length (frames s') =
      length (frames s) + length (filter is_frame [Frame 16, Resize 640 480, Frame 17]) \<and>
    list_all frame_disposed (drop (length (frames s)) (frames s'))"
  by (rule draws_after_unmount [OF demo_mounts(2)]) simp_all

text \<open>
  C27. The plain script can never be released. \<^verbatim>\<open>initFractalAnimation\<close> returns
  nothing its caller could call: in every execution the resize listener stays
  registered, the canvas stays attached and the renderer is never disposed.
\<close>

theorem plain_script_never_released:
  assumes "initFractalAnimation h = Inr s0" "list_all wf_event es"
  shows "let s = run step_fractal s0 es in
    resize_listener s \<and> canvas_attached s \<and> \<not> disposed (renderer s)"
proof -
  note start = plain_start [OF assms(1)]
  note r = plain_run [OF start(1,2,4) assms(2)]
  from r(1,2) show ?thesis by (simp add: engine_inv_def teardown_inv_def)
qed

theorem plain_script_never_released_witness:
  "let s = run step_fractal (mount (fractal_uniforms_init 800 600) False False demo_host)
      [Frame 16, Unmount, Resize 640 480, Unmount] in
    resize_listener s \<and> canvas_attached s \<and> \<not> disposed (renderer s)"
  by (rule plain_script_never_released [OF demo_mounts(1)]) simp

end
