(* ===== verification/Linear4.thy ===== *)
theory Linear4
  imports GLSL
begin

text \<open>
  The part of GLSL the vertex shader uses: four-component vectors read as
  homogeneous coordinates, \<^verbatim>\<open>mat4\<close>, and the products \<^verbatim>\<open>mat4 * vec4\<close> and
  \<^verbatim>\<open>mat4 * mat4\<close>. A \<open>vec4\<close> is the type of theory \<open>GLSL\<close>; its components are
  named \<open>cx\<close>, \<open>cy\<close>, \<open>cz\<close>, \<open>cw\<close> here, as GLSL allows \<^verbatim>\<open>.xyzw\<close> beside \<^verbatim>\<open>.rgba\<close>.
  A matrix is given by its rows; the storage order of GLSL does not show in the
  products.
\<close>

section \<open>Homogeneous coordinates\<close>

definition mk4 :: "real \<Rightarrow> real \<Rightarrow> real \<Rightarrow> real \<Rightarrow> vec4" where
  "mk4 x y z w = vec4 (vec3 x y z) w"

definition cx :: "vec4 \<Rightarrow> real" where "cx v = red (rgb v)"
definition cy :: "vec4 \<Rightarrow> real" where "cy v = green (rgb v)"
definition cz :: "vec4 \<Rightarrow> real" where "cz v = blue (rgb v)"
definition cw :: "vec4 \<Rightarrow> real" where "cw v = alpha v"

lemmas comp_defs = cx_def cy_def cz_def cw_def

lemma comp_mk4 [simp]:
  "cx (mk4 x y z w) = x" "cy (mk4 x y z w) = y" "cz (mk4 x y z w) = z" "cw (mk4 x y z w) = w"
  by (simp_all add: mk4_def comp_defs)

lemma comp_vec4 [simp]:
  "cx (vec4 p w) = red p" "cy (vec4 p w) = green p" "cz (vec4 p w) = blue p" "cw (vec4 p w) = w"
  by (simp_all add: comp_defs)

lemma mk4_eq_iff [simp]:
  "mk4 x y z w = mk4 x' y' z' w' \<longleftrightarrow> x = x' \<and> y = y' \<and> z = z' \<and> w = w'"
  by (simp add: mk4_def)

lemma mk4_comp [simp]: "mk4 (cx v) (cy v) (cz v) (cw v) = v"
  by (cases v, cases "rgb v") (simp add: mk4_def comp_defs)

section \<open>Matrices\<close>

datatype mat4 = mat4 (row0: vec4) (row1: vec4) (row2: vec4) (row3: vec4)

definition dot4 :: "vec4 \<Rightarrow> vec4 \<Rightarrow> real" where
  "dot4 a b = cx a * cx b + cy a * cy b + cz a * cz b + cw a * cw b"

definition column :: "(vec4 \<Rightarrow> real) \<Rightarrow> mat4 \<Rightarrow> vec4" where
  "column sel m = mk4 (sel (row0 m)) (sel (row1 m)) (sel (row2 m)) (sel (row3 m))"

definition mulv :: "mat4 \<Rightarrow> vec4 \<Rightarrow> vec4" where
  "mulv m v = mk4 (dot4 (row0 m) v) (dot4 (row1 m) v) (dot4 (row2 m) v) (dot4 (row3 m) v)"

definition row_times :: "vec4 \<Rightarrow> mat4 \<Rightarrow> vec4" where
  "row_times r m =
     mk4 (dot4 r (column cx m)) (dot4 r (column cy m)) (dot4 r (column cz m)) (dot4 r (column cw m))"

definition mulm :: "mat4 \<Rightarrow> mat4 \<Rightarrow> mat4" where
  "mulm a b = mat4 (row_times (row0 a) b) (row_times (row1 a) b) (row_times (row2 a) b)
     (row_times (row3 a) b)"

definition identity4 :: mat4 where
  "identity4 = mat4 (mk4 1 0 0 0) (mk4 0 1 0 0) (mk4 0 0 1 0) (mk4 0 0 0 1)"

lemmas mat_defs = dot4_def column_def mulv_def row_times_def mulm_def identity4_def

text \<open>
  The vertex shader multiplies the two matrices first and the vector last; the
  product of the matrices acts as the two in succession.
\<close>

lemma dot4_row_times: "dot4 (row_times r m) v = dot4 r (mulv m v)"
  by (simp add: mat_defs algebra_simps)

lemma mulv_mulm: "mulv (mulm a b) v = mulv a (mulv b v)"
  by (simp add: mulm_def mulv_def [of "mat4 _ _ _ _"] mulv_def [of a] dot4_row_times)

lemma mulv_identity4 [simp]: "mulv identity4 v = v"
  by (simp add: mat_defs)

lemma mulm_identity4 [simp]: "mulm m identity4 = m"
  by (cases m) (simp add: mat_defs)

end
