(* ===== verification/Camera_Projection.thy ===== *)
theory Camera_Projection
  imports Linear4 Engine
begin

text \<open>
  The two matrices three.js hands to the vertex shader. \<open>projectionMatrix\<close> is what
  \<^verbatim>\<open>PerspectiveCamera.updateProjectionMatrix\<close> computes from the camera's
  parameters: the frustum at the near plane has half height
  \<open>near * tan (fov / 2)\<close>, with \<open>fov\<close> in degrees, and \<open>aspect\<close> times that as half
  width, and \<^verbatim>\<open>Matrix4.makePerspective\<close> turns the frustum into a matrix. Its
  argument is the tuple the engine keeps in the camera's \<open>projection\<close> field and in
  every draw. The result is \<open>None\<close> when the matrix would have an entry that is not
  a finite number: when the aspect is \<open>Infinity\<close>, \<open>NaN\<close> or \<open>0\<close>. \<open>modelViewMatrix\<close>
  is the inverse of the camera's placement times the placement of the mesh; the
  scripts move the camera along the \<open>z\<close> axis and leave the mesh at the origin, so
  it is a translation.

  The scripts' field of view is 75 degrees. The last section bounds the tangent of
  half of it, 0.767 to three places, from the exact sine and cosine of 75 degrees.

  In this theory \<open>fv\<close>, \<open>n\<close> and \<open>f\<close> stand for a field of view, a near and a far
  distance; the names \<open>fov\<close>, \<open>near\<close> and \<open>far\<close> are the fields of the camera.
\<close>

section \<open>The matrices\<close>

definition makePerspective :: "real \<Rightarrow> real \<Rightarrow> real \<Rightarrow> real \<Rightarrow> real \<Rightarrow> real \<Rightarrow> mat4" where
  "makePerspective left right top' bottom n f =
     (let x = 2 * n / (right - left);
          y = 2 * n / (top' - bottom);
          a = (right + left) / (right - left);
          b = (top' + bottom) / (top' - bottom);
          c = - (f + n) / (f - n);
          d = - 2 * f * n / (f - n)
      in mat4 (mk4 x 0 a 0) (mk4 0 y b 0) (mk4 0 0 c d) (mk4 0 0 (- 1) 0))"

definition makeTranslation :: "real \<Rightarrow> real \<Rightarrow> real \<Rightarrow> mat4" where
  "makeTranslation x y z = mat4 (mk4 1 0 0 x) (mk4 0 1 0 y) (mk4 0 0 1 z) (mk4 0 0 0 1)"

definition half_fov_tan :: "real \<Rightarrow> real" where
  "half_fov_tan fv = tan (pi / 180 * 0.5 * fv)"

definition projectionMatrix :: "real \<times> jsnum \<times> real \<times> real \<Rightarrow> mat4 option" where
  "projectionMatrix p =
     (case p of (fv, a, n, f) \<Rightarrow>
        (case a of
           Num r \<Rightarrow>
             if 0 < r \<and> 0 < fv \<and> fv < 180 \<and> 0 < n \<and> n < f then
               let top' = n * half_fov_tan fv;
                   h = 2 * top';
                   w = r * h;
                   left = - 0.5 * w
               in Some (makePerspective left (left + w) top' (top' - h) n f)
             else None
         | Infinity \<Rightarrow> None
         | NaN \<Rightarrow> None))"

definition modelViewMatrix :: "camera \<Rightarrow> mat4" where
  "modelViewMatrix cam = mulm (makeTranslation 0 0 (- position_z cam)) identity4"

section \<open>The projection in closed form\<close>

lemma half_fov_tan_pos:
  assumes "0 < fv" "fv < 180"
  shows "0 < half_fov_tan fv"
  unfolding half_fov_tan_def using assms by (intro tan_gt_zero) simp_all

definition valid_projection :: "real \<times> jsnum \<times> real \<times> real \<Rightarrow> bool" where
  "valid_projection p \<longleftrightarrow>
     (case p of (fv, a, n, f) \<Rightarrow>
        (case a of Num r \<Rightarrow> 0 < r \<and> 0 < fv \<and> fv < 180 \<and> 0 < n \<and> n < f
         | Infinity \<Rightarrow> False | NaN \<Rightarrow> False))"

lemma valid_projection_Num [simp]:
  "valid_projection (fv, Num r, n, f) \<longleftrightarrow> 0 < r \<and> 0 < fv \<and> fv < 180 \<and> 0 < n \<and> n < f"
  and valid_projection_Infinity [simp]: "\<not> valid_projection (fv, Infinity, n, f)"
  and valid_projection_NaN [simp]: "\<not> valid_projection (fv, NaN, n, f)"
  by (simp_all add: valid_projection_def)

lemma projectionMatrix_defined: "projectionMatrix p \<noteq> None \<longleftrightarrow> valid_projection p"
  by (auto simp: projectionMatrix_def valid_projection_def Let_def split: prod.splits jsnum.splits)

lemma projectionMatrix_closed:
  assumes "valid_projection (fv, Num r, n, f)"
  shows "projectionMatrix (fv, Num r, n, f) =
    Some (mat4 (mk4 (1 / (r * half_fov_tan fv)) 0 0 0)
               (mk4 0 (1 / half_fov_tan fv) 0 0)
               (mk4 0 0 (- (f + n) / (f - n)) (- 2 * f * n / (f - n)))
               (mk4 0 0 (- 1) 0))"
proof -
  let ?t = "half_fov_tan fv"
  from assms have pos: "0 < ?t" "0 < r" "0 < n" by (simp_all add: half_fov_tan_pos)
  let ?top = "n * ?t" and ?w = "r * (2 * (n * ?t))"
  from pos have w: "- 0.5 * ?w + ?w - (- 0.5 * ?w) = ?w" "- 0.5 * ?w + ?w + (- 0.5 * ?w) = 0"
    and h: "?top - (?top - 2 * ?top) = 2 * ?top" "?top + (?top - 2 * ?top) = 0"
    by (simp_all add: algebra_simps)
  from pos have "2 * n / ?w = 1 / (r * ?t)" "2 * n / (2 * ?top) = 1 / ?t"
    by (simp_all add: field_simps)
  with assms w h show ?thesis
    by (simp add: projectionMatrix_def makePerspective_def Let_def)
qed

lemma modelViewMatrix_closed: "modelViewMatrix cam = makeTranslation 0 0 (- position_z cam)"
  by (simp add: modelViewMatrix_def)

section \<open>The camera of the scripts\<close>

text \<open>
  The camera every script constructs for a window of \<open>w\<close> by \<open>h\<close> pixels, and
  whether its projection is defined.
\<close>

definition script_camera :: "nat \<Rightarrow> nat \<Rightarrow> camera" where
  "script_camera w h = (PerspectiveCamera 75 (js_div w h) 0.1 1000)\<lparr>position_z := 2\<rparr>"

lemma script_camera_sel [simp]:
  "fov (script_camera w h) = 75" "aspect (script_camera w h) = js_div w h"
  "near (script_camera w h) = 0.1" "far (script_camera w h) = 1000"
  "position_z (script_camera w h) = 2"
  "projection (script_camera w h) = (75, js_div w h, 0.1, 1000)"
  by (simp_all add: script_camera_def PerspectiveCamera_def)

lemma script_projection_valid:
  "valid_projection (75, js_div w h, 0.1, 1000) \<longleftrightarrow> 0 < w \<and> 0 < h"
  by (simp add: js_div_def)

section \<open>The tangent of half the field of view\<close>

lemma tan_half_angle:
  fixes x :: real
  assumes "cos (x / 2) \<noteq> 0"
  shows "tan (x / 2) = sin x / (1 + cos x)"
proof -
  have "1 + cos x = 2 * cos (x / 2) * cos (x / 2)"
    using cos_double_cos [of "x / 2"] by (simp add: power2_eq_square)
  moreover have "sin x = 2 * sin (x / 2) * cos (x / 2)"
    using sin_double [of "x / 2"] by simp
  ultimately show ?thesis using assms by (simp add: tan_def)
qed

lemma sin_75: "sin (5 * pi / 12) = sqrt 2 * (sqrt 3 + 1) / 4"
proof -
  have "5 * pi / 12 = pi / 4 + pi / 6" by simp
  then have "sin (5 * pi / 12) = sin (pi / 4) * cos (pi / 6) + cos (pi / 4) * sin (pi / 6)"
    by (simp only: sin_add)
  then show ?thesis by (simp add: sin_45 cos_45 sin_30 cos_30 algebra_simps)
qed

lemma cos_75: "cos (5 * pi / 12) = sqrt 2 * (sqrt 3 - 1) / 4"
proof -
  have "5 * pi / 12 = pi / 4 + pi / 6" by simp
  then have "cos (5 * pi / 12) = cos (pi / 4) * cos (pi / 6) - sin (pi / 4) * sin (pi / 6)"
    by (simp only: cos_add)
  then show ?thesis by (simp add: sin_45 cos_45 sin_30 cos_30 algebra_simps)
qed

lemma sqrt2_bounds: "7/5 < sqrt 2" "sqrt 2 < 283/200"
  by (rule real_less_rsqrt, simp add: power2_eq_square)
    (rule real_less_lsqrt, simp_all add: power2_eq_square)

lemma sqrt6_bounds: "61/25 < sqrt 2 * sqrt 3" "sqrt 2 * sqrt 3 < 49/20"
proof -
  have "sqrt 2 * sqrt 3 = sqrt 6" by (simp flip: real_sqrt_mult)
  moreover have "61/25 < sqrt 6" by (rule real_less_rsqrt) (simp add: power2_eq_square)
  moreover have "sqrt 6 < 49/20" by (rule real_less_lsqrt) (simp_all add: power2_eq_square)
  ultimately show "61/25 < sqrt 2 * sqrt 3" "sqrt 2 * sqrt 3 < 49/20" by simp_all
qed

lemma half_fov_tan_75: "half_fov_tan 75 = sqrt 2 * (sqrt 3 + 1) / (4 + sqrt 2 * (sqrt 3 - 1))"
proof -
  have pos: "0 < 4 + sqrt 2 * (sqrt 3 - 1)"
    using sqrt2_bounds sqrt6_bounds by (simp add: algebra_simps)
  have "0 < cos (5 * pi / 12 / 2)" by (rule cos_gt_zero) simp_all
  then have "tan (5 * pi / 12 / 2) = sin (5 * pi / 12) / (1 + cos (5 * pi / 12))"
    by (intro tan_half_angle) simp
  also have "\<dots> = sqrt 2 * (sqrt 3 + 1) / (4 + sqrt 2 * (sqrt 3 - 1))"
    unfolding sin_75 cos_75 using pos by (simp add: field_simps)
  finally show ?thesis by (simp add: half_fov_tan_def)
qed

lemma half_fov_tan_75_bounds: "3/4 < half_fov_tan 75" "half_fov_tan 75 < 4/5"
proof -
  let ?a = "sqrt 2" and ?b = "sqrt 3"
  note b = sqrt2_bounds sqrt6_bounds
  have pos: "0 < 4 + ?a * (?b - 1)" using b by (simp add: algebra_simps)
  have "3 * (4 + ?a * (?b - 1)) < 4 * (?a * (?b + 1))" using b by (simp add: algebra_simps)
  with pos show "3/4 < half_fov_tan 75" unfolding half_fov_tan_75 by (simp add: field_simps)
  have "5 * (?a * (?b + 1)) < 4 * (4 + ?a * (?b - 1))" using b by (simp add: algebra_simps)
  with pos show "half_fov_tan 75 < 4/5" unfolding half_fov_tan_75 by (simp add: field_simps)
qed

end
