(* ===== verification/Plane_Geometry.thy ===== *)
theory Plane_Geometry
  imports Engine
begin

text \<open>
  The mesh the scripts draw: \<^verbatim>\<open>new THREE.PlaneGeometry(4, 4, 100, 100)\<close>. three.js
  builds a grid of vertices in the plane \<open>z = 0\<close>, row by row from the top, each with
  its position and its texture coordinate \<open>uv\<close>, and two triangles per grid cell
  as triples of vertex indices. \<open>plane_vertices\<close> and \<open>plane_indices\<close> are these two
  buffers.

  The fragment shader receives \<open>uv\<close> interpolated over a triangle. On this mesh the
  position is an affine function of \<open>uv\<close>, \<open>surface_point\<close>, at every vertex, and so
  at every interpolated point: a point of the plane determines its \<open>uv\<close>.
\<close>

section \<open>The buffers\<close>

definition plane_vertex :: "plane_geometry \<Rightarrow> nat \<Rightarrow> nat \<Rightarrow> vec3 \<times> vec2" where
  "plane_vertex g ix iy =
     (let width_half = width g / 2;
          height_half = height g / 2;
          gridX = widthSegments g;
          gridY = heightSegments g;
          segment_width = width g / real gridX;
          segment_height = height g / real gridY;
          y = real iy * segment_height - height_half;
          x = real ix * segment_width - width_half
      in (vec3 x (- y) 0, vec2 (real ix / real gridX) (1 - real iy / real gridY)))"

definition plane_vertices :: "plane_geometry \<Rightarrow> (vec3 \<times> vec2) list" where
  "plane_vertices g =
     concat (map (\<lambda>iy. map (\<lambda>ix. plane_vertex g ix iy) [0..<widthSegments g + 1])
       [0..<heightSegments g + 1])"

definition plane_cell :: "plane_geometry \<Rightarrow> nat \<Rightarrow> nat \<Rightarrow> (nat \<times> nat \<times> nat) list" where
  "plane_cell g ix iy =
     (let gridX1 = widthSegments g + 1;
          a = ix + gridX1 * iy;
          b = ix + gridX1 * (iy + 1);
          c = (ix + 1) + gridX1 * (iy + 1);
          d = (ix + 1) + gridX1 * iy
      in [(a, b, d), (b, c, d)])"

definition plane_indices :: "plane_geometry \<Rightarrow> (nat \<times> nat \<times> nat) list" where
  "plane_indices g =
     concat (map (\<lambda>iy. concat (map (\<lambda>ix. plane_cell g ix iy) [0..<widthSegments g]))
       [0..<heightSegments g])"

section \<open>Texture coordinates and positions\<close>

definition unit_square :: "vec2 \<Rightarrow> bool" where
  "unit_square uv \<longleftrightarrow> unit_interval (vx uv) \<and> unit_interval (vy uv)"

definition surface_point :: "plane_geometry \<Rightarrow> vec2 \<Rightarrow> vec3" where
  "surface_point g uv = vec3 (width g * (vx uv - 1 / 2)) (height g * (vy uv - 1 / 2)) 0"

definition script_geometry :: plane_geometry where
  "script_geometry = \<lparr>width = 4, height = 4, widthSegments = 100, heightSegments = 100\<rparr>"

lemma unit_square_vec2 [simp]: "unit_square (vec2 x y) \<longleftrightarrow> unit_interval x \<and> unit_interval y"
  by (simp add: unit_square_def)

lemma plane_vertex_wf:
  assumes "0 < widthSegments g" "0 < heightSegments g"
    "ix \<le> widthSegments g" "iy \<le> heightSegments g"
  shows "unit_square (snd (plane_vertex g ix iy))"
    and "fst (plane_vertex g ix iy) = surface_point g (snd (plane_vertex g ix iy))"
  using assms
  by (simp_all add: plane_vertex_def surface_point_def Let_def unit_interval_def field_simps)

lemma length_concat_const:
  assumes "\<And>x. x \<in> set xs \<Longrightarrow> length (f x) = n"
  shows "length (concat (map f xs)) = length xs * n"
  using assms by (induction xs) simp_all

lemma length_plane_vertices:
  "length (plane_vertices g) = (widthSegments g + 1) * (heightSegments g + 1)"
  by (simp add: plane_vertices_def length_concat_const [where n = "widthSegments g + 1"])

lemma length_plane_indices:
  "length (plane_indices g) = 2 * (widthSegments g * heightSegments g)"
proof -
  have "length (concat (map (\<lambda>ix. plane_cell g ix iy) [0..<widthSegments g])) =
      widthSegments g * 2" for iy
    by (rule length_concat_const [where xs = "[0..<widthSegments g]", simplified])
      (simp add: plane_cell_def Let_def)
  then show ?thesis
    by (simp add: plane_indices_def
        length_concat_const [where n = "widthSegments g * 2"])
qed

lemma plane_cell_bound:
  assumes "ix < widthSegments g" "iy < heightSegments g" "(a, b, c) \<in> set (plane_cell g ix iy)"
  shows "a < length (plane_vertices g) \<and> b < length (plane_vertices g) \<and>
    c < length (plane_vertices g)"
proof -
  let ?gx = "widthSegments g + 1" and ?gy = "heightSegments g + 1"
  from assms(2) have "?gx * (iy + 1) \<le> ?gx * heightSegments g" by (intro mult_le_mono2) simp
  with assms(1) have top: "(ix + 1) + ?gx * (iy + 1) < ?gx * ?gy" by simp
  moreover have "ix + ?gx * iy \<le> (ix + 1) + ?gx * (iy + 1)"
    "ix + ?gx * (iy + 1) \<le> (ix + 1) + ?gx * (iy + 1)"
    "(ix + 1) + ?gx * iy \<le> (ix + 1) + ?gx * (iy + 1)"
    by simp_all
  ultimately show ?thesis
    using assms(3) by (auto simp: plane_cell_def Let_def length_plane_vertices)
qed

section \<open>Well-formedness of the mesh\<close>

text \<open>
  C36. The mesh is well formed. For a plane of at least one segment each way the
  vertex buffer holds one vertex per grid point, every vertex has its texture
  coordinate in the unit square and the position that \<open>surface_point\<close> assigns to
  it, and the index buffer holds two triangles per cell whose corners are
  vertices of the buffer.
\<close>

theorem plane_geometry_wf:
  assumes "0 < widthSegments g" "0 < heightSegments g"
  shows "length (plane_vertices g) = (widthSegments g + 1) * (heightSegments g + 1) \<and>
    list_all (\<lambda>v. unit_square (snd v) \<and> fst v = surface_point g (snd v)) (plane_vertices g) \<and>
    length (plane_indices g) = 2 * (widthSegments g * heightSegments g) \<and>
    list_all (\<lambda>(a, b, c). a < length (plane_vertices g) \<and> b < length (plane_vertices g) \<and>
      c < length (plane_vertices g)) (plane_indices g)"
proof -
  have "list_all (\<lambda>v. unit_square (snd v) \<and> fst v = surface_point g (snd v)) (plane_vertices g)"
    using assms by (auto simp: list_all_iff plane_vertices_def plane_vertex_wf)
  moreover have "list_all (\<lambda>(a, b, c). a < length (plane_vertices g) \<and>
      b < length (plane_vertices g) \<and> c < length (plane_vertices g)) (plane_indices g)"
    unfolding list_all_iff plane_indices_def using plane_cell_bound [of _ g] by auto
  ultimately show ?thesis by (simp add: length_plane_vertices length_plane_indices)
qed

theorem plane_geometry_wf_witness:
  "length (plane_vertices script_geometry) =
      (widthSegments script_geometry + 1) * (heightSegments script_geometry + 1) \<and>
    list_all (\<lambda>v. unit_square (snd v) \<and> fst v = surface_point script_geometry (snd v))
      (plane_vertices script_geometry) \<and>
    length (plane_indices script_geometry) =
      2 * (widthSegments script_geometry * heightSegments script_geometry) \<and>
    list_all (\<lambda>(a, b, c). a < length (plane_vertices script_geometry) \<and>
      b < length (plane_vertices script_geometry) \<and>
      c < length (plane_vertices script_geometry)) (plane_indices script_geometry)"
  by (rule plane_geometry_wf) (simp_all add: script_geometry_def)

end
