(* ===== verification/Vertex_Shader.thy ===== *)
theory Vertex_Shader
  imports Camera_Projection Plane_Geometry
begin

text \<open>
  The vertex shader of the three scripts (the same five lines in each) and what
  becomes of its output. \<open>main_vertex\<close> is the shader: it forwards the texture
  coordinate as the varying \<open>vUv\<close> and places the vertex by the two matrices of
  theory \<open>Camera_Projection\<close>. The backend then clips against the view volume and
  divides by \<open>w\<close> (\<open>clip_to_ndc\<close>), which gives normalised device coordinates: the
  viewport is the square from \<open>-1\<close> to \<open>1\<close> in \<open>x\<close> and \<open>y\<close>.

  \<open>project_surface\<close> is the way of a point of the mesh to the viewport, by its
  texture coordinate. \<open>fragment_uv\<close> is the way back, which is what rasterisation
  computes for the fragment shader: the interpolated \<open>vUv\<close> of the fragment at a
  point of the viewport, or \<open>None\<close> where the mesh does not cover the viewport and
  the clear colour stays. It is given in closed form and shown to be the inverse of
  \<open>project_surface\<close>.
\<close>

section \<open>The shader\<close>

definition main_vertex :: "mat4 \<Rightarrow> mat4 \<Rightarrow> vec3 \<Rightarrow> vec2 \<Rightarrow> vec4 \<times> vec2" where
  "main_vertex projMat mvMat position uv =
     (let vUv = uv;
          gl_Position = mulv (mulm projMat mvMat) (vec4 position 1)
      in (gl_Position, vUv))"

section \<open>Clipping and the perspective divide\<close>

definition clip_to_ndc :: "vec4 \<Rightarrow> vec3 option" where
  "clip_to_ndc p =
     (if 0 < cw p \<and> \<bar>cx p\<bar> \<le> cw p \<and> \<bar>cy p\<bar> \<le> cw p \<and> \<bar>cz p\<bar> \<le> cw p
      then Some (vec3 (cx p / cw p) (cy p / cw p) (cz p / cw p)) else None)"

definition project_surface ::
  "real \<times> jsnum \<times> real \<times> real \<Rightarrow> camera \<Rightarrow> plane_geometry \<Rightarrow> vec2 \<Rightarrow> vec3 option" where
  "project_surface proj cam g uv =
     (case projectionMatrix proj of
        None \<Rightarrow> None
      | Some m \<Rightarrow> clip_to_ndc (fst (main_vertex m (modelViewMatrix cam) (surface_point g uv) uv)))"

section \<open>From the viewport back to the surface\<close>

definition fragment_uv ::
  "real \<times> jsnum \<times> real \<times> real \<Rightarrow> camera \<Rightarrow> plane_geometry \<Rightarrow> vec2 \<Rightarrow> vec2 option" where
  "fragment_uv proj cam g q =
     (case proj of (fv, a, n, f) \<Rightarrow>
        (case a of
           Num r \<Rightarrow>
             let d = position_z cam;
                 t = half_fov_tan fv;
                 uv = vec2 (vx q * d * r * t / width g + 1 / 2) (vy q * d * t / height g + 1 / 2)
             in if valid_projection proj \<and> n \<le> d \<and> d \<le> f \<and> 0 < width g \<and> 0 < height g \<and>
                   \<bar>vx q\<bar> \<le> 1 \<and> \<bar>vy q\<bar> \<le> 1 \<and> unit_square uv
                then Some uv else None
         | Infinity \<Rightarrow> None
         | NaN \<Rightarrow> None))"

section \<open>The position of a vertex\<close>

lemma main_vertex_closed:
  assumes "valid_projection (fv, Num r, n, f)"
  shows "main_vertex (the (projectionMatrix (fv, Num r, n, f))) (modelViewMatrix cam)
      (vec3 x y z) uv =
    (mk4 (x / (r * half_fov_tan fv)) (y / half_fov_tan fv)
       (((f + n) * (position_z cam - z) - 2 * f * n) / (f - n)) (position_z cam - z), uv)"
proof -
  let ?d = "position_z cam"
  have view: "mulv (modelViewMatrix cam) (vec4 (vec3 x y z) 1) = mk4 x y (z - ?d) 1"
    by (simp add: modelViewMatrix_closed makeTranslation_def mulv_def dot4_def)
  have "a / c * b + e / c = (a * b + e) / c" for a b c e :: real
    by (simp add: add_divide_distrib)
  then have "- (f + n) / (f - n) * (z - ?d) + - 2 * f * n / (f - n) =
      (- (f + n) * (z - ?d) + - 2 * f * n) / (f - n)" .
  also have "- (f + n) * (z - ?d) + - 2 * f * n = (f + n) * (?d - z) - 2 * f * n"
    by (simp add: algebra_simps)
  finally have depth: "- (f + n) / (f - n) * (z - ?d) + - 2 * f * n / (f - n) =
      ((f + n) * (?d - z) - 2 * f * n) / (f - n)" .
  have "mulv (the (projectionMatrix (fv, Num r, n, f))) (mk4 x y (z - ?d) 1) =
      mk4 (x / (r * half_fov_tan fv)) (y / half_fov_tan fv)
        (- (f + n) / (f - n) * (z - ?d) + - 2 * f * n / (f - n)) (?d - z)"
    by (simp add: projectionMatrix_closed [OF assms] mulv_def dot4_def)
  with view depth show ?thesis by (simp add: main_vertex_def mulv_mulm)
qed

text \<open>The depth test of the clip volume is the test against the near and the far plane.\<close>

lemma depth_in_range:
  fixes n f d :: real
  assumes "0 < n" "n < f"
  shows "\<bar>((f + n) * d - 2 * f * n) / (f - n)\<bar> \<le> d \<longleftrightarrow> n \<le> d \<and> d \<le> f"
proof -
  let ?a = "(f + n) * d - 2 * f * n"
  from assms have fn: "0 < f - n" and f: "0 < f" by simp_all
  have "\<bar>?a / (f - n)\<bar> \<le> d \<longleftrightarrow> \<bar>?a\<bar> \<le> d * (f - n)"
    using fn by (simp add: pos_divide_le_eq)
  also have "\<dots> \<longleftrightarrow> ?a \<le> d * (f - n) \<and> - ?a \<le> d * (f - n)" by (rule abs_le_iff)
  also have "?a \<le> d * (f - n) \<longleftrightarrow> 0 \<le> 2 * n * (f - d)" by (simp add: algebra_simps)
  also have "\<dots> \<longleftrightarrow> d \<le> f" using assms(1) by (simp add: zero_le_mult_iff)
  also have "- ?a \<le> d * (f - n) \<longleftrightarrow> 0 \<le> 2 * f * (d - n)" by (simp add: algebra_simps)
  also have "\<dots> \<longleftrightarrow> n \<le> d" using f by (simp add: zero_le_mult_iff)
  finally show ?thesis by blast
qed

section \<open>The two ways in closed form\<close>

lemma project_surface_closed:
  assumes "valid_projection (fv, Num r, n, f)"
  shows "project_surface (fv, Num r, n, f) cam g uv =
    (let d = position_z cam;
         t = half_fov_tan fv;
         x = width g * (vx uv - 1 / 2) / (r * t);
         y = height g * (vy uv - 1 / 2) / t
     in if n \<le> d \<and> d \<le> f \<and> \<bar>x\<bar> \<le> d \<and> \<bar>y\<bar> \<le> d
        then Some (vec3 (x / d) (y / d) (((f + n) * d - 2 * f * n) / (f - n) / d)) else None)"
proof -
  from assms have n: "0 < n" "n < f" by simp_all
  from assms have "projectionMatrix (fv, Num r, n, f) \<noteq> None"
    by (simp only: projectionMatrix_defined)
  then have "project_surface (fv, Num r, n, f) cam g uv =
      clip_to_ndc (fst (main_vertex (the (projectionMatrix (fv, Num r, n, f)))
        (modelViewMatrix cam) (surface_point g uv) uv))"
    by (auto simp: project_surface_def)
  also have "\<dots> = clip_to_ndc
      (mk4 (width g * (vx uv - 1 / 2) / (r * half_fov_tan fv))
        (height g * (vy uv - 1 / 2) / half_fov_tan fv)
        (((f + n) * position_z cam - 2 * f * n) / (f - n)) (position_z cam))"
    by (simp add: surface_point_def main_vertex_closed [OF assms])
  finally show ?thesis
    using n depth_in_range [OF n, of "position_z cam"]
    by (auto simp: clip_to_ndc_def Let_def)
qed

lemma fragment_uv_closed:
  "fragment_uv (fv, Num r, n, f) cam g q =
    (let d = position_z cam;
         t = half_fov_tan fv;
         uv = vec2 (vx q * d * r * t / width g + 1 / 2) (vy q * d * t / height g + 1 / 2)
     in if valid_projection (fv, Num r, n, f) \<and> n \<le> d \<and> d \<le> f \<and> 0 < width g \<and>
           0 < height g \<and> \<bar>vx q\<bar> \<le> 1 \<and> \<bar>vy q\<bar> \<le> 1 \<and> unit_square uv
        then Some uv else None)"
  and fragment_uv_undefined:
  "fragment_uv (fv, Infinity, n, f) cam g q = None" "fragment_uv (fv, NaN, n, f) cam g q = None"
  by (simp_all add: fragment_uv_def)

lemma fragment_uv_SomeD:
  assumes "fragment_uv proj cam g q = Some uv"
  obtains fv r n f where "proj = (fv, Num r, n, f)" "valid_projection (fv, Num r, n, f)"
    "n \<le> position_z cam" "position_z cam \<le> f" "0 < width g" "0 < height g"
    "\<bar>vx q\<bar> \<le> 1" "\<bar>vy q\<bar> \<le> 1" "unit_square uv"
    "uv = vec2 (vx q * position_z cam * r * half_fov_tan fv / width g + 1 / 2)
       (vy q * position_z cam * half_fov_tan fv / height g + 1 / 2)"
  using assms
  by (auto simp: fragment_uv_def Let_def split: prod.splits jsnum.splits if_splits)

section \<open>Properties of the vertex stage\<close>

text \<open>
  C37. Where the vertices of the scripts' plane land. With the camera of the
  scripts (75 degrees, near 0.1, far 1000, at \<open>z = 2\<close>) and a window of positive
  size, the vertex shader forwards the texture coordinate unchanged and gives
  every grid vertex \<open>w = 2\<close>; after the divide the vertex \<open>(ix, iy)\<close> is at
  \<open>(ix / 50 - 1) / (aspect * t)\<close> across and \<open>(1 - iy / 50) / t\<close> up, \<open>t\<close> the
  tangent of half the field of view.
\<close>

theorem vertex_position:
  assumes "0 < w" "0 < h" "position_z cam = 2"
  shows "let v = plane_vertex script_geometry ix iy;
      out = main_vertex (the (projectionMatrix (75, js_div w h, 0.1, 1000)))
        (modelViewMatrix cam) (fst v) (snd v)
    in snd out = snd v \<and> cw (fst out) = 2 \<and>
      cx (fst out) / cw (fst out) = (real ix / 50 - 1) / (real w / real h * half_fov_tan 75) \<and>
      cy (fst out) / cw (fst out) = (1 - real iy / 50) / half_fov_tan 75"
proof -
  from assms have valid: "valid_projection (75, Num (real w / real h), 0.1, 1000)" by simp
  have v: "plane_vertex script_geometry ix iy =
      (vec3 (real ix / 25 - 2) (2 - real iy / 25) 0, vec2 (real ix / 100) (1 - real iy / 100))"
    by (simp add: plane_vertex_def script_geometry_def Let_def)
  from assms(2) have "js_div w h = Num (real w / real h)" by (simp add: js_div_def)
  then show ?thesis
    unfolding v Let_def using assms(3)
    by (simp add: main_vertex_closed [OF valid] field_simps)
qed

theorem vertex_position_witness:
  "let v = plane_vertex script_geometry 100 0;
      out = main_vertex (the (projectionMatrix (75, js_div 800 600, 0.1, 1000)))
        (modelViewMatrix (PerspectiveCamera 75 (js_div 800 600) 0.1 1000\<lparr>position_z := 2\<rparr>))
        (fst v) (snd v)
    in snd out = snd v \<and> cw (fst out) = 2 \<and>
      cx (fst out) / cw (fst out) =
        (real (100::nat) / 50 - 1) / (real (800::nat) / real (600::nat) * half_fov_tan 75) \<and>
      cy (fst out) / cw (fst out) = (1 - real (0::nat) / 50) / half_fov_tan 75"
  by (rule vertex_position) simp_all

text \<open>
  C38. Rasterisation inverts the vertex stage. If a point of the plane with texture
  coordinate \<open>uv\<close> in the unit square survives clipping, the fragment at its place
  in the viewport receives that \<open>uv\<close>; and if a point of the viewport has a
  fragment with \<open>uv\<close>, it is the place of the point of the plane with this
  texture coordinate.
\<close>

theorem surface_fragment_roundtrip:
  assumes "0 < width g" "0 < height g"
  shows "(unit_square uv \<and> project_surface proj cam g uv = Some p \<longrightarrow>
      fragment_uv proj cam g (vec2 (red p) (green p)) = Some uv) \<and>
    (fragment_uv proj cam g q = Some uv \<longrightarrow>
      (\<exists>z. project_surface proj cam g uv = Some (vec3 (vx q) (vy q) z)))"
proof (intro conjI impI)
  assume a: "unit_square uv \<and> project_surface proj cam g uv = Some p"
  then have "projectionMatrix proj \<noteq> None"
    by (auto simp: project_surface_def split: option.splits)
  then have "valid_projection proj" by (simp only: projectionMatrix_defined)
  then obtain fv r n f where proj: "proj = (fv, Num r, n, f)"
    and valid: "valid_projection (fv, Num r, n, f)"
    by (cases proj; cases "fst (snd proj)") auto
  let ?d = "position_z cam" and ?t = "half_fov_tan fv"
  let ?x = "width g * (vx uv - 1 / 2) / (r * ?t)" and ?y = "height g * (vy uv - 1 / 2) / ?t"
  from valid have pos: "0 < r" "0 < ?t" "0 < n" by (simp_all add: half_fov_tan_pos)
  from a have "project_surface (fv, Num r, n, f) cam g uv = Some p" by (simp add: proj)
  then have c: "n \<le> ?d" "?d \<le> f" "\<bar>?x\<bar> \<le> ?d" "\<bar>?y\<bar> \<le> ?d"
    and p: "red p = ?x / ?d" "green p = ?y / ?d"
    by (auto simp: project_surface_closed [OF valid] Let_def split: if_splits)
  from c(1) pos(3) have d: "0 < ?d" by simp
  with c(3,4) have "\<bar>?x / ?d\<bar> \<le> 1" "\<bar>?y / ?d\<bar> \<le> 1"
    by (simp_all only: abs_divide_le_one)
  moreover from pos d assms have "?x / ?d * ?d * r * ?t / width g + 1 / 2 = vx uv"
    "?y / ?d * ?d * ?t / height g + 1 / 2 = vy uv"
    by simp_all
  ultimately show "fragment_uv proj cam g (vec2 (red p) (green p)) = Some uv"
    using a valid c(1,2) assms unfolding proj p fragment_uv_closed Let_def
    by (cases uv) simp
next
  assume "fragment_uv proj cam g q = Some uv"
  then obtain fv r n f where proj: "proj = (fv, Num r, n, f)"
    and valid: "valid_projection (fv, Num r, n, f)"
    and c: "n \<le> position_z cam" "position_z cam \<le> f" "\<bar>vx q\<bar> \<le> 1" "\<bar>vy q\<bar> \<le> 1"
    and uv: "uv = vec2 (vx q * position_z cam * r * half_fov_tan fv / width g + 1 / 2)
       (vy q * position_z cam * half_fov_tan fv / height g + 1 / 2)"
    by (rule fragment_uv_SomeD)
  let ?d = "position_z cam" and ?t = "half_fov_tan fv"
  from valid have pos: "0 < r" "0 < ?t" "0 < n" by (simp_all add: half_fov_tan_pos)
  with c(1) have d: "0 < ?d" by simp
  from pos assms have x: "width g * (vx uv - 1 / 2) / (r * ?t) = vx q * ?d"
    and y: "height g * (vy uv - 1 / 2) / ?t = vy q * ?d"
    unfolding uv by simp_all
  from c(3,4) d have "\<bar>vx q * ?d\<bar> \<le> ?d" "\<bar>vy q * ?d\<bar> \<le> ?d"
    by (simp_all only: abs_times_le)
  with c(1,2) d show "\<exists>z. project_surface proj cam g uv = Some (vec3 (vx q) (vy q) z)"
    unfolding proj project_surface_closed [OF valid] Let_def x y by simp
qed

theorem surface_fragment_roundtrip_witness:
  "fragment_uv (75, Num (4 / 3), 1 / 10, 1000) (script_camera 800 600) script_geometry (vec2 0 0) =
      Some (vec2 (1 / 2) (1 / 2)) \<and>
   (\<exists>z. project_surface (75, Num (4 / 3), 1 / 10, 1000) (script_camera 800 600) script_geometry
      (vec2 (1 / 2) (1 / 2)) = Some (vec3 0 0 z))"
proof -
  let ?proj = "(75, Num (4 / 3), 1 / 10, 1000) :: real \<times> jsnum \<times> real \<times> real"
  let ?cam = "script_camera 800 600" and ?uv = "vec2 (1 / 2) (1 / 2)"
  have p: "project_surface ?proj ?cam script_geometry ?uv = Some (vec3 0 0 (9001 / 9999))"
    by (simp add: project_surface_closed script_geometry_def)
  have g: "0 < width script_geometry" "0 < height script_geometry"
    and u: "unit_square ?uv"
    by (simp_all add: script_geometry_def unit_interval_def)
  note rt = surface_fragment_roundtrip
    [OF g, of ?uv ?proj ?cam "vec3 0 0 (9001 / 9999)" "vec2 0 0", simplified vec3.sel]
  from rt u p have "fragment_uv ?proj ?cam script_geometry (vec2 0 0) = Some ?uv" by blast
  with rt show ?thesis by (simp only: vec2.sel)
qed

end
