(* ===== verification/Screen.thy ===== *)
theory Screen
  imports Vertex_Shader Lifecycle
begin

text \<open>
  What is on the screen: the engine and the vertex stage together. The camera's
  field of view, its near and far planes, its distance and the mesh are set at
  construction and never written again (\<open>scene_inv\<close>); only the aspect follows the
  window. \<open>screen_uv\<close> is the texture coordinate whose colour the latest draw put
  at a point of the viewport, if the canvas is in the page and the mesh covers that
  point. The theory gives it in closed form for the moment after an animation
  frame, and shows how much of the viewport and how much of the picture that
  leaves out.
\<close>

section \<open>The scene is fixed at construction\<close>

definition scene_inv :: "'u world \<Rightarrow> bool" where
  "scene_inv s \<longleftrightarrow>
     fov (camera s) = 75 \<and> near (camera s) = 0.1 \<and> far (camera s) = 1000 \<and>
     position_z (camera s) = 2 \<and> geometry s = script_geometry \<and> scene s = 1"

lemma mount_scene_inv [simp]: "scene_inv (mount unis click cleanup h)"
  by (simp add: scene_inv_def mount_unfold script_geometry_def)

lemma click_contract_scene:
  assumes "click_contract f"
  shows "scene_inv (f s) = scene_inv s"
proof -
  from assms obtain g where "f s = s\<lparr>material_uniforms := g (material_uniforms s)\<rparr>"
    unfolding click_contract_def by blast
  then show ?thesis by (simp add: scene_inv_def)
qed

lemma cleanup_contract_scene:
  assumes "cleanup_contract f"
  shows "scene_inv (f s) = scene_inv s"
proof -
  from assms obtain keep where
    "f s = (cleanup_fractal s)\<lparr>click_listener := keep \<and> click_listener s\<rparr>"
    unfolding cleanup_contract_def by blast
  then show ?thesis by (simp add: scene_inv_def cleanup_fractal_unfold)
qed

lemma dispatch_scene_inv:
  assumes "click_contract onclick" "cleanup_contract cleanup" "raf_queue s = 1" "scene_inv s"
  shows "scene_inv (dispatch onclick cleanup s e)"
proof (cases e)
  case Click
  with assms show ?thesis by (simp add: click_contract_scene)
next
  case Unmount
  with assms show ?thesis by (simp add: cleanup_contract_scene) (simp add: scene_inv_def)
qed (use assms in \<open>simp_all add: scene_inv_def Let_def handleResize_unfold animate_unfold\<close>)

lemma run_scene_inv:
  fixes s :: "'u world"
  assumes "click_contract onclick" "cleanup_contract cleanup"
    "engine_inv s" "scene_inv s" "list_all wf_event es"
  shows "scene_inv (run (dispatch onclick cleanup) s es)"
proof -
  from assms(3,4) have "engine_inv s \<and> scene_inv s" ..
  then have "engine_inv (run (dispatch onclick cleanup) s es) \<and>
      scene_inv (run (dispatch onclick cleanup) s es)"
    using assms(5)
  proof (rule run_invariant [where I = "\<lambda>s. engine_inv s \<and> scene_inv s", rotated])
    fix t :: "'u world" and e
    assume "engine_inv t \<and> scene_inv t" "wf_event e"
    then show "engine_inv (dispatch onclick cleanup t e) \<and>
        scene_inv (dispatch onclick cleanup t e)"
      by (simp add: dispatch_engine_inv dispatch_scene_inv engine_inv_last_frame assms(1,2))
  qed
  then show ?thesis ..
qed

section \<open>The texture coordinate at a point of the viewport\<close>

definition screen_uv :: "'u world \<Rightarrow> vec2 \<Rightarrow> vec2 option" where
  "screen_uv s q =
     (if canvas_attached s \<and> frames s \<noteq> []
      then fragment_uv (frame_projection (last (frames s))) (camera s) (geometry s) q
      else None)"

lemma fragment_uv_script_aspect:
  assumes "position_z cam = 2"
  shows "fragment_uv (75, Num r, 0.1, 1000) cam script_geometry q =
    (let t = half_fov_tan 75;
         uv = vec2 (vx q * r * t / 2 + 1 / 2) (vy q * t / 2 + 1 / 2)
     in if 0 < r \<and> \<bar>vx q\<bar> \<le> 1 \<and> \<bar>vy q\<bar> \<le> 1 \<and> unit_square uv then Some uv else None)"
  using assms by (simp add: fragment_uv_closed script_geometry_def Let_def mult_ac)

lemma fragment_uv_script:
  assumes "position_z cam = 2"
  shows "fragment_uv (75, js_div w h, 0.1, 1000) cam script_geometry q =
    (let t = half_fov_tan 75;
         uv = vec2 (vx q * (real w / real h) * t / 2 + 1 / 2) (vy q * t / 2 + 1 / 2)
     in if 0 < w \<and> 0 < h \<and> \<bar>vx q\<bar> \<le> 1 \<and> \<bar>vy q\<bar> \<le> 1 \<and> unit_square uv
        then Some uv else None)"
proof (cases "0 < h")
  case True
  then have "js_div w h = Num (real w / real h)" by (simp add: js_div_def)
  with True show ?thesis
    by (simp add: fragment_uv_script_aspect [OF assms] zero_less_divide_iff)
next
  case False
  then show ?thesis by (simp add: js_div_def fragment_uv_undefined)
qed

text \<open>After an animation frame of a mounted script the viewport shows the window's aspect.\<close>

lemma screen_uv_after_frame:
  assumes "engine_inv s" "scene_inv s" "resize_listener s"
  shows "screen_uv (dispatch onclick cleanup s (Frame dt)) q =
    fragment_uv (75, js_div (innerWidth s) (innerHeight s), 0.1, 1000) (camera s)
      script_geometry q"
proof -
  from assms(1) have q: "raf_queue s = 1" by (rule engine_inv_last_frame)
  from assms(1,3) have "canvas_attached s" "viewport_synced s"
    by (simp_all add: engine_inv_def teardown_inv_def)
  with assms(2) have "projection (camera s) =
      (75, js_div (innerWidth s) (innerHeight s), 0.1, 1000)"
    by (simp add: viewport_synced_def scene_inv_def)
  with q assms(2) \<open>canvas_attached s\<close> show ?thesis
    by (simp add: screen_uv_def animate_unfold scene_inv_def)
qed

text \<open>
  The same for a whole execution without an unmount, in closed form: the window
  the last event before the frame left decides what the frame shows.
\<close>

definition window_uv :: "nat \<Rightarrow> nat \<Rightarrow> vec2 \<Rightarrow> vec2 option" where
  "window_uv w h q =
     (let t = half_fov_tan 75;
          uv = vec2 (vx q * (real w / real h) * t / 2 + 1 / 2) (vy q * t / 2 + 1 / 2)
      in if 0 < w \<and> 0 < h \<and> \<bar>vx q\<bar> \<le> 1 \<and> \<bar>vy q\<bar> \<le> 1 \<and> unit_square uv
         then Some uv else None)"

lemma mounted_screen_uv:
  fixes s0 :: "'u world"
  assumes "click_contract onclick" "cleanup_contract cleanup"
    "engine_inv s0" "scene_inv s0" "resize_listener s0"
    "list_all wf_event es" "Unmount \<notin> set es"
  shows "screen_uv (run (dispatch onclick cleanup) s0 (es @ [Frame dt])) q =
    window_uv (innerWidth (run (dispatch onclick cleanup) s0 es))
      (innerHeight (run (dispatch onclick cleanup) s0 es)) q"
proof -
  let ?s = "run (dispatch onclick cleanup) s0 es"
  note c = assms(1,2)
  have inv: "engine_inv ?s" using c assms(3,6) by (rule run_engine_inv)
  have sc: "scene_inv ?s" using c assms(3,4,6) by (rule run_scene_inv)
  have m: "resize_listener ?s" using run_resize_listener [OF c assms(3,6,7)] assms(5) by simp
  from sc have "position_z (camera ?s) = 2" by (simp add: scene_inv_def)
  then show ?thesis
    using screen_uv_after_frame [OF inv sc m, of onclick cleanup dt q]
    by (simp add: fragment_uv_script window_uv_def)
qed

lemma frame_keeps_window:
  assumes "raf_queue s = 1"
  shows "innerWidth (dispatch onclick cleanup s (Frame dt)) = innerWidth s"
    "innerHeight (dispatch onclick cleanup s (Frame dt)) = innerHeight s"
  using assms by (simp_all add: animate_unfold)

lemma fractal_screen_uv:
  assumes "FractalAnimation h = Inr s0" "list_all wf_event es" "Unmount \<notin> set es"
  shows "screen_uv (run step_fractal s0 (es @ [Frame dt])) q =
      window_uv (innerWidth (run step_fractal s0 es)) (innerHeight (run step_fractal s0 es)) q"
    and "innerWidth (run step_fractal s0 (es @ [Frame dt])) = innerWidth (run step_fractal s0 es)"
    and "innerHeight (run step_fractal s0 (es @ [Frame dt])) = innerHeight (run step_fractal s0 es)"
proof -
  note start = fractal_start [OF assms(1)]
  have "scene_inv s0" unfolding FractalAnimation_Inr [OF assms(1)] by simp
  with start(1,3) assms(2,3)
  show "screen_uv (run step_fractal s0 (es @ [Frame dt])) q =
      window_uv (innerWidth (run step_fractal s0 es)) (innerHeight (run step_fractal s0 es)) q"
    unfolding step_fractal_def by (intro mounted_screen_uv fractal_contracts)
  have "raf_queue (run step_fractal s0 es) = 1"
    using fractal_run(1) [OF start(1) assms(2)] by (rule engine_inv_last_frame)
  then show
    "innerWidth (run step_fractal s0 (es @ [Frame dt])) = innerWidth (run step_fractal s0 es)"
    "innerHeight (run step_fractal s0 (es @ [Frame dt])) = innerHeight (run step_fractal s0 es)"
    unfolding step_fractal_def run_snoc by (simp_all only: frame_keeps_window)
qed

lemma quantum_screen_uv:
  assumes "QuantumVisualization h = Inr s0" "list_all wf_event es" "Unmount \<notin> set es"
  shows "screen_uv (run step_quantum s0 (es @ [Frame dt])) q =
      window_uv (innerWidth (run step_quantum s0 es)) (innerHeight (run step_quantum s0 es)) q"
proof -
  note start = quantum_start [OF assms(1)]
  have "scene_inv s0" unfolding QuantumVisualization_Inr [OF assms(1)] by simp
  with start(1,3) assms(2,3) show ?thesis
    unfolding step_quantum_def by (intro mounted_screen_uv quantum_contracts)
qed

section \<open>How much the plane covers\<close>

lemma wide_aspect:
  assumes "0 < h" "4 * h \<le> 3 * (w :: nat)"
  shows "1 < real w / real h * half_fov_tan 75"
proof -
  from assms have "4 * real h \<le> 3 * real w"
    by (metis of_nat_le_iff of_nat_mult of_nat_numeral)
  with assms(1) have r: "4 / 3 \<le> real w / real h" by (simp add: field_simps)
  have "1 < 4 / 3 * half_fov_tan 75" using half_fov_tan_75_bounds(1) by simp
  also have "\<dots> \<le> real w / real h * half_fov_tan 75"
    using r half_fov_tan_75_bounds(1) by (intro mult_right_mono) simp_all
  finally show ?thesis .
qed

lemma picture_rows:
  assumes "\<bar>y\<bar> \<le> 1"
  shows "1 / 10 < y * half_fov_tan 75 / 2 + 1 / 2" "y * half_fov_tan 75 / 2 + 1 / 2 < 9 / 10"
proof -
  let ?t = "half_fov_tan 75"
  note t = half_fov_tan_75_bounds
  from t have "0 < ?t" by simp
  with assms have "\<bar>y * ?t\<bar> \<le> ?t" by (simp only: abs_times_le)
  with t(2) have "- (4 / 5) < y * ?t" "y * ?t < 4 / 5" by (simp_all add: abs_le_iff)
  then show "1 / 10 < y * ?t / 2 + 1 / 2" "y * ?t / 2 + 1 / 2 < 9 / 10" by simp_all
qed

text \<open>
  C39. The plane does not fill the viewport, and the viewport does not show the
  whole plane. After an animation frame of the mounted fractal component in a
  window at least as wide as 4 to 3, no fragment is drawn on the left and right
  border of the viewport: there the clear colour remains. And wherever a fragment
  is drawn its texture coordinate has a second component strictly between \<open>0.1\<close>
  and \<open>0.9\<close>: the top and the bottom tenth of the picture are never on screen.
\<close>

theorem plane_leaves_viewport_uncovered:
  assumes "FractalAnimation h = Inr s0" "list_all wf_event es" "Unmount \<notin> set es"
    "s = run step_fractal s0 (es @ [Frame dt])"
    "0 < innerHeight s" "4 * innerHeight s \<le> 3 * innerWidth s"
  shows "screen_uv s (vec2 1 y) = None \<and> screen_uv s (vec2 (- 1) y) = None \<and>
    (screen_uv s q = Some uv \<longrightarrow> 1 / 10 < vy uv \<and> vy uv < 9 / 10)"
proof -
  let ?s1 = "run step_fractal s0 es"
  let ?w = "innerWidth ?s1" and ?h = "innerHeight ?s1" and ?t = "half_fov_tan 75"
  define r where "r = real ?w / real ?h"
  note screen = fractal_screen_uv [OF assms(1-3), of dt, folded assms(4)]
  note win = screen(2,3)
  have uv: "screen_uv s p =
      (let uv = vec2 (vx p * r * ?t / 2 + 1 / 2) (vy p * ?t / 2 + 1 / 2)
       in if 0 < ?w \<and> 0 < ?h \<and> \<bar>vx p\<bar> \<le> 1 \<and> \<bar>vy p\<bar> \<le> 1 \<and> unit_square uv
          then Some uv else None)" for p
    unfolding screen(1) r_def window_uv_def Let_def ..
  from assms(5,6) have wide: "1 < r * ?t" unfolding win r_def by (rule wide_aspect)
  then have "\<not> unit_interval (1 * r * ?t / 2 + 1 / 2)"
    "\<not> unit_interval (- 1 * r * ?t / 2 + 1 / 2)"
    by (simp_all add: unit_interval_def)
  then have "screen_uv s (vec2 1 y) = None" "screen_uv s (vec2 (- 1) y) = None"
    unfolding uv by (simp_all add: Let_def)
  moreover have "1 / 10 < vy uv \<and> vy uv < 9 / 10" if "screen_uv s q = Some uv"
    using that picture_rows [of "vy q"] unfolding uv by (auto simp: Let_def split: if_splits)
  ultimately show ?thesis by blast
qed

theorem plane_leaves_viewport_uncovered_witness:
  "screen_uv (run step_fractal (mount (fractal_uniforms_init 800 600) False True demo_host)
      ([Resize 1024 768] @ [Frame 16])) (vec2 1 0) = None \<and>
   screen_uv (run step_fractal (mount (fractal_uniforms_init 800 600) False True demo_host)
      ([Resize 1024 768] @ [Frame 16])) (vec2 (- 1) 0) = None"
proof -
  let ?s = "run step_fractal (mount (fractal_uniforms_init 800 600) False True demo_host)
      ([Resize 1024 768] @ [Frame 16])"
  have "innerHeight ?s = 768" "innerWidth ?s = 1024"
    by (simp_all add: step_fractal_def mount_unfold handleResize_unfold animate_unfold)
  then show ?thesis
    using plane_leaves_viewport_uncovered
      [OF demo_mounts(2), of "[Resize 1024 768]" ?s 16 0 "vec2 0 0" "vec2 0 0"]
    by simp
qed

end
