(* ===== verification/Engine_Spec.thy ===== *)
theory Engine_Spec
  imports Script_Properties
begin

text \<open>
  The engine the specification describes, and the sense in which the scripts
  implement it. Sections 3 to 4.6 of the specification give an engine with a
  viewport, a uniform set, a clock and a render loop that is either running or,
  after the teardown, stopped. \<open>engine_spec\<close> is that state and \<open>spec_step\<close> its
  reaction to the four host events: a resize sets the viewport and the resolution,
  a trigger flips the mode, a tick reads the clock into the time uniform and
  issues one draw, the teardown stops the loop; a stopped engine mutates nothing
  and draws nothing.

  \<open>abs_world\<close> reads a world of the scripts as such a state. The lemmas show that
  every event handled by a mounted component is a step of the specification
  (\<open>dispatch_refines_mounted\<close>), that after the unmount every event but the
  animation frame is one too (\<open>dispatch_refines_stopped\<close>), and what the animation
  frame does instead (\<open>frame_after_unmount\<close>).
\<close>

section \<open>The engine of the specification\<close>

datatype status = Running | Stopped

record 'u engine_spec =
  viewport :: "nat \<times> nat"
  uniform_set :: "'u uniforms_scheme"
  status :: status
  origin :: real
  host_now :: real
  draws :: "'u uniforms_scheme list"

definition spec_aspect :: "'u engine_spec \<Rightarrow> jsnum" where
  "spec_aspect a = js_div (fst (viewport a)) (snd (viewport a))"

definition spec_init :: "'u uniforms_scheme \<Rightarrow> nat \<Rightarrow> nat \<Rightarrow> real \<Rightarrow> 'u engine_spec" where
  "spec_init defaults w h now =
     (let u = defaults\<lparr>time := 0, resolution := vec2 (real w) (real h)\<rparr>
      in \<lparr>viewport = (w, h), uniform_set = u, status = Running, origin = now,
          host_now = now, draws = [u]\<rparr>)"

fun spec_step ::
  "('u uniforms_scheme \<Rightarrow> 'u uniforms_scheme) \<Rightarrow> 'u engine_spec \<Rightarrow> event \<Rightarrow> 'u engine_spec" where
  "spec_step trigger a (Resize w h) =
     (if status a = Running
      then a\<lparr>viewport := (w, h),
             uniform_set := (uniform_set a)\<lparr>resolution := vec2 (real w) (real h)\<rparr>\<rparr>
      else a)"
| "spec_step trigger a Click =
     (if status a = Running then a\<lparr>uniform_set := trigger (uniform_set a)\<rparr> else a)"
| "spec_step trigger a (Frame dt) =
     (let a = a\<lparr>host_now := host_now a + dt\<rparr>
      in if status a = Running
         then let u = (uniform_set a)\<lparr>time := elapsed (origin a) (host_now a)\<rparr>
              in a\<lparr>uniform_set := u, draws := draws a @ [u]\<rparr>
         else a)"
| "spec_step trigger a Unmount = a\<lparr>status := Stopped\<rparr>"

text \<open>The trigger of section 4.3: \<open>mode = 1 - mode\<close>.\<close>

definition spec_flip :: "'u quantum_uniforms_scheme \<Rightarrow> 'u quantum_uniforms_scheme" where
  "spec_flip u = u\<lparr>collapse := 1 - collapse u\<rparr>"

section \<open>A world as a state of the specification\<close>

definition abs_world :: "'u world \<Rightarrow> 'u engine_spec" where
  "abs_world s =
     \<lparr>viewport = canvas_size (renderer s),
      uniform_set = material_uniforms s,
      status = (if resize_listener s then Running else Stopped),
      origin = startTime (clock s),
      host_now = performance_now s,
      draws = map frame_uniforms (frames s)\<rparr>"

text \<open>
  What of a state does not change with time alone: the viewport, the uniforms
  other than \<open>time\<close>, and whether the loop is running.
\<close>

definition static ::
  "'u engine_spec \<Rightarrow> (nat \<times> nat) \<times> vec2 \<times> 'u \<times> status" where
  "static a = (viewport a, resolution (uniform_set a), uniforms.more (uniform_set a), status a)"

lemma abs_world_sel [simp]:
  "viewport (abs_world s) = canvas_size (renderer s)"
  "uniform_set (abs_world s) = material_uniforms s"
  "status (abs_world s) = (if resize_listener s then Running else Stopped)"
  "origin (abs_world s) = startTime (clock s)"
  "host_now (abs_world s) = performance_now s"
  "draws (abs_world s) = map frame_uniforms (frames s)"
  by (simp_all add: abs_world_def)

lemma abs_world_mount:
  assumes "resolution unis = vec2 (real (innerWidth h)) (real (innerHeight h))"
  shows "abs_world (mount unis click cleanup h) =
    spec_init unis (innerWidth h) (innerHeight h) (performance_now h)"
proof -
  from assms
  have "unis\<lparr>time := 0, resolution := vec2 (real (innerWidth h)) (real (innerHeight h))\<rparr> =
      unis\<lparr>time := 0\<rparr>"
    by (cases unis) simp
  then show ?thesis by (simp add: abs_world_def spec_init_def mount_unfold Let_def)
qed

section \<open>The events of a mounted component are steps of the specification\<close>

text \<open>
  The click handler of a script implements a trigger when it applies it where a
  click listener is registered, and when the trigger is void where none is.
\<close>

definition implements_trigger ::
  "('u world \<Rightarrow> 'u world) \<Rightarrow> ('u uniforms_scheme \<Rightarrow> 'u uniforms_scheme) \<Rightarrow> 'u world \<Rightarrow> bool" where
  "implements_trigger onclick trigger s \<longleftrightarrow>
     (if click_listener s then onclick s = s\<lparr>material_uniforms := trigger (material_uniforms s)\<rparr>
      else trigger (material_uniforms s) = material_uniforms s)"

lemma frame_refines:
  assumes "engine_inv s"
  shows "abs_world (animate (s\<lparr>performance_now := performance_now s + dt, raf_queue := 0\<rparr>)) =
    (abs_world s)
      \<lparr>host_now := performance_now s + dt,
       uniform_set := (material_uniforms s)
         \<lparr>time := elapsed (startTime (clock s)) (performance_now s + dt)\<rparr>,
       draws := map frame_uniforms (frames s) @
         [(material_uniforms s)\<lparr>time := elapsed (startTime (clock s)) (performance_now s + dt)\<rparr>]\<rparr>"
proof -
  let ?now = "performance_now s + dt"
  from assms have c: "running (clock s)" "clock_inv (clock s)"
    by (simp_all add: inv_defs)
  then have "fst (getElapsedTime ?now (clock s)) = elapsed (startTime (clock s)) ?now"
    "startTime (snd (getElapsedTime ?now (clock s))) = startTime (clock s)"
    by (simp_all add: getElapsedTime_refines getElapsedTime_startTime)
  then show ?thesis by (simp add: abs_world_def animate_unfold)
qed

lemma dispatch_refines_mounted:
  assumes "cleanup_contract cleanup" "engine_inv s" "resize_listener s" "cleanup_held s"
    "implements_trigger onclick trigger s"
  shows "abs_world (dispatch onclick cleanup s e) = spec_step trigger (abs_world s) e"
proof (cases e)
  case (Resize w h)
  with assms(3) show ?thesis by (simp add: abs_world_def handleResize_unfold)
next
  case Click
  with assms(3,5) show ?thesis
    by (cases "click_listener s") (simp_all add: abs_world_def implements_trigger_def)
next
  case (Frame dt)
  from assms(2) have "raf_queue s = 1" by (rule engine_inv_last_frame)
  with Frame assms(3) show ?thesis by (simp add: frame_refines [OF assms(2)] Let_def)
next
  case Unmount
  from assms(1) obtain keep where
    "cleanup (s\<lparr>cleanup_held := False\<rparr>) =
      (cleanup_fractal (s\<lparr>cleanup_held := False\<rparr>))\<lparr>click_listener := keep \<and> click_listener s\<rparr>"
    unfolding cleanup_contract_def by force
  with Unmount assms(4) show ?thesis by (simp add: abs_world_def cleanup_fractal_unfold)
qed

section \<open>After the unmount\<close>

text \<open>
  A component that was torn down reacts to a resize, a click and a second unmount
  as the stopped engine does: not at all. An animation frame is different. The
  stopped engine of the specification lets it pass; the script reads its clock,
  writes the time uniform and draws.
\<close>

lemma dispatch_refines_stopped:
  assumes "torn_down s" "\<not> is_frame e"
  shows "abs_world (dispatch onclick cleanup s e) = spec_step trigger (abs_world s) e"
  using assms
  by (cases e) (simp_all add: dispatch_torn_down_inert, simp_all add: abs_world_def torn_down_def)

lemma frame_after_unmount:
  assumes "engine_inv s" "\<not> resize_listener s"
  shows "abs_world (dispatch onclick cleanup s (Frame dt)) =
    (spec_step trigger (abs_world s) (Frame dt))
      \<lparr>uniform_set := (material_uniforms s)
         \<lparr>time := elapsed (startTime (clock s)) (performance_now s + dt)\<rparr>,
       draws := map frame_uniforms (frames s) @
         [(material_uniforms s)\<lparr>time := elapsed (startTime (clock s)) (performance_now s + dt)\<rparr>]\<rparr>"
    and "length (draws (abs_world (dispatch onclick cleanup s (Frame dt)))) =
      Suc (length (draws (spec_step trigger (abs_world s) (Frame dt))))"
proof -
  from assms(1) have "raf_queue s = 1" by (rule engine_inv_last_frame)
  with assms(2) show "abs_world (dispatch onclick cleanup s (Frame dt)) =
    (spec_step trigger (abs_world s) (Frame dt))
      \<lparr>uniform_set := (material_uniforms s)
         \<lparr>time := elapsed (startTime (clock s)) (performance_now s + dt)\<rparr>,
       draws := map frame_uniforms (frames s) @
         [(material_uniforms s)\<lparr>time := elapsed (startTime (clock s)) (performance_now s + dt)\<rparr>]\<rparr>"
    by (simp add: frame_refines [OF assms(1)] Let_def)
  then show "length (draws (abs_world (dispatch onclick cleanup s (Frame dt)))) =
      Suc (length (draws (spec_step trigger (abs_world s) (Frame dt))))"
    using assms(2) by (simp add: Let_def)
qed

section \<open>What does not depend on time\<close>

definition time_independent :: "('u uniforms_scheme \<Rightarrow> 'u uniforms_scheme) \<Rightarrow> bool" where
  "time_independent trigger \<longleftrightarrow>
     (\<forall>u u'. resolution u = resolution u' \<and> uniforms.more u = uniforms.more u' \<longrightarrow>
        resolution (trigger u) = resolution (trigger u') \<and>
        uniforms.more (trigger u) = uniforms.more (trigger u'))"

lemma time_independent_id [simp]: "time_independent id"
  by (simp add: time_independent_def)

lemma time_independent_flip [simp]: "time_independent spec_flip"
  unfolding time_independent_def spec_flip_def
proof (intro allI impI)
  fix u u' :: "'a quantum_uniforms_scheme"
  assume "resolution u = resolution u' \<and> uniforms.more u = uniforms.more u'"
  then show "resolution (u\<lparr>collapse := 1 - collapse u\<rparr>) =
      resolution (u'\<lparr>collapse := 1 - collapse u'\<rparr>) \<and>
    uniforms.more (u\<lparr>collapse := 1 - collapse u\<rparr>) =
      uniforms.more (u'\<lparr>collapse := 1 - collapse u'\<rparr>)"
    by (cases u, cases u') simp
qed

lemma static_spec_step:
  "static (spec_step trigger a (Resize w h)) =
     (if status a = Running
      then ((w, h), vec2 (real w) (real h), uniforms.more (uniform_set a), Running)
      else static a)"
  "static (spec_step trigger a Click) =
     (if status a = Running
      then (viewport a, resolution (trigger (uniform_set a)),
            uniforms.more (trigger (uniform_set a)), Running)
      else static a)"
  "static (spec_step trigger a (Frame dt)) = static a"
  "static (spec_step trigger a Unmount) =
     (viewport a, resolution (uniform_set a), uniforms.more (uniform_set a), Stopped)"
  by (simp_all add: static_def Let_def)

lemma static_step_cong:
  assumes "time_independent trigger" "static a = static b"
  shows "static (spec_step trigger a e) = static (spec_step trigger b e)"
proof -
  from assms(2) have eq: "viewport a = viewport b" "status a = status b"
    "resolution (uniform_set a) = resolution (uniform_set b)"
    "uniforms.more (uniform_set a) = uniforms.more (uniform_set b)"
    by (simp_all add: static_def)
  with assms(1) have "resolution (trigger (uniform_set a)) = resolution (trigger (uniform_set b))"
    "uniforms.more (trigger (uniform_set a)) = uniforms.more (trigger (uniform_set b))"
    unfolding time_independent_def by blast+
  with eq assms(2) show ?thesis by (cases e) (simp_all only: static_spec_step)
qed

lemma frame_static:
  assumes "raf_queue s = 1"
  shows "static (abs_world (dispatch onclick cleanup s (Frame dt))) = static (abs_world s)"
  using assms by (simp add: static_def animate_unfold)

section \<open>Executions\<close>

text \<open>
  The two lemmas on single events carry over to executions of any script whose
  reachable worlds are, beside the engine's invariant, either mounted with the
  cleanup function in the host's hands and a click handler that implements the
  trigger, or torn down. \<open>J\<close> is such an invariant of the script.
\<close>

lemma static_refines_step:
  assumes "cleanup_contract cleanup" "engine_inv s"
    "resize_listener s \<longrightarrow> cleanup_held s \<and> implements_trigger onclick trigger s"
    "\<not> resize_listener s \<longrightarrow> torn_down s"
  shows "static (abs_world (dispatch onclick cleanup s e)) =
    static (spec_step trigger (abs_world s) e)"
proof (cases "resize_listener s")
  case True
  with assms(3) have "cleanup_held s" "implements_trigger onclick trigger s" by simp_all
  with assms(1,2) True
  have "abs_world (dispatch onclick cleanup s e) = spec_step trigger (abs_world s) e"
    by (rule dispatch_refines_mounted)
  then show ?thesis by simp
next
  case False
  with assms(4) have t: "torn_down s" by simp
  show ?thesis
  proof (cases "is_frame e")
    case True
    then obtain dt where "e = Frame dt" by (cases e) simp_all
    with assms(2) show ?thesis
      by (simp only: frame_static engine_inv_last_frame(2) static_spec_step)
  next
    case False
    with t have "abs_world (dispatch onclick cleanup s e) = spec_step trigger (abs_world s) e"
      by (rule dispatch_refines_stopped)
    then show ?thesis by simp
  qed
qed

lemma run_refines_mounted:
  assumes "cleanup_contract cleanup"
    and step: "\<And>s e. J s \<Longrightarrow> wf_event e \<Longrightarrow> J (dispatch onclick cleanup s e)"
    and J: "\<And>s. J s \<Longrightarrow> engine_inv s \<and>
      (resize_listener s \<longrightarrow> cleanup_held s \<and> implements_trigger onclick trigger s)"
    and keeps: "\<And>s e. J s \<Longrightarrow> e \<noteq> Unmount \<Longrightarrow>
      resize_listener (dispatch onclick cleanup s e) = resize_listener s"
  shows "J s \<Longrightarrow> resize_listener s \<Longrightarrow> list_all wf_event es \<Longrightarrow> Unmount \<notin> set es \<Longrightarrow>
    abs_world (run (dispatch onclick cleanup) s es) = run (spec_step trigger) (abs_world s) es"
proof (induction es arbitrary: s)
  case Nil
  show ?case by simp
next
  case (Cons e es)
  let ?s = "dispatch onclick cleanup s e"
  from Cons.prems have e: "wf_event e" "e \<noteq> Unmount" by auto
  from Cons.prems(1,2) J [of s] have "abs_world ?s = spec_step trigger (abs_world s) e"
    by (intro dispatch_refines_mounted [OF assms(1)]) simp_all
  moreover have "abs_world (run (dispatch onclick cleanup) ?s es) =
      run (spec_step trigger) (abs_world ?s) es"
    using Cons.prems e by (intro Cons.IH) (simp_all add: step keeps)
  ultimately show ?case by simp
qed

lemma run_refines_static:
  assumes "cleanup_contract cleanup" "time_independent trigger"
    and step: "\<And>s e. J s \<Longrightarrow> wf_event e \<Longrightarrow> J (dispatch onclick cleanup s e)"
    and J: "\<And>s. J s \<Longrightarrow> engine_inv s \<and>
      (resize_listener s \<longrightarrow> cleanup_held s \<and> implements_trigger onclick trigger s) \<and>
      (\<not> resize_listener s \<longrightarrow> torn_down s)"
  shows "J s \<Longrightarrow> list_all wf_event es \<Longrightarrow> static a = static (abs_world s) \<Longrightarrow>
    static (abs_world (run (dispatch onclick cleanup) s es)) = static (run (spec_step trigger) a es)"
proof (induction es arbitrary: s a)
  case Nil
  then show ?case by simp
next
  case (Cons e es)
  let ?s = "dispatch onclick cleanup s e"
  from Cons.prems(1) J [of s]
  have "static (abs_world ?s) = static (spec_step trigger (abs_world s) e)"
    by (intro static_refines_step [OF assms(1)]) simp_all
  also have "\<dots> = static (spec_step trigger a e)"
    using assms(2) Cons.prems(3) [symmetric] by (rule static_step_cong)
  finally have "static (spec_step trigger a e) = static (abs_world ?s)" by simp
  with Cons.prems have "static (abs_world (run (dispatch onclick cleanup) ?s es)) =
      static (run (spec_step trigger) (spec_step trigger a e) es)"
    by (intro Cons.IH) (simp_all add: step)
  then show ?case by simp
qed

text \<open>The stopped engine issues no draw; the running one issues one per tick.\<close>

lemma spec_draws:
  "length (draws (run (spec_step trigger) a es)) =
    length (draws a) +
      (if status a = Running then length (filter is_frame (takeWhile (\<lambda>e. e \<noteq> Unmount) es))
       else 0)"
proof (induction es arbitrary: a)
  case Nil
  show ?case by simp
next
  case (Cons e es)
  show ?case by (cases e) (simp_all add: Cons.IH Let_def)
qed

section \<open>The two components\<close>

text \<open>
  A component registers its listeners and hands over its cleanup function together,
  and the cleanup function removes them together: between construction and unmount
  all are in place, afterwards none.
\<close>

definition component_inv :: "bool \<Rightarrow> 'u world \<Rightarrow> bool" where
  "component_inv click s \<longleftrightarrow>
     engine_inv s \<and> (cleanup_held s \<longleftrightarrow> resize_listener s) \<and>
     (click_listener s \<longleftrightarrow> click \<and> resize_listener s)"

lemma component_invD:
  assumes "component_inv click s"
  shows "engine_inv s" "raf_queue s = 1" "resize_listener s \<Longrightarrow> cleanup_held s"
    "\<not> resize_listener s \<Longrightarrow> torn_down s" "resize_listener s \<Longrightarrow> click_listener s = click"
  using assms by (auto simp: component_inv_def torn_down_def engine_inv_last_frame)

lemma mount_component_inv:
  assumes "resolution unis = vec2 (real (innerWidth h)) (real (innerHeight h))"
  shows "component_inv click (mount unis click True h)"
  using mount_engine_inv [OF assms] by (simp add: component_inv_def) (simp add: mount_unfold)

lemma dispatch_component_inv:
  assumes "click_contract onclick" "cleanup_contract cleanup" "removes_click cleanup \<or> \<not> click"
    "component_inv click s" "wf_event e"
  shows "component_inv click (dispatch onclick cleanup s e)"
proof -
  note d = component_invD [OF assms(4)]
  have inv: "engine_inv (dispatch onclick cleanup s e)"
    using assms(1,2) d(1) assms(5) by (rule dispatch_engine_inv)
  show ?thesis
  proof (cases e)
    case Unmount
    show ?thesis
    proof (cases "cleanup_held s")
      case True
      let ?t = "cleanup (s\<lparr>cleanup_held := False\<rparr>)"
      from assms(3,4) have "\<not> click_listener ?t"
        using cleanup_contract_fields(10) [OF assms(2), of "s\<lparr>cleanup_held := False\<rparr>"]
        by (auto simp: removes_click_def component_inv_def)
      with inv Unmount True show ?thesis
        by (simp add: component_inv_def cleanup_contract_fields [OF assms(2)])
    next
      case False
      with assms(4) Unmount show ?thesis by simp
    qed
  qed (use inv assms(4) d(2) in \<open>simp_all add: component_inv_def Let_def handleResize_unfold
      animate_unfold click_contract_fields [OF assms(1)]\<close>)
qed

lemma handleClick_implements_flip:
  assumes "mode_inv s" "click_listener s"
  shows "implements_trigger handleClick spec_flip s"
  using assms by (auto simp: implements_trigger_def mode_inv_def handleClick_def spec_flip_def)

lemma id_implements_id: "implements_trigger id id s"
  by (simp add: implements_trigger_def)

definition quantum_inv :: "quantum_world \<Rightarrow> bool" where
  "quantum_inv s \<longleftrightarrow> component_inv True s \<and> mode_inv s"

lemma quantum_inv_step:
  assumes "quantum_inv s" "wf_event e"
  shows "quantum_inv (dispatch handleClick cleanup_quantum s e)"
proof -
  from assms(1) have c: "component_inv True s" and m: "mode_inv s"
    by (simp_all add: quantum_inv_def)
  from c have "raf_queue s = 1" by (rule component_invD)
  then have "mode_inv (step_quantum s e)" using m by (rule step_quantum_mode_inv)
  moreover have "component_inv True (dispatch handleClick cleanup_quantum s e)"
    using quantum_contracts _ c assms(2)
    by (rule dispatch_component_inv) (simp add: removes_click_quantum)
  ultimately show ?thesis by (simp add: quantum_inv_def step_quantum_def)
qed

lemma quantum_inv_facts:
  assumes "quantum_inv s"
  shows "engine_inv s \<and>
    (resize_listener s \<longrightarrow> cleanup_held s \<and> implements_trigger handleClick spec_flip s) \<and>
    (\<not> resize_listener s \<longrightarrow> torn_down s)"
  using assms
  by (auto simp: quantum_inv_def component_invD handleClick_implements_flip)

lemma fractal_inv_facts:
  assumes "component_inv False s"
  shows "engine_inv s \<and>
    (resize_listener s \<longrightarrow> cleanup_held s \<and> implements_trigger id id s) \<and>
    (\<not> resize_listener s \<longrightarrow> torn_down s)"
  using assms by (auto simp: component_invD id_implements_id)

lemma quantum_inv_start:
  assumes "QuantumVisualization h = Inr s0"
  shows "quantum_inv s0" "resize_listener s0"
    "abs_world s0 = spec_init (quantum_uniforms_init (innerWidth h) (innerHeight h))
      (innerWidth h) (innerHeight h) (performance_now h)"
  unfolding QuantumVisualization_Inr [OF assms]
  by (simp_all add: quantum_inv_def mount_component_inv abs_world_mount)
    (simp_all add: mode_inv_def mount_unfold)

section \<open>The scripts against the specification\<close>

text \<open>
  C13. The interference component implements the engine of the specification.
  Its construction is the specification's initial state for the window and time of
  the host. As long as the component is mounted, every execution is, event by
  event, the execution of the specification's engine with the trigger
  \<open>mode = 1 - mode\<close>: same viewport, same uniform set, same clock, same draws. With
  the unmount included, the two still agree on everything that time alone does not
  change: viewport, resolution, mode and whether the loop runs.
\<close>

theorem engine_refines_specification:
  assumes "QuantumVisualization h = Inr s0" "list_all wf_event es"
  shows "abs_world s0 = spec_init (quantum_uniforms_init (innerWidth h) (innerHeight h))
      (innerWidth h) (innerHeight h) (performance_now h) \<and>
    (Unmount \<notin> set es \<longrightarrow>
      abs_world (run step_quantum s0 es) = run (spec_step spec_flip) (abs_world s0) es) \<and>
    static (abs_world (run step_quantum s0 es)) =
      static (run (spec_step spec_flip) (abs_world s0) es)"
proof -
  note start = quantum_inv_start [OF assms(1)]
  have "abs_world (run step_quantum s0 es) = run (spec_step spec_flip) (abs_world s0) es"
    if "Unmount \<notin> set es"
    unfolding step_quantum_def using cleanup_contract_quantum _ _ _ start(1,2) assms(2) that
  proof (rule run_refines_mounted [where J = quantum_inv])
    fix s :: quantum_world and e
    assume "quantum_inv s"
    then show "engine_inv s \<and>
        (resize_listener s \<longrightarrow> cleanup_held s \<and> implements_trigger handleClick spec_flip s)"
      using quantum_inv_facts [of s] by blast
    from \<open>quantum_inv s\<close> have "raf_queue s = 1"
      by (auto simp: quantum_inv_def dest: component_invD(2))
    moreover assume "e \<noteq> Unmount"
    ultimately
    show "resize_listener (dispatch handleClick cleanup_quantum s e) = resize_listener s"
      by (intro dispatch_resize_listener click_contract_handleClick)
  qed (rule quantum_inv_step)
  moreover have "static (abs_world (run step_quantum s0 es)) =
      static (run (spec_step spec_flip) (abs_world s0) es)"
    unfolding step_quantum_def
    using cleanup_contract_quantum time_independent_flip quantum_inv_step quantum_inv_facts
      start(1) assms(2) refl
    by (rule run_refines_static)
  ultimately show ?thesis using start(3) by blast
qed

theorem engine_refines_specification_witness:
  "abs_world (mount (quantum_uniforms_init 800 600) True True demo_host) =
      spec_init (quantum_uniforms_init (innerWidth demo_host) (innerHeight demo_host))
        (innerWidth demo_host) (innerHeight demo_host) (performance_now demo_host) \<and>
   abs_world (run step_quantum (mount (quantum_uniforms_init 800 600) True True demo_host)
      [Click, Resize 640 480, Frame 16]) =
     run (spec_step spec_flip)
       (abs_world (mount (quantum_uniforms_init 800 600) True True demo_host))
       [Click, Resize 640 480, Frame 16] \<and>
   static (abs_world (run step_quantum (mount (quantum_uniforms_init 800 600) True True demo_host)
      [Click, Resize 640 480, Frame 16])) =
     static (run (spec_step spec_flip)
       (abs_world (mount (quantum_uniforms_init 800 600) True True demo_host))
       [Click, Resize 640 480, Frame 16])"
proof -
  have "list_all wf_event [Click, Resize 640 480, Frame 16]"
    and "Unmount \<notin> set [Click, Resize 640 480, Frame 16]"
    by simp_all
  with engine_refines_specification [OF demo_mounts(3)] show ?thesis by blast
qed

text \<open>The fractal component implements the same engine with a void trigger.\<close>

lemma fractal_refines_specification:
  assumes "FractalAnimation h = Inr s0" "list_all wf_event es"
  shows "Unmount \<notin> set es \<Longrightarrow>
      abs_world (run step_fractal s0 es) = run (spec_step id) (abs_world s0) es"
    and "static (abs_world (run step_fractal s0 es)) = static (run (spec_step id) (abs_world s0) es)"
proof -
  have s0: "component_inv False s0" "resize_listener s0"
    unfolding FractalAnimation_Inr [OF assms(1)]
    by (simp_all add: mount_component_inv) (simp add: mount_unfold)
  have step: "component_inv False (dispatch id cleanup_fractal s e)"
    if "component_inv False s" "wf_event e" for s :: fractal_world and e
    using fractal_contracts _ that by (rule dispatch_component_inv) simp
  show "abs_world (run step_fractal s0 es) = run (spec_step id) (abs_world s0) es"
    if "Unmount \<notin> set es"
    unfolding step_fractal_def using cleanup_contract_fractal step _ _ s0 assms(2) that
  proof (rule run_refines_mounted [where J = "component_inv False"])
    fix s :: fractal_world and e
    assume c: "component_inv False s"
    then show "engine_inv s \<and> (resize_listener s \<longrightarrow> cleanup_held s \<and> implements_trigger id id s)"
      using fractal_inv_facts [of s] by blast
    assume "e \<noteq> Unmount"
    with c show "resize_listener (dispatch id cleanup_fractal s e) = resize_listener s"
      by (intro dispatch_resize_listener click_contract_id) (simp_all add: component_invD)
  qed
  show "static (abs_world (run step_fractal s0 es)) = static (run (spec_step id) (abs_world s0) es)"
    unfolding step_fractal_def
    using cleanup_contract_fractal time_independent_id step fractal_inv_facts s0(1) assms(2) refl
    by (rule run_refines_static)
qed

text \<open>
  How far the fractal component leaves the specification. The stopped engine
  of the specification issues no draw. The component issues one for every animation
  frame, also after its unmount: at the end of any execution it has issued exactly
  as many draws more than the specification's engine as animation frames were
  delivered after the unmount.
\<close>

theorem draws_beyond_specification:
  assumes "FractalAnimation h = Inr s0" "list_all wf_event es"
  shows "length (draws (abs_world (run step_fractal s0 es))) =
    length (draws (run (spec_step id) (abs_world s0) es)) +
      length (filter is_frame (dropWhile (\<lambda>e. e \<noteq> Unmount) es))"
proof -
  note start = fractal_start [OF assms(1)]
  have "length (frames (run step_fractal s0 es)) = 1 + length (filter is_frame es)"
    using fractal_run(2) [OF start(1) assms(2)] start(6) by simp
  moreover have "length (filter is_frame es) =
      length (filter is_frame (takeWhile (\<lambda>e. e \<noteq> Unmount) es)) +
      length (filter is_frame (dropWhile (\<lambda>e. e \<noteq> Unmount) es))"
    by (metis filter_append length_append takeWhile_dropWhile_id)
  ultimately show ?thesis using start(3,6) by (simp add: spec_draws)
qed

theorem draws_beyond_specification_witness:
  "length (draws (abs_world (run step_fractal
      (mount (fractal_uniforms_init 800 600) False True demo_host)
      [Frame 16, Unmount, Frame 16, Resize 640 480, Frame 17]))) =
    length (draws (run (spec_step id)
      (abs_world (mount (fractal_uniforms_init 800 600) False True demo_host))
      [Frame 16, Unmount, Frame 16, Resize 640 480, Frame 17])) +
      length (filter is_frame (dropWhile (\<lambda>e. e \<noteq> Unmount)
        [Frame 16, Unmount, Frame 16, Resize 640 480, Frame 17]))"
  by (rule draws_beyond_specification [OF demo_mounts(2)]) simp

end
