(* ===== verification/Page.thy ===== *)
theory Page
  imports Engine_Spec
begin

text \<open>
  Several instances of a script on one page. Every call of a construction
  (\<^verbatim>\<open>initFractalAnimation()\<close>, or the effect of a mounted component) creates its
  own camera, renderer, material and clock, registers its own resize listener on
  the one window and starts its own chain of animation frames. The instances share
  what belongs to the host: the window's size, the time, the mount node.

  A \<open>page\<close> is the host with the list of instances constructed so far, in the order
  of construction. The host's events reach the instances as the browser delivers
  them: a resize and an animation frame go to every instance (each calls the
  closures it has registered), a click goes to the canvas of one instance, a
  cleanup function is the one of one instance. \<open>seen_by\<close> is what an instance sees
  of a page event, and \<open>page_instance\<close> shows that an instance on a page is the
  engine of theory \<open>Engine_Run\<close> run on what it sees: all lemmas on one instance
  apply to each instance of a page.

  Time advances between events, not within one: all callbacks of one animation
  frame read the same time.
\<close>

section \<open>Pages and their events\<close>

record 'u page =
  window :: host
  instances :: "'u world list"

datatype page_event = PResize nat nat | PFrame real | PClick nat | PUnmount nat | PMount

fun wf_page_event :: "page_event \<Rightarrow> bool" where
  "wf_page_event (PFrame dt) = (0 \<le> dt)"
| "wf_page_event _ = True"

fun seen_by :: "nat \<Rightarrow> page_event \<Rightarrow> event list" where
  "seen_by i (PResize w h) = [Resize w h]"
| "seen_by i (PFrame dt) = [Frame dt]"
| "seen_by i (PClick j) = (if i = j then [Click] else [])"
| "seen_by i (PUnmount j) = (if i = j then [Unmount] else [])"
| "seen_by i PMount = []"

definition deliver :: "('s \<Rightarrow> event \<Rightarrow> 's) \<Rightarrow> nat \<Rightarrow> event \<Rightarrow> 's list \<Rightarrow> 's list" where
  "deliver step i e ss = (if i < length ss then ss[i := step (ss ! i) e] else ss)"

definition broadcast :: "('s \<Rightarrow> event \<Rightarrow> 's) \<Rightarrow> event \<Rightarrow> 's list \<Rightarrow> 's list" where
  "broadcast step e ss = map (\<lambda>s. step s e) ss"

fun page_step ::
  "(host \<Rightarrow> host + 'u world) \<Rightarrow> ('u world \<Rightarrow> event \<Rightarrow> 'u world) \<Rightarrow>
   ('u, 'z) page_scheme \<Rightarrow> page_event \<Rightarrow> ('u, 'z) page_scheme" where
  "page_step build step p (PResize w h) =
     p\<lparr>window := (window p)\<lparr>innerWidth := w, innerHeight := h\<rparr>,
       instances := broadcast step (Resize w h) (instances p)\<rparr>"
| "page_step build step p (PFrame dt) =
     p\<lparr>window := (window p)\<lparr>performance_now := performance_now (window p) + dt\<rparr>,
       instances := broadcast step (Frame dt) (instances p)\<rparr>"
| "page_step build step p (PClick i) =
     p\<lparr>instances := deliver step i Click (instances p)\<rparr>"
| "page_step build step p (PUnmount i) =
     p\<lparr>instances := deliver step i Unmount (instances p)\<rparr>"
| "page_step build step p PMount =
     (case build (window p) of
        Inl h \<Rightarrow> p\<lparr>window := h\<rparr>
      | Inr s \<Rightarrow> p\<lparr>instances := instances p @ [s]\<rparr>)"

definition page_run ::
  "(host \<Rightarrow> host + 'u world) \<Rightarrow> ('u world \<Rightarrow> event \<Rightarrow> 'u world) \<Rightarrow>
   ('u, 'z) page_scheme \<Rightarrow> page_event list \<Rightarrow> ('u, 'z) page_scheme" where
  "page_run build step p es = foldl (page_step build step) p es"

definition empty_page :: "host \<Rightarrow> 'u page" where
  "empty_page h = \<lparr>window = h, instances = []\<rparr>"

section \<open>What a page is measured by\<close>

definition page_draws :: "('u, 'z) page_scheme \<Rightarrow> nat" where
  "page_draws p = sum_list (map (\<lambda>s. length (frames s)) (instances p))"

definition stale_draws :: "('u, 'z) page_scheme \<Rightarrow> nat" where
  "stale_draws p =
     sum_list (map (\<lambda>s. length (filter frame_disposed (frames s))) (instances p))"

definition unmounted :: "('u, 'z) page_scheme \<Rightarrow> nat" where
  "unmounted p = length (filter (\<lambda>s. \<not> resize_listener s) (instances p))"

section \<open>Runs\<close>

lemma page_run_simps [simp]:
  "page_run build step p [] = p"
  "page_run build step p (e # es) = page_run build step (page_step build step p e) es"
  "page_run build step p (es @ [e]) = page_step build step (page_run build step p es) e"
  by (simp_all add: page_run_def)

lemma page_run_append:
  "page_run build step p (es @ es') =
    page_run build step (page_run build step p es) es'"
  by (simp add: page_run_def)

lemma length_deliver [simp]: "length (deliver step i e ss) = length ss"
  and length_broadcast [simp]: "length (broadcast step e ss) = length ss"
  by (simp_all add: deliver_def broadcast_def)

lemma nth_deliver:
  "j < length ss \<Longrightarrow> deliver step i e ss ! j = (if j = i then step (ss ! j) e else ss ! j)"
  by (simp add: deliver_def)

lemma nth_broadcast: "j < length ss \<Longrightarrow> broadcast step e ss ! j = step (ss ! j) e"
  by (simp add: broadcast_def)

section \<open>An instance on a page is the engine on what it sees\<close>

lemma page_step_length:
  "length (instances p) \<le> length (instances (page_step build step p e))"
  by (cases e) (simp_all split: sum.splits)

lemma page_step_instance:
  assumes "i < length (instances p)"
  shows "instances (page_step build step p e) ! i = run step (instances p ! i) (seen_by i e)"
  using assms by (cases e) (simp_all add: nth_deliver nth_broadcast nth_append split: sum.splits)

lemma page_run_length:
  "length (instances p) \<le> length (instances (page_run build step p es))"
proof (induction es arbitrary: p)
  case Nil
  show ?case by simp
next
  case (Cons e es)
  from page_step_length Cons.IH show ?case by (simp only: page_run_simps) (rule le_trans)
qed

lemma page_instance:
  assumes "i < length (instances p)"
  shows "instances (page_run build step p es) ! i =
    run step (instances p ! i) (concat (map (seen_by i) es))"
  using assms
proof (induction es arbitrary: p)
  case Nil
  show ?case by simp
next
  case (Cons e es)
  let ?p = "page_step build step p e"
  from Cons.prems page_step_length [of p build step e]
  have "i < length (instances ?p)" by simp
  then have "instances (page_run build step ?p es) ! i =
      run step (instances ?p ! i) (concat (map (seen_by i) es))"
    by (rule Cons.IH)
  with Cons.prems show ?case by (simp add: page_step_instance run_append)
qed

lemma wf_seen_by: "wf_page_event e \<Longrightarrow> list_all wf_event (seen_by i e)"
  by (cases e) simp_all

lemma wf_seen: "list_all wf_page_event es \<Longrightarrow> list_all wf_event (concat (map (seen_by i) es))"
  by (induction es) (simp_all add: wf_seen_by)

section \<open>The constructions of the scripts\<close>

text \<open>
  What a page needs to know of a construction: with a mount node it is \<open>mount\<close> for
  some uniform set that carries the window's size, without one it changes at most
  the console.
\<close>

definition builds :: "(host \<Rightarrow> host + 'u world) \<Rightarrow> bool" where
  "builds build \<longleftrightarrow>
     (\<forall>h. (container h \<longrightarrow>
            (\<exists>unis click cleanup.
               resolution unis = vec2 (real (innerWidth h)) (real (innerHeight h)) \<and>
               build h = Inr (mount unis click cleanup h))) \<and>
          (\<not> container h \<longrightarrow> (\<exists>log. build h = Inl (h\<lparr>console := log\<rparr>))))"

lemma buildsI:
  assumes "\<And>h. container h \<Longrightarrow> build h = Inr (mount (unis h) click cleanup h)"
    and "\<And>h. resolution (unis h) = vec2 (real (innerWidth h)) (real (innerHeight h))"
    and "\<And>h. \<not> container h \<Longrightarrow> build h = Inl (h\<lparr>console := msgs h\<rparr>)"
  shows "builds build"
  unfolding builds_def using assms by blast

lemma builds_initFractalAnimation: "builds initFractalAnimation"
  by (rule buildsI [where unis = "\<lambda>h. fractal_uniforms_init (innerWidth h) (innerHeight h)"
        and msgs = "\<lambda>h. console h @ [''No container found'']"])
    (simp_all add: initFractalAnimation_mount, simp add: initFractalAnimation_def)

lemma builds_FractalAnimation: "builds FractalAnimation"
  by (rule buildsI [where unis = "\<lambda>h. fractal_uniforms_init (innerWidth h) (innerHeight h)"
        and msgs = console])
    (simp_all add: FractalAnimation_mount, simp add: FractalAnimation_def)

lemma builds_QuantumVisualization: "builds QuantumVisualization"
  by (rule buildsI [where unis = "\<lambda>h. quantum_uniforms_init (innerWidth h) (innerHeight h)"
        and msgs = console])
    (simp_all add: QuantumVisualization_mount, simp add: QuantumVisualization_def)

lemmas builds_scripts = builds_initFractalAnimation builds_FractalAnimation
  builds_QuantumVisualization

lemma builds_cases:
  assumes "builds build"
  obtains unis click cleanup where "container h"
    "resolution unis = vec2 (real (innerWidth h)) (real (innerHeight h))"
    "build h = Inr (mount unis click cleanup h)"
  | log where "\<not> container h" "build h = Inl (h\<lparr>console := log\<rparr>)"
  using assms unfolding builds_def by (cases "container h") blast+

section \<open>Every instance keeps step with the host\<close>

definition in_step :: "host \<Rightarrow> 'u world \<Rightarrow> bool" where
  "in_step h s \<longleftrightarrow>
     engine_inv s \<and> innerWidth s = innerWidth h \<and> innerHeight s = innerHeight h \<and>
     performance_now s = performance_now h"

definition page_inv :: "('u, 'z) page_scheme \<Rightarrow> bool" where
  "page_inv p \<longleftrightarrow> list_all (in_step (window p)) (instances p)"

lemma in_step_mount:
  assumes "resolution unis = vec2 (real (innerWidth h)) (real (innerHeight h))"
  shows "in_step h (mount unis click cleanup h)"
  using mount_engine_inv [OF assms] by (simp add: in_step_def) (simp add: mount_unfold)

lemma dispatch_window:
  assumes "click_contract onclick" "cleanup_contract cleanup" "raf_queue s = 1"
  shows "innerWidth (dispatch onclick cleanup s e) = (case e of Resize w h \<Rightarrow> w | _ \<Rightarrow> innerWidth s)"
    and "innerHeight (dispatch onclick cleanup s e) = (case e of Resize w h \<Rightarrow> h | _ \<Rightarrow> innerHeight s)"
proof -
  from assms(1) obtain g where g: "onclick s = s\<lparr>material_uniforms := g (material_uniforms s)\<rparr>"
    unfolding click_contract_def by blast
  from assms(2) obtain keep where k:
    "cleanup (s\<lparr>cleanup_held := False\<rparr>) =
      (cleanup_fractal (s\<lparr>cleanup_held := False\<rparr>))\<lparr>click_listener := keep \<and> click_listener s\<rparr>"
    unfolding cleanup_contract_def by force
  show "innerWidth (dispatch onclick cleanup s e) = (case e of Resize w h \<Rightarrow> w | _ \<Rightarrow> innerWidth s)"
    using assms(3)
    by (cases e) (simp_all add: g k Let_def handleResize_unfold animate_unfold cleanup_fractal_unfold)
  show "innerHeight (dispatch onclick cleanup s e) = (case e of Resize w h \<Rightarrow> h | _ \<Rightarrow> innerHeight s)"
    using assms(3)
    by (cases e) (simp_all add: g k Let_def handleResize_unfold animate_unfold cleanup_fractal_unfold)
qed

lemma dispatch_in_step:
  assumes "click_contract onclick" "cleanup_contract cleanup" "in_step h s" "wf_event e"
  shows "in_step
    (h\<lparr>innerWidth := (case e of Resize w h' \<Rightarrow> w | _ \<Rightarrow> innerWidth h),
       innerHeight := (case e of Resize w h' \<Rightarrow> h' | _ \<Rightarrow> innerHeight h),
       performance_now := performance_now h + frame_ms e\<rparr>)
    (dispatch onclick cleanup s e)"
proof -
  from assms(3) have inv: "engine_inv s" and q: "raf_queue s = 1"
    by (simp_all add: in_step_def engine_inv_last_frame)
  from assms(1,2) inv assms(4) have "engine_inv (dispatch onclick cleanup s e)"
    by (rule dispatch_engine_inv)
  with assms(3) show ?thesis
    by (simp add: in_step_def dispatch_window [OF assms(1,2) q] dispatch_now [OF assms(1,2) q]
        split: event.splits)
qed

lemma in_step_console [simp]: "in_step (h\<lparr>console := msgs\<rparr>) = in_step h"
  and in_step_container [simp]: "in_step (h\<lparr>container := b\<rparr>) = in_step h"
  by (rule ext, simp add: in_step_def)+

lemma page_step_inv:
  assumes "builds build" "click_contract onclick" "cleanup_contract cleanup"
    "page_inv p" "wf_page_event e"
  shows "page_inv (page_step build (dispatch onclick cleanup) p e)"
proof -
  note d = dispatch_in_step [OF assms(2,3)]
  have one: "in_step (window p) (dispatch onclick cleanup (instances p ! i) e')"
    if "i < length (instances p)" "e' = Click \<or> e' = Unmount" for i e'
  proof -
    from assms(4) that(1) have "in_step (window p) (instances p ! i)"
      by (simp add: page_inv_def list_all_length)
    from d [OF this, of e'] that(2) show ?thesis by auto
  qed
  show ?thesis
  proof (cases e)
    case (PResize w h)
    with assms(4) d [of "window p" _ "Resize w h"] show ?thesis
      by (simp add: page_inv_def broadcast_def list_all_iff)
  next
    case (PFrame dt)
    with assms(4,5) d [of "window p" _ "Frame dt"] show ?thesis
      by (simp add: page_inv_def broadcast_def list_all_iff)
  next
    case (PClick i)
    with assms(4) one [of i Click] show ?thesis
      by (auto simp: page_inv_def deliver_def list_all_length nth_list_update)
  next
    case (PUnmount i)
    with assms(4) one [of i Unmount] show ?thesis
      by (auto simp: page_inv_def deliver_def list_all_length nth_list_update)
  next
    case PMount
    from assms(1) show ?thesis
    proof (cases rule: builds_cases [of build "window p"])
      case (1 unis click cleanup)
      with assms(4) PMount show ?thesis by (simp add: page_inv_def in_step_mount)
    next
      case (2 msgs)
      with assms(4) PMount show ?thesis by (simp add: page_inv_def)
    qed
  qed
qed

lemma page_run_inv:
  assumes "builds build" "click_contract onclick" "cleanup_contract cleanup"
  shows "page_inv p \<Longrightarrow> list_all wf_page_event es \<Longrightarrow>
    page_inv (page_run build (dispatch onclick cleanup) p es)"
  by (induction es arbitrary: p) (simp_all add: page_step_inv assms)

lemma empty_page_inv [simp]: "page_inv (empty_page h)"
  by (simp add: page_inv_def empty_page_def)

section \<open>The mount node stays, and so every mount adds an instance\<close>

lemma page_step_container:
  assumes "builds build"
  shows "container (window (page_step build step p e)) = container (window p)"
proof (cases e)
  case PMount
  from assms show ?thesis
    by (cases rule: builds_cases [of build "window p"]) (simp_all add: PMount)
qed simp_all

lemma page_step_count:
  assumes "builds build" "container (window p)"
  shows "length (instances (page_step build step p e)) =
    length (instances p) + (if e = PMount then 1 else 0)"
proof (cases e)
  case PMount
  from assms show ?thesis
    by (cases rule: builds_cases [of build "window p"]) (simp_all add: PMount)
qed simp_all

lemma page_run_count:
  assumes "builds build"
  shows "container (window p) \<Longrightarrow>
    length (instances (page_run build step p es)) = length (instances p) + count_list es PMount"
proof (induction es arbitrary: p)
  case Nil
  show ?case by simp
next
  case (Cons e es)
  from Cons.prems have "container (window (page_step build step p e))"
    by (simp add: page_step_container [OF assms])
  from Cons.IH [OF this] Cons.prems show ?case by (simp add: page_step_count [OF assms])
qed

section \<open>The draws of one animation frame\<close>

lemma sum_list_step:
  assumes "list_all P ss" "\<And>s. P s \<Longrightarrow> f (g s) = f s + d s"
  shows "sum_list (map f (map g ss)) = sum_list (map f ss) + (sum_list (map d ss) :: nat)"
  using assms(1) by (induction ss) (simp_all add: assms(2))

lemma frame_one_draw:
  assumes "engine_inv s"
  shows "length (frames (dispatch onclick cleanup s (Frame dt))) = length (frames s) + 1"
    and "length (filter frame_disposed (frames (dispatch onclick cleanup s (Frame dt)))) =
      length (filter frame_disposed (frames s)) + (if resize_listener s then 0 else 1)"
proof -
  from assms have q: "raf_queue s = 1" and "disposed (renderer s) \<longleftrightarrow> \<not> resize_listener s"
    by (simp_all add: engine_inv_last_frame engine_inv_def teardown_inv_def)
  then show "length (frames (dispatch onclick cleanup s (Frame dt))) = length (frames s) + 1"
    "length (filter frame_disposed (frames (dispatch onclick cleanup s (Frame dt)))) =
      length (filter frame_disposed (frames s)) + (if resize_listener s then 0 else 1)"
    by (simp_all add: animate_unfold)
qed

lemma page_frame_draws:
  assumes "page_inv p"
  shows "page_draws (page_step build (dispatch onclick cleanup) p (PFrame dt)) =
      page_draws p + length (instances p)"
    and "stale_draws (page_step build (dispatch onclick cleanup) p (PFrame dt)) =
      stale_draws p + unmounted p"
proof -
  let ?tick = "\<lambda>s. dispatch onclick cleanup s (Frame dt)"
  from assms have inv: "list_all engine_inv (instances p)"
    by (simp add: page_inv_def in_step_def list_all_iff)
  have after: "instances (page_step build (dispatch onclick cleanup) p (PFrame dt)) =
      map ?tick (instances p)"
    by (simp add: broadcast_def del: dispatch.simps)
  have "sum_list (map (\<lambda>s. length (frames s)) (map ?tick (instances p))) =
      sum_list (map (\<lambda>s. length (frames s)) (instances p)) +
      sum_list (map (\<lambda>s. 1) (instances p))"
    using inv by (rule sum_list_step) (rule frame_one_draw)
  then show "page_draws (page_step build (dispatch onclick cleanup) p (PFrame dt)) =
      page_draws p + length (instances p)"
    unfolding page_draws_def after by (simp add: sum_list_triv del: dispatch.simps map_map)
  have "sum_list (map (\<lambda>s. if resize_listener s then 0 else 1) ss) =
      length (filter (\<lambda>s. \<not> resize_listener s) ss)" for ss :: "'a world list"
    by (induction ss) simp_all
  moreover
  have "sum_list (map (\<lambda>s. length (filter frame_disposed (frames s))) (map ?tick (instances p))) =
      sum_list (map (\<lambda>s. length (filter frame_disposed (frames s))) (instances p)) +
      sum_list (map (\<lambda>s. if resize_listener s then 0 else 1) (instances p))"
    using inv by (rule sum_list_step) (rule frame_one_draw)
  ultimately show "stale_draws (page_step build (dispatch onclick cleanup) p (PFrame dt)) =
      stale_draws p + unmounted p"
    unfolding stale_draws_def unmounted_def after by (simp del: dispatch.simps map_map)
qed

section \<open>Events of the browser alone\<close>

text \<open>
  Resizes, frames and clicks neither add an instance nor tear one down.
\<close>

fun is_host :: "page_event \<Rightarrow> bool" where
  "is_host (PResize w h) = True"
| "is_host (PFrame dt) = True"
| "is_host (PClick i) = True"
| "is_host (PUnmount i) = False"
| "is_host PMount = False"

lemma unmounted_map:
  "unmounted p = length (filter Not (map resize_listener (instances p)))"
  by (simp add: unmounted_def filter_map comp_def)

lemma page_step_host:
  assumes "click_contract onclick" "page_inv p" "is_host e"
  shows "length (instances (page_step build (dispatch onclick cleanup) p e)) =
      length (instances p)"
    and "map resize_listener (instances (page_step build (dispatch onclick cleanup) p e)) =
      map resize_listener (instances p)"
proof -
  let ?p = "page_step build (dispatch onclick cleanup) p e"
  from assms(3) show len: "length (instances ?p) = length (instances p)" by (cases e) simp_all
  have "resize_listener (instances ?p ! i) = resize_listener (instances p ! i)"
    if "i < length (instances p)" for i
  proof -
    from assms(2) that have q: "raf_queue (instances p ! i) = 1"
      by (simp add: page_inv_def in_step_def list_all_length engine_inv_last_frame)
    have "resize_listener (run (dispatch onclick cleanup) (instances p ! i) (seen_by i e)) =
        resize_listener (instances p ! i)"
      using assms(3) dispatch_resize_listener [OF assms(1) _ q, of _ cleanup]
      by (cases e) (auto simp del: dispatch.simps)
    with that show ?thesis by (simp only: page_step_instance)
  qed
  with len show "map resize_listener (instances ?p) = map resize_listener (instances p)"
    by (intro nth_equalityI) simp_all
qed

section \<open>Properties of pages\<close>

text \<open>
  A component on a page is the engine on what it sees. Mount the fractal
  component on a page that may hold any number of other instances, and let any
  page events follow: further mounts, resizes, frames, clicks on and unmounts of
  this or other instances. The state of the new instance is then exactly the
  state of the single engine run on the resizes and frames of the page and on the
  clicks and the unmount addressed to it. This is a fact of the page, not of the
  scripts: it holds for every construction and every step function, and it is what
  carries the lemmas on one engine over to the instances of a page.
\<close>

lemma instance_on_page_is_engine:
  assumes "FractalAnimation (window p) = Inr s0"
  shows "instances (page_run FractalAnimation step_fractal p (PMount # es)) !
      length (instances p) =
    run step_fractal s0 (concat (map (seen_by (length (instances p))) es))"
proof -
  let ?p = "page_step FractalAnimation step_fractal p PMount"
  from assms have "instances ?p = instances p @ [s0]" by simp
  then have "length (instances p) < length (instances ?p)"
    "instances ?p ! length (instances p) = s0"
    by simp_all
  with page_instance [of "length (instances p)" ?p FractalAnimation step_fractal es]
  show ?thesis by simp
qed

lemma instance_on_page_is_engine_witness:
  "instances (page_run FractalAnimation step_fractal (empty_page demo_host)
      (PMount # [PMount, PFrame 16, PUnmount 0, PClick 1, PResize 640 480])) !
      length (instances (empty_page demo_host :: unit page)) =
    run step_fractal (mount (fractal_uniforms_init 800 600) False True demo_host)
      (concat (map (seen_by (length (instances (empty_page demo_host :: unit page))))
        [PMount, PFrame 16, PUnmount 0, PClick 1, PResize 640 480]))"
  by (rule instance_on_page_is_engine) (simp add: empty_page_def demo_mounts)

text \<open>
  C15. Frame loops accumulate. On a page with a mount node, however mounts and
  unmounts of the fractal component alternate, the page holds one instance per
  mount, none is ever removed, and the next animation frame issues as many draws
  as there were mounts: one per instance, torn down or not. The draws on disposed
  renderers among them are as many as there are instances torn down. The cost of a
  frame grows with every remount and never shrinks.
\<close>

theorem frame_loops_accumulate:
  assumes "container h" "list_all wf_page_event es"
  shows "let p = page_run FractalAnimation step_fractal (empty_page h) es;
      p' = page_step FractalAnimation step_fractal p (PFrame dt)
    in length (instances p) = count_list es PMount \<and>
       page_draws p' = page_draws p + count_list es PMount \<and>
       stale_draws p' = stale_draws p + unmounted p"
proof -
  let ?p = "page_run FractalAnimation step_fractal (empty_page h :: unit page) es"
  have "page_inv ?p"
    unfolding step_fractal_def using builds_FractalAnimation fractal_contracts _ assms(2)
    by (rule page_run_inv) simp
  then have "page_draws (page_step FractalAnimation step_fractal ?p (PFrame dt)) =
      page_draws ?p + length (instances ?p)"
    "stale_draws (page_step FractalAnimation step_fractal ?p (PFrame dt)) =
      stale_draws ?p + unmounted ?p"
    unfolding step_fractal_def by (rule page_frame_draws)+
  moreover from assms(1) have "length (instances ?p) = count_list es PMount"
    using page_run_count [OF builds_FractalAnimation, of "empty_page h" step_fractal es]
    by (simp add: empty_page_def)
  ultimately show ?thesis by (simp add: Let_def del: page_step.simps)
qed

theorem frame_loops_accumulate_witness:
  "let p = page_run FractalAnimation step_fractal (empty_page demo_host)
        [PMount, PUnmount 0, PMount, PFrame 16];
      p' = page_step FractalAnimation step_fractal p (PFrame 16)
    in length (instances p) = count_list [PMount, PUnmount 0, PMount, PFrame 16] PMount \<and>
       page_draws p' = page_draws p + count_list [PMount, PUnmount 0, PMount, PFrame 16] PMount \<and>
       stale_draws p' = stale_draws p + unmounted p"
  by (rule frame_loops_accumulate) (simp_all add: demo_host_def)

text \<open>
  C16. All instances on a page keep step with the window. In every execution of a
  page of interference components each instance satisfies the engine's invariant
  and reads the host's time, and each instance that is still mounted has its
  canvas, its resolution uniform and its camera's aspect at the window's current
  size: whatever the order of mounts, resizes and unmounts, the mounted instances
  agree with each other.
\<close>

theorem page_instances_in_step:
  assumes "list_all wf_page_event es"
  shows "let p = page_run QuantumVisualization step_quantum (empty_page h) es in
    list_all (\<lambda>s. engine_inv s \<and> performance_now s = performance_now (window p) \<and>
      (resize_listener s \<longrightarrow>
         canvas_size (renderer s) = (innerWidth (window p), innerHeight (window p)) \<and>
         resolution (material_uniforms s) =
           vec2 (real (innerWidth (window p))) (real (innerHeight (window p))) \<and>
         aspect (camera s) = js_div (innerWidth (window p)) (innerHeight (window p))))
      (instances p)"
proof -
  let ?p = "page_run QuantumVisualization step_quantum (empty_page h :: unit quantum_uniforms_ext page) es"
  have "page_inv ?p"
    unfolding step_quantum_def using builds_QuantumVisualization quantum_contracts _ assms
    by (rule page_run_inv) simp
  then show ?thesis
    by (auto simp: Let_def page_inv_def in_step_def list_all_iff engine_inv_def viewport_synced_def)
qed

theorem page_instances_in_step_witness:
  "let p = page_run QuantumVisualization step_quantum (empty_page demo_host)
        [PMount, PResize 640 480, PMount, PUnmount 0, PResize 1024 768, PFrame 16] in
    list_all (\<lambda>s. engine_inv s \<and> performance_now s = performance_now (window p) \<and>
      (resize_listener s \<longrightarrow>
         canvas_size (renderer s) = (innerWidth (window p), innerHeight (window p)) \<and>
         resolution (material_uniforms s) =
           vec2 (real (innerWidth (window p))) (real (innerHeight (window p))) \<and>
         aspect (camera s) = js_div (innerWidth (window p)) (innerHeight (window p))))
      (instances p)"
  by (rule page_instances_in_step) simp

end
