(* ===== verification/React_Component.thy ===== *)
theory React_Component
  imports Page
begin

text \<open>
  The two components as React drives them. What the scripts say to React is little:
  a ref created with \<^verbatim>\<open>useRef(null)\<close>, an effect registered with \<^verbatim>\<open>useEffect\<close> and the
  dependency list \<^verbatim>\<open>[]\<close>, and one element returned from the render, a \<^verbatim>\<open>div\<close> of the
  size of the viewport that carries the ref. What React does with it is modelled
  after its documented behaviour. At the mount it creates the element, attaches the
  ref and then runs the effect; after a later render it runs the cleanup function
  and the effect again only if a dependency changed; at the unmount it runs the
  cleanup function and detaches the ref. In strict mode, during development, it
  follows the first run of the effect by one run of the cleanup function and a
  second run of the effect.

  A \<open>root\<close> is a page with the component's place in it: whether the component is
  mounted, and which instance of the page belongs to the effect that ran last.
  The mount node of the host is the element \<^verbatim>\<open>containerRef.current\<close>. A
  \<open>component\<close> is one of the two exported functions: its element, its effect and
  the closures of the effect.

  The lemmas show that every step of a root keeps the invariant of its page, that
  a mounted root without an unmount is its page, what the first mount leaves on
  the page, and what strict mode does to the draws and to the clicks.
\<close>

section \<open>What the component declares\<close>

record jsx_element =
  tag :: string
  has_ref :: bool
  style_width :: string
  style_height :: string

definition useRef_null :: "host \<Rightarrow> host" where
  "useRef_null h = h\<lparr>container := False\<rparr>"

definition component_element :: jsx_element where
  "component_element =
     \<lparr>tag = ''div'', has_ref = True, style_width = ''100vw'', style_height = ''100vh''\<rparr>"

definition effect_deps :: "nat list option" where
  "effect_deps = Some []"

section \<open>What React does\<close>

fun effect_reruns :: "'a list option \<Rightarrow> 'a list option \<Rightarrow> bool" where
  "effect_reruns (Some old) (Some new) = (old \<noteq> new)"
| "effect_reruns _ _ = True"

definition commit :: "jsx_element \<Rightarrow> host \<Rightarrow> host" where
  "commit el h = h\<lparr>container := has_ref el\<rparr>"

record 'u root = "'u page" +
  rendered :: bool
  current :: "nat option"

definition new_root :: "host \<Rightarrow> 'u root" where
  "new_root h = \<lparr>window = useRef_null h, instances = [], rendered = False, current = None\<rparr>"

definition run_effect ::
  "(host \<Rightarrow> host + 'u world) \<Rightarrow> ('u world \<Rightarrow> event \<Rightarrow> 'u world) \<Rightarrow> 'u root \<Rightarrow> 'u root" where
  "run_effect build step r =
     (page_step build step r PMount)
       \<lparr>current := (case build (window r) of
                     Inl h \<Rightarrow> None
                   | Inr s \<Rightarrow> Some (length (instances r)))\<rparr>"

definition run_cleanup ::
  "(host \<Rightarrow> host + 'u world) \<Rightarrow> ('u world \<Rightarrow> event \<Rightarrow> 'u world) \<Rightarrow> 'u root \<Rightarrow> 'u root" where
  "run_cleanup build step r =
     (case current r of
        None \<Rightarrow> r
      | Some i \<Rightarrow> (page_step build step r (PUnmount i))\<lparr>current := None\<rparr>)"

datatype root_event =
  RMount bool | RRender | RUnmount | RResize nat nat | RFrame real | RClick nat

fun wf_root_event :: "root_event \<Rightarrow> bool" where
  "wf_root_event (RFrame dt) = (0 \<le> dt)"
| "wf_root_event _ = True"

fun root_step ::
  "jsx_element \<Rightarrow> (host \<Rightarrow> host + 'u world) \<Rightarrow> ('u world \<Rightarrow> event \<Rightarrow> 'u world) \<Rightarrow>
   'u root \<Rightarrow> root_event \<Rightarrow> 'u root" where
  "root_step el build step r (RMount strict) =
     (if rendered r then r
      else
        let r = r\<lparr>window := commit el (window r), rendered := True\<rparr>;
            r = run_effect build step r
        in if strict then run_effect build step (run_cleanup build step r) else r)"
| "root_step el build step r RRender =
     (if rendered r \<and> effect_reruns effect_deps effect_deps
      then run_effect build step (run_cleanup build step r) else r)"
| "root_step el build step r RUnmount =
     (if rendered r
      then let r = run_cleanup build step r
           in r\<lparr>window := (window r)\<lparr>container := False\<rparr>, rendered := False\<rparr>
      else r)"
| "root_step el build step r (RResize w h) = page_step build step r (PResize w h)"
| "root_step el build step r (RFrame dt) = page_step build step r (PFrame dt)"
| "root_step el build step r (RClick i) = page_step build step r (PClick i)"

definition root_run ::
  "jsx_element \<Rightarrow> (host \<Rightarrow> host + 'u world) \<Rightarrow> ('u world \<Rightarrow> event \<Rightarrow> 'u world) \<Rightarrow>
   'u root \<Rightarrow> root_event list \<Rightarrow> 'u root" where
  "root_run el build step r es = foldl (root_step el build step) r es"

section \<open>The two components\<close>

text \<open>
  A function component is the element it returns, the effect it registers and the
  closures the effect leaves with the host. The two components differ in the
  effect and in the closures only.
\<close>

record 'u component =
  element :: jsx_element
  effect :: "host \<Rightarrow> host + 'u world"
  closures :: "'u world \<Rightarrow> event \<Rightarrow> 'u world"

definition FractalAnimation_component :: "unit component" where
  "FractalAnimation_component =
     \<lparr>element = component_element, effect = FractalAnimation, closures = step_fractal\<rparr>"

definition QuantumVisualization_component :: "unit quantum_uniforms_ext component" where
  "QuantumVisualization_component =
     \<lparr>element = component_element, effect = QuantumVisualization, closures = step_quantum\<rparr>"

definition component_step :: "'u component \<Rightarrow> 'u root \<Rightarrow> root_event \<Rightarrow> 'u root" where
  "component_step c = root_step (element c) (effect c) (closures c)"

definition component_run :: "'u component \<Rightarrow> 'u root \<Rightarrow> root_event list \<Rightarrow> 'u root" where
  "component_run c = root_run (element c) (effect c) (closures c)"

text \<open>
  What a mounted root passes on to its page, and \<open>reaching i\<close>, what of an execution
  of the root reaches the instance \<open>i\<close>.
\<close>

fun page_events :: "root_event \<Rightarrow> page_event list" where
  "page_events (RResize w h) = [PResize w h]"
| "page_events (RFrame dt) = [PFrame dt]"
| "page_events (RClick i) = [PClick i]"
| "page_events _ = []"

definition reaching :: "nat \<Rightarrow> root_event list \<Rightarrow> event list" where
  "reaching i es = concat (map (seen_by i) (concat (map page_events es)))"

lemma root_run_simps [simp]:
  "root_run el build step r [] = r"
  "root_run el build step r (e # es) = root_run el build step (root_step el build step r e) es"
  "root_run el build step r (es @ [e]) = root_step el build step (root_run el build step r es) e"
  by (simp_all add: root_run_def)

section \<open>The steps of a root as steps of its page\<close>

lemma effect_never_reruns [simp]: "\<not> effect_reruns effect_deps effect_deps"
  by (simp add: effect_deps_def)

lemma root_step_render [simp]: "root_step el build step r RRender = r"
  by simp

lemma run_effect_page:
  "window (run_effect build step r) = window (page_step build step r PMount)"
  "instances (run_effect build step r) = instances (page_step build step r PMount)"
  "rendered (run_effect build step r) = rendered r"
  by (simp_all add: run_effect_def split: sum.splits)

lemma run_cleanup_page:
  "window (run_cleanup build step r) = window r"
  "instances (run_cleanup build step r) =
     (case current r of None \<Rightarrow> instances r
      | Some i \<Rightarrow> instances (page_step build step r (PUnmount i)))"
  "rendered (run_cleanup build step r) = rendered r"
  "current (run_cleanup build step r) = None"
  by (simp_all add: run_cleanup_def split: option.splits)

lemma page_inv_root [simp]:
  "page_inv (r\<lparr>current := c\<rparr>) = page_inv r" "page_inv (r\<lparr>rendered := b\<rparr>) = page_inv r"
  by (simp_all add: page_inv_def)

lemma run_effect_inv:
  assumes "builds build" "click_contract onclick" "cleanup_contract cleanup" "page_inv r"
  shows "page_inv (run_effect build (dispatch onclick cleanup) r)"
  using page_step_inv [OF assms, of PMount] by (simp add: run_effect_def del: page_step.simps)

lemma run_cleanup_inv:
  assumes "builds build" "click_contract onclick" "cleanup_contract cleanup" "page_inv r"
  shows "page_inv (run_cleanup build (dispatch onclick cleanup) r)"
proof (cases "current r")
  case None
  with assms(4) show ?thesis by (simp add: run_cleanup_def)
next
  case (Some i)
  with page_step_inv [OF assms, of "PUnmount i"] show ?thesis
    by (simp add: run_cleanup_def del: page_step.simps)
qed

lemma page_inv_window:
  "page_inv (r\<lparr>window := (window r)\<lparr>container := b\<rparr>\<rparr>) = page_inv r"
  by (simp add: page_inv_def)

lemma root_step_inv:
  assumes "builds build" "click_contract onclick" "cleanup_contract cleanup"
    "page_inv r" "wf_root_event e"
  shows "page_inv (root_step el build (dispatch onclick cleanup) r e)"
proof (cases e)
  case (RMount strict)
  let ?r = "r\<lparr>window := commit el (window r), rendered := True\<rparr>"
  from assms(4) have "page_inv ?r" by (simp add: commit_def page_inv_def)
  then have 1: "page_inv (run_effect build (dispatch onclick cleanup) ?r)"
    by (rule run_effect_inv [OF assms(1-3)])
  then have "page_inv (run_effect build (dispatch onclick cleanup)
      (run_cleanup build (dispatch onclick cleanup)
        (run_effect build (dispatch onclick cleanup) ?r)))"
    by (rule run_effect_inv [OF assms(1-3) run_cleanup_inv [OF assms(1-3)]])
  with 1 RMount assms(4) show ?thesis by (simp add: Let_def)
next
  case RUnmount
  from assms(4) have "page_inv (run_cleanup build (dispatch onclick cleanup) r)"
    by (rule run_cleanup_inv [OF assms(1-3)])
  with RUnmount assms(4) show ?thesis
    by (simp add: Let_def page_inv_def)
next
  case (RFrame dt)
  with page_step_inv [OF assms(1-4), of "PFrame dt"] assms(5) show ?thesis
    by (simp del: page_step.simps)
next
  case (RResize w h)
  with page_step_inv [OF assms(1-4), of "PResize w h"] show ?thesis
    by (simp del: page_step.simps)
next
  case (RClick i)
  with page_step_inv [OF assms(1-4), of "PClick i"] show ?thesis
    by (simp del: page_step.simps)
qed (use assms(4) in simp)

section \<open>While the component stays mounted\<close>

lemma root_step_mounted:
  assumes "click_contract onclick" "page_inv r" "rendered r" "e \<noteq> RUnmount"
  shows "rendered (root_step el build (dispatch onclick cleanup) r e)"
    and "length (instances (root_step el build (dispatch onclick cleanup) r e)) =
      length (instances r)"
    and "map resize_listener (instances (root_step el build (dispatch onclick cleanup) r e)) =
      map resize_listener (instances r)"
proof -
  note host = page_step_host [OF assms(1,2), of _ build cleanup]
  from assms(3,4) show "rendered (root_step el build (dispatch onclick cleanup) r e)"
    by (cases e) simp_all
  from assms(3,4) host(1)
  show "length (instances (root_step el build (dispatch onclick cleanup) r e)) =
      length (instances r)"
    by (cases e) (simp_all del: page_step.simps)
  from assms(3,4) host(2)
  show "map resize_listener (instances (root_step el build (dispatch onclick cleanup) r e)) =
      map resize_listener (instances r)"
    by (cases e) (simp_all del: page_step.simps)
qed

lemma root_run_mounted:
  assumes "builds build" "click_contract onclick" "cleanup_contract cleanup"
  shows "page_inv r \<Longrightarrow> rendered r \<Longrightarrow> list_all wf_root_event es \<Longrightarrow> RUnmount \<notin> set es \<Longrightarrow>
    page_inv (root_run el build (dispatch onclick cleanup) r es) \<and>
    length (instances (root_run el build (dispatch onclick cleanup) r es)) =
      length (instances r) \<and>
    map resize_listener (instances (root_run el build (dispatch onclick cleanup) r es)) =
      map resize_listener (instances r)"
proof (induction es arbitrary: r)
  case Nil
  then show ?case by simp
next
  case (Cons e es)
  let ?r = "root_step el build (dispatch onclick cleanup) r e"
  from Cons.prems have e: "wf_root_event e" "e \<noteq> RUnmount" by auto
  note m = root_step_mounted [OF assms(2) Cons.prems(1,2) e(2), of el build cleanup]
  have "page_inv ?r" using assms Cons.prems(1) e(1) by (rule root_step_inv)
  from Cons.IH [OF this m(1)] Cons.prems m(2,3) show ?case by simp
qed

text \<open>
  While it is mounted, a root is its page: an execution without an unmount is the
  execution of the page on the events passed on, and each instance is the single
  engine on the events that reach it.
\<close>

lemma page_step_root [simp]:
  "rendered (page_step build step r e) = rendered r"
  "current (page_step build step r e) = current r"
  by (cases e; simp split: sum.splits)+

lemma root_step_page:
  assumes "rendered r" "e \<noteq> RUnmount"
  shows "root_step el build step r e = page_run build step r (page_events e)"
  using assms by (cases e) (simp_all del: page_step.simps)

lemma root_run_page:
  "rendered r \<Longrightarrow> RUnmount \<notin> set es \<Longrightarrow>
   root_run el build step r es = page_run build step r (concat (map page_events es))"
proof (induction es arbitrary: r)
  case Nil
  show ?case by simp
next
  case (Cons e es)
  from Cons.prems have e: "e \<noteq> RUnmount" "RUnmount \<notin> set es" by auto
  from Cons.prems(1) e(1) have "rendered (root_step el build step r e)"
    by (cases e) (simp_all del: page_step.simps)
  from Cons.IH [OF this e(2)] root_step_page [OF Cons.prems(1) e(1), of el build step]
  show ?case by (simp add: page_run_append del: root_step.simps)
qed

lemma reaching_simps [simp]:
  "reaching i [] = []"
  "reaching i (e # es) = concat (map (seen_by i) (page_events e)) @ reaching i es"
  by (simp_all add: reaching_def)

lemma reaching_no_unmount: "Unmount \<notin> set (reaching i es)"
proof (induction es)
  case (Cons e es)
  then show ?case by (cases e) simp_all
qed simp

lemma reaching_clicks: "count_list (reaching i es) Click = count_list es (RClick i)"
proof (induction es)
  case (Cons e es)
  then show ?case by (cases e) auto
qed simp

lemma clicks_reaching: "clicks_before_unmount (reaching i es) = count_list es (RClick i)"
proof -
  have "takeWhile (\<lambda>e. e \<noteq> Unmount) (reaching i es) = reaching i es"
    using reaching_no_unmount [of i es] by (auto simp: takeWhile_eq_all_conv)
  then show ?thesis by (simp only: clicks_before_unmount_def reaching_clicks)
qed

lemma root_instance:
  assumes "rendered r" "RUnmount \<notin> set es" "i < length (instances r)"
  shows "instances (root_run el build step r es) ! i = run step (instances r ! i) (reaching i es)"
  unfolding root_run_page [OF assms(1,2)] reaching_def by (rule page_instance [OF assms(3)])

section \<open>The first mount\<close>

lemma committed:
  "container (commit component_element h)"
  "innerWidth (commit el h) = innerWidth h" "innerHeight (commit el h) = innerHeight h"
  "innerWidth (useRef_null h) = innerWidth h" "innerHeight (useRef_null h) = innerHeight h"
  by (simp_all add: commit_def component_element_def useRef_null_def)

lemma first_mount:
  assumes "build (commit el (useRef_null h)) = Inr s"
  shows "instances (root_step el build step (new_root h) (RMount strict)) =
      (if strict then [step s Unmount, s] else [s])"
    and "rendered (root_step el build step (new_root h) (RMount strict))"
  using assms
  by (simp_all add: new_root_def run_effect_def run_cleanup_def deliver_def Let_def
      run_effect_page run_cleanup_page)

lemmas first_mount_fractal =
  first_mount [of FractalAnimation component_element _ _ step_fractal,
    OF FractalAnimation_mount [OF committed(1)]]

lemmas first_mount_quantum =
  first_mount [of QuantumVisualization component_element _ _ step_quantum,
    OF QuantumVisualization_mount [OF committed(1)]]

section \<open>Properties of the mounted component\<close>

text \<open>
  C32. Under React the effect never aborts. React attaches the ref before it runs
  the effect, so the effect of the fractal component finds its container whatever
  the page was before: a mount of a component that is not mounted always
  constructs an instance, leaves it as the current one and logs nothing. The
  guard \<^verbatim>\<open>if (!container) return\<close> of the effect is never taken. In strict mode the
  instance constructed first is torn down and a second one is current.
\<close>

theorem react_mount_never_aborts:
  assumes "\<not> rendered r"
  shows "let r' = root_step component_element FractalAnimation step_fractal r (RMount strict);
      n = length (instances r) + (if strict then 1 else 0);
      h = commit component_element (window r)
    in container h \<and> current r' = Some n \<and> length (instances r') = Suc n \<and>
       instances r' ! n =
         mount (fractal_uniforms_init (innerWidth h) (innerHeight h)) False True h \<and>
       console (window r') = console (window r)"
proof -
  let ?h = "commit component_element (window r)"
  let ?s = "mount (fractal_uniforms_init (innerWidth ?h) (innerHeight ?h)) False True ?h"
  have "container ?h" by (simp add: commit_def component_element_def)
  then have "FractalAnimation ?h = Inr ?s" by (rule FractalAnimation_mount)
  with assms \<open>container ?h\<close> show ?thesis
    by (cases strict)
      (simp_all add: Let_def run_effect_def run_cleanup_def deliver_def nth_append commit_def)
qed

theorem react_mount_never_aborts_witness:
  "let r' = root_step component_element FractalAnimation step_fractal
        (new_root (demo_host\<lparr>container := False\<rparr>)) (RMount True);
      n = length (instances (new_root (demo_host\<lparr>container := False\<rparr>) :: unit root)) +
        (if True then 1 else 0);
      h = commit component_element
        (window (new_root (demo_host\<lparr>container := False\<rparr>) :: unit root))
    in container h \<and> current r' = Some n \<and> length (instances r') = Suc n \<and>
       instances r' ! n =
         mount (fractal_uniforms_init (innerWidth h) (innerHeight h)) False True h \<and>
       console (window r') =
         console (window (new_root (demo_host\<lparr>container := False\<rparr>) :: unit root))"
  by (rule react_mount_never_aborts) (simp add: new_root_def)

text \<open>
  C33. Strict mode doubles the draws. Mount the fractal component on a fresh root
  and let any events follow that do not unmount it: renders, resizes, frames,
  clicks. Every animation frame then issues one draw if the mount was a plain one.
  If it was a strict-mode mount it issues two, and one of the two goes to the
  renderer that the intermediate cleanup disposed: the frame loop of the first run
  of the effect was never cancelled.
\<close>

theorem strict_mode_doubles_draws:
  assumes "list_all wf_root_event es" "RUnmount \<notin> set es"
  shows "let r = root_run component_element FractalAnimation step_fractal (new_root h)
        (RMount strict # es);
      r' = root_step component_element FractalAnimation step_fractal r (RFrame dt)
    in page_draws r' = page_draws r + (if strict then 2 else 1) \<and>
       stale_draws r' = stale_draws r + (if strict then 1 else 0)"
proof -
  let ?step = "root_step component_element FractalAnimation step_fractal"
  let ?r1 = "?step (new_root h :: unit root) (RMount strict)"
  let ?r = "root_run component_element FractalAnimation step_fractal ?r1 es"
  note first = first_mount_fractal [of h strict]
  have "page_inv (new_root h :: unit root)" by (simp add: page_inv_def new_root_def)
  then have "page_inv ?r1"
    unfolding step_fractal_def using builds_FractalAnimation fractal_contracts
    by (intro root_step_inv) simp_all
  with first(2) assms
  have r: "page_inv ?r" "length (instances ?r) = length (instances ?r1)"
    "map resize_listener (instances ?r) = map resize_listener (instances ?r1)"
    using root_run_mounted [OF builds_FractalAnimation fractal_contracts,
        of ?r1 es component_element]
    by (simp_all add: step_fractal_def)
  have "length (instances ?r1) = (if strict then 2 else 1)"
    "length (filter Not (map resize_listener (instances ?r1))) = (if strict then 1 else 0)"
    unfolding first(1) by (simp_all add: step_fractal_def mount_unfold cleanup_fractal_unfold)
  with r(2,3) have "length (instances ?r) = (if strict then 2 else 1)"
    "unmounted ?r = (if strict then 1 else 0)"
    by (simp_all add: unmounted_map)
  with page_frame_draws [OF r(1), of FractalAnimation id cleanup_fractal dt]
  show ?thesis by (simp add: Let_def step_fractal_def del: page_step.simps root_step.simps(1))
qed

theorem strict_mode_doubles_draws_witness:
  "let r = root_run component_element FractalAnimation step_fractal (new_root demo_host)
        (RMount True # [RFrame 16, RResize 640 480, RRender, RFrame 17]);
      r' = root_step component_element FractalAnimation step_fractal r (RFrame 16)
    in page_draws r' = page_draws r + (if True then 2 else 1) \<and>
       stale_draws r' = stale_draws r + (if True then 1 else 0)"
  by (rule strict_mode_doubles_draws) simp_all

section \<open>The interference component in strict mode\<close>

text \<open>
  C14. Clicks in strict mode. Mount the interference component in strict mode and
  let any events follow but an unmount. The page then holds two instances, and
  only the second is alive: its mode flag is the parity of the clicks on its own
  canvas. The first instance lost its click listener in the intermediate cleanup:
  its flag stays \<open>0\<close>, whatever is clicked, also its own canvas, which the cleanup
  took out of the page.
\<close>

theorem strict_mode_click:
  assumes "RUnmount \<notin> set es"
  shows "let r = component_run QuantumVisualization_component (new_root h) (RMount True # es)
    in collapse (material_uniforms (instances r ! 1)) = real (count_list es (RClick 1) mod 2) \<and>
       collapse (material_uniforms (instances r ! 0)) = 0"
proof -
  let ?h = "commit component_element (useRef_null h)"
  let ?s = "mount (quantum_uniforms_init (innerWidth ?h) (innerHeight ?h)) True True ?h"
  let ?r1 = "root_step component_element QuantumVisualization step_quantum
    (new_root h :: unit quantum_uniforms_ext root) (RMount True)"
  note first = first_mount_quantum [of h True]
  note start = quantum_start [OF QuantumVisualization_mount [OF committed(1), of "useRef_null h"]]
  from first have i: "instances ?r1 ! 0 = step_quantum ?s Unmount" "instances ?r1 ! 1 = ?s"
    "length (instances ?r1) = 2" by simp_all
  note inst = root_instance [OF first(2) assms, of _ component_element QuantumVisualization
      step_quantum]
  have "collapse (material_uniforms (run step_quantum ?s (reaching 1 es))) =
      real (count_list es (RClick 1) mod 2)"
    using run_quantum_parity [of ?s 0 "reaching 1 es"] start by (simp add: clicks_reaching)
  moreover have "collapse (material_uniforms
      (run step_quantum (step_quantum ?s Unmount) (reaching 0 es))) = 0"
    using run_quantum_deaf [of "step_quantum ?s Unmount" "reaching 0 es"] start
    by (simp add: step_quantum_listening step_quantum_collapse)
  ultimately show ?thesis
    using inst [of 0] inst [of 1] i
    by (simp add: component_run_def QuantumVisualization_component_def
        del: root_step.simps)
qed

theorem strict_mode_click_witness:
  "let r = component_run QuantumVisualization_component (new_root demo_host)
        (RMount True # [RClick 1, RFrame 16, RClick 0, RClick 1, RClick 1])
    in collapse (material_uniforms (instances r ! 1)) =
         real (count_list [RClick 1, RFrame 16, RClick 0, RClick 1, RClick 1] (RClick 1) mod 2) \<and>
       collapse (material_uniforms (instances r ! 0)) = 0"
  by (rule strict_mode_click) simp

end
