(* ===== verification/Construction.thy ===== *)
theory Construction
  imports Engine_Properties "HOL-Library.Monad_Syntax"
begin

text \<open>
  The constructions statement by statement. \<open>Engine\<close> gives the world a script has
  built as one record. Here the body of \<^verbatim>\<open>initFractalAnimation\<close> and of the two
  effects is a list of statements in the order of the source, run on the state of
  a construction in progress, in which a variable of the script is \<open>None\<close> until
  its \<^verbatim>\<open>const\<close> has been executed. A statement completes normally, returns from
  the script, or throws; a script runs until a statement does not complete
  normally.

  This is where the order of the statements and the one call that can fail come
  in: \<^verbatim>\<open>new THREE.WebGLRenderer\<close> throws when the browser gives no WebGL context, and
  the scripts do not catch it. The lemmas show that the scripts run in this way
  build exactly the worlds of \<open>Engine\<close>, that a script in which every statement
  uses only variables declared before it never throws a \<^verbatim>\<open>ReferenceError\<close> or a
  \<^verbatim>\<open>TypeError\<close>, what is left when the renderer cannot be created, and what is left
  when any later statement throws.
\<close>

section \<open>Completions\<close>

text \<open>
  How a JavaScript statement ends, with the state it leaves. A \<^verbatim>\<open>return\<close> carries
  whether it returns the cleanup function.
\<close>

datatype exn = WebGLContextError | ReferenceError | TypeError

datatype retval = Undefined | CleanupFunction

datatype 's completion = Normal 's | Return retval 's | Throw exn 's

section \<open>The state of a construction\<close>

text \<open>
  The host, whether it can give a WebGL context, the variables of the script, and
  what the script has done to the page so far: the canvas it appended, the
  listeners it registered, the animation frames it requested, the draws it issued.
\<close>

record 'u build = host +
  webgl_available :: bool
  var_container :: "bool option"
  var_scene :: "nat option"
  var_camera :: "camera option"
  var_renderer :: "renderer option"
  canvas_in_dom :: bool
  var_geometry :: "plane_geometry option"
  var_material :: "'u uniforms_scheme option"
  var_plane :: "unit option"
  on_resize :: bool
  on_click :: bool
  var_clock :: "clock option"
  requested :: nat
  drawn :: "'u frame list"

definition blank :: "bool \<Rightarrow> host \<Rightarrow> 'u build" where
  "blank gl h =
     \<lparr>innerWidth = innerWidth h, innerHeight = innerHeight h, container = container h,
       performance_now = performance_now h, console = console h,
       webgl_available = gl, var_container = None, var_scene = None, var_camera = None,
       var_renderer = None, canvas_in_dom = False, var_geometry = None, var_material = None,
       var_plane = None, on_resize = False, on_click = False, var_clock = None,
       requested = 0, drawn = []\<rparr>"

text \<open>
  The world of a construction in which every variable is bound; \<open>held\<close> says whether
  React holds a cleanup function for it.
\<close>

definition built :: "bool \<Rightarrow> 'u build \<Rightarrow> 'u world option" where
  "built held b =
     do {
       c \<leftarrow> var_container b;
       n \<leftarrow> var_scene b;
       cam \<leftarrow> var_camera b;
       rend \<leftarrow> var_renderer b;
       geom \<leftarrow> var_geometry b;
       unis \<leftarrow> var_material b;
       p \<leftarrow> var_plane b;
       clk \<leftarrow> var_clock b;
       Some \<lparr>innerWidth = innerWidth b, innerHeight = innerHeight b, container = container b,
         performance_now = performance_now b, console = console b,
         camera = cam, renderer = rend, canvas_attached = canvas_in_dom b,
         geometry = geom, geometry_disposed = False,
         material_uniforms = unis, material_disposed = False, scene = n,
         resize_listener = on_resize b, click_listener = on_click b,
         clock = clk, raf_queue = requested b, frames = drawn b, cleanup_held = held\<rparr>
     }"

section \<open>Statements\<close>

text \<open>
  The statement forms of the three scripts. The arguments are the literals of the
  source; what a statement reads of the window it reads when it is executed. A
  statement here is a statement of the source that calls into three.js or the
  DOM, or returns. The declarations of the shader sources, of the uniform object
  and of the closures \<^verbatim>\<open>handleResize\<close>, \<^verbatim>\<open>handleClick\<close> and \<^verbatim>\<open>animate\<close> call
  nothing and cannot throw; each is part of the statement that first uses what
  it declares (\<open>NewShaderMaterial\<close>, \<open>AddResizeListener\<close>, \<open>AddClickListener\<close>,
  \<open>CallAnimate\<close>). A position in a script therefore counts these statements, not
  the lines of the source.
\<close>

datatype 'u stmt =
    LookupContainer
  | ReturnUnlessContainer "string option"
  | NewScene
  | NewPerspectiveCamera real real real
  | SetPositionZ real
  | NewWebGLRenderer bool
  | SetSize
  | AppendChild
  | NewPlaneGeometry real real nat nat
  | NewShaderMaterial "nat \<Rightarrow> nat \<Rightarrow> 'u uniforms_scheme"
  | NewMesh
  | SceneAdd
  | AddResizeListener
  | AddClickListener
  | NewClock
  | CallAnimate
  | ReturnCleanup

text \<open>
  The line three.js writes to the console before it throws. Its wording is the
  library's and has changed between versions.
\<close>

definition webgl_error_message :: string where
  "webgl_error_message = ''THREE.WebGLRenderer: Error creating WebGL context.''"

text \<open>Reading a variable whose \<^verbatim>\<open>const\<close> has not been executed throws.\<close>

definition need ::
  "'a option \<Rightarrow> 'u build \<Rightarrow> ('a \<Rightarrow> 'u build completion) \<Rightarrow> 'u build completion" where
  "need v b k = (case v of None \<Rightarrow> Throw ReferenceError b | Some x \<Rightarrow> k x)"

text \<open>
  One statement. A fresh canvas has the default size of 300 by 150 until
  \<^verbatim>\<open>setSize\<close>; \<^verbatim>\<open>appendChild\<close> on a missing container is a \<^verbatim>\<open>TypeError\<close>; registering
  the resize listener reads no variable, the closure does when it is called.
  \<open>animate\<close> is the closure of \<open>Engine\<close>, called on the world built so far.
\<close>

fun exec :: "'u stmt \<Rightarrow> 'u build \<Rightarrow> 'u build completion" where
  "exec LookupContainer b = Normal (b\<lparr>var_container := Some (container b)\<rparr>)"
| "exec (ReturnUnlessContainer msg) b =
     need (var_container b) b
       (\<lambda>c. if c then Normal b
            else Return Undefined
              (b\<lparr>console := console b @ (case msg of None \<Rightarrow> [] | Some m \<Rightarrow> [m])\<rparr>))"
| "exec NewScene b = Normal (b\<lparr>var_scene := Some 0\<rparr>)"
| "exec (NewPerspectiveCamera f n fr) b =
     Normal (b\<lparr>var_camera :=
       Some (PerspectiveCamera f (js_div (innerWidth b) (innerHeight b)) n fr)\<rparr>)"
| "exec (SetPositionZ z) b =
     need (var_camera b) b
       (\<lambda>cam. Normal (b\<lparr>var_camera := Some (cam\<lparr>position_z := z\<rparr>)\<rparr>))"
| "exec (NewWebGLRenderer aa) b =
     (if webgl_available b
      then Normal (b\<lparr>var_renderer :=
        Some \<lparr>antialias = aa, canvas_size = (300, 150), disposed = False\<rparr>\<rparr>)
      else Throw WebGLContextError (b\<lparr>console := console b @ [webgl_error_message]\<rparr>))"
| "exec SetSize b =
     need (var_renderer b) b
       (\<lambda>r. Normal (b\<lparr>var_renderer :=
          Some (r\<lparr>canvas_size := (innerWidth b, innerHeight b)\<rparr>)\<rparr>))"
| "exec AppendChild b =
     need (var_container b) b
       (\<lambda>c. need (var_renderer b) b
          (\<lambda>r. if c then Normal (b\<lparr>canvas_in_dom := True\<rparr>) else Throw TypeError b))"
| "exec (NewPlaneGeometry w h ws hs) b =
     Normal (b\<lparr>var_geometry :=
       Some \<lparr>width = w, height = h, widthSegments = ws, heightSegments = hs\<rparr>\<rparr>)"
| "exec (NewShaderMaterial init) b =
     Normal (b\<lparr>var_material := Some (init (innerWidth b) (innerHeight b))\<rparr>)"
| "exec NewMesh b =
     need (var_geometry b) b
       (\<lambda>g. need (var_material b) b (\<lambda>m. Normal (b\<lparr>var_plane := Some ()\<rparr>)))"
| "exec SceneAdd b =
     need (var_scene b) b
       (\<lambda>n. need (var_plane b) b (\<lambda>p. Normal (b\<lparr>var_scene := Some (Suc n)\<rparr>)))"
| "exec AddResizeListener b = Normal (b\<lparr>on_resize := True\<rparr>)"
| "exec AddClickListener b =
     need (var_renderer b) b (\<lambda>r. Normal (b\<lparr>on_click := True\<rparr>))"
| "exec NewClock b = Normal (b\<lparr>var_clock := Some Clock\<rparr>)"
| "exec CallAnimate b =
     need (built False b) b
       (\<lambda>w. let w' = animate w
            in Normal (b\<lparr>var_material := Some (material_uniforms w'),
                 var_clock := Some (clock w'),
                 requested := raf_queue w', drawn := frames w'\<rparr>))"
| "exec ReturnCleanup b = Return CleanupFunction b"

fun run_script :: "'u stmt list \<Rightarrow> 'u build \<Rightarrow> 'u build completion" where
  "run_script [] b = Normal b"
| "run_script (c # cs) b =
     (case exec c b of Normal b' \<Rightarrow> run_script cs b' | Return v b' \<Rightarrow> Return v b'
      | Throw e b' \<Rightarrow> Throw e b')"

section \<open>The three scripts\<close>

definition initFractalAnimation_script :: "unit stmt list" where
  "initFractalAnimation_script =
     [LookupContainer, ReturnUnlessContainer (Some ''No container found''),
      NewScene, NewPerspectiveCamera 75 0.1 1000, SetPositionZ 2,
      NewWebGLRenderer True, SetSize, AppendChild,
      NewPlaneGeometry 4 4 100 100,
      NewShaderMaterial fractal_uniforms_init,
      NewMesh, SceneAdd,
      AddResizeListener,
      NewClock, CallAnimate]"

definition FractalAnimation_script :: "unit stmt list" where
  "FractalAnimation_script =
     [LookupContainer, ReturnUnlessContainer None,
      NewScene, NewPerspectiveCamera 75 0.1 1000, SetPositionZ 2,
      NewWebGLRenderer True, SetSize, AppendChild,
      NewPlaneGeometry 4 4 100 100,
      NewShaderMaterial fractal_uniforms_init,
      NewMesh, SceneAdd,
      AddResizeListener,
      NewClock, CallAnimate,
      ReturnCleanup]"

definition QuantumVisualization_script :: "unit quantum_uniforms_ext stmt list" where
  "QuantumVisualization_script =
     [LookupContainer, ReturnUnlessContainer None,
      NewScene, NewPerspectiveCamera 75 0.1 1000, SetPositionZ 2,
      NewWebGLRenderer True, SetSize, AppendChild,
      NewPlaneGeometry 4 4 100 100,
      NewShaderMaterial quantum_uniforms_init,
      NewMesh, SceneAdd,
      AddResizeListener, AddClickListener,
      NewClock, CallAnimate,
      ReturnCleanup]"

section \<open>What the caller gets\<close>

text \<open>
  A script that has ended without an exception leaves a world if it has bound all
  its variables and the host otherwise, as the constructions of \<open>Engine\<close> do. A
  script that has thrown leaves its caller nothing.
\<close>

definition result :: "bool \<Rightarrow> 'u build \<Rightarrow> host + 'u world" where
  "result held b = (case built held b of Some w \<Rightarrow> Inr w | None \<Rightarrow> Inl (host.truncate b))"

fun outcome :: "'u build completion \<Rightarrow> (host + 'u world) option" where
  "outcome (Normal b) = Some (result False b)"
| "outcome (Return v b) = Some (result (v = CleanupFunction) b)"
| "outcome (Throw e b) = None"

text \<open>Nothing of the construction has reached the page.\<close>

definition untouched :: "'u build \<Rightarrow> bool" where
  "untouched b \<longleftrightarrow>
     \<not> canvas_in_dom b \<and> \<not> on_resize b \<and> \<not> on_click b \<and> requested b = 0 \<and> drawn b = []"

text \<open>
  The script in which the statement at position \<open>k\<close> throws \<open>e\<close> before it has done
  anything.
\<close>

definition throws_at :: "nat \<Rightarrow> exn \<Rightarrow> 'u stmt list \<Rightarrow> 'u build \<Rightarrow> 'u build completion" where
  "throws_at k e cs b =
     (case run_script (take k cs) b of Normal b' \<Rightarrow> Throw e b' | Return v b' \<Rightarrow> Return v b'
      | Throw e' b' \<Rightarrow> Throw e' b')"

section \<open>Scoping\<close>

text \<open>
  The variables a statement reads and the variable it declares. \<open>scoped vs g cs\<close>
  checks the statements \<open>cs\<close> against the variables \<open>vs\<close> declared before them: every
  statement reads declared variables only, and the container is dereferenced only
  after the guard (\<open>g\<close>). \<open>agrees\<close> is what the check knows of a state, and a
  completion is \<open>faulty\<close> if it throws one of the two errors the check excludes.
\<close>

datatype var =
  VContainer | VScene | VCamera | VRenderer | VGeometry | VMaterial | VPlane | VClock

fun uses :: "'u stmt \<Rightarrow> var list" where
  "uses (ReturnUnlessContainer msg) = [VContainer]"
| "uses (SetPositionZ z) = [VCamera]"
| "uses SetSize = [VRenderer]"
| "uses AppendChild = [VContainer, VRenderer]"
| "uses NewMesh = [VGeometry, VMaterial]"
| "uses SceneAdd = [VScene, VPlane]"
| "uses AddClickListener = [VRenderer]"
| "uses CallAnimate =
     [VContainer, VScene, VCamera, VRenderer, VGeometry, VMaterial, VPlane, VClock]"
| "uses _ = []"

fun declares :: "'u stmt \<Rightarrow> var list" where
  "declares LookupContainer = [VContainer]"
| "declares NewScene = [VScene]"
| "declares (NewPerspectiveCamera f n fr) = [VCamera]"
| "declares (NewWebGLRenderer aa) = [VRenderer]"
| "declares (NewPlaneGeometry w h ws hs) = [VGeometry]"
| "declares (NewShaderMaterial init) = [VMaterial]"
| "declares NewMesh = [VPlane]"
| "declares NewClock = [VClock]"
| "declares _ = []"

fun dereferences :: "'u stmt \<Rightarrow> bool" where
  "dereferences AppendChild = True"
| "dereferences _ = False"

fun guarded :: "bool \<Rightarrow> 'u stmt \<Rightarrow> bool" where
  "guarded g (ReturnUnlessContainer msg) = True"
| "guarded g LookupContainer = False"
| "guarded g _ = g"

fun scoped :: "var list \<Rightarrow> bool \<Rightarrow> 'u stmt list \<Rightarrow> bool" where
  "scoped vs g [] = True"
| "scoped vs g (c # cs) =
     (set (uses c) \<subseteq> set vs \<and> (dereferences c \<longrightarrow> g) \<and>
      scoped (declares c @ vs) (guarded g c) cs)"

fun bound :: "var \<Rightarrow> 'u build \<Rightarrow> bool" where
  "bound VContainer b = (var_container b \<noteq> None)"
| "bound VScene b = (var_scene b \<noteq> None)"
| "bound VCamera b = (var_camera b \<noteq> None)"
| "bound VRenderer b = (var_renderer b \<noteq> None)"
| "bound VGeometry b = (var_geometry b \<noteq> None)"
| "bound VMaterial b = (var_material b \<noteq> None)"
| "bound VPlane b = (var_plane b \<noteq> None)"
| "bound VClock b = (var_clock b \<noteq> None)"

definition agrees :: "var list \<Rightarrow> bool \<Rightarrow> 'u build \<Rightarrow> bool" where
  "agrees vs g b \<longleftrightarrow> (\<forall>v\<in>set vs. bound v b) \<and> (g \<longrightarrow> var_container b = Some True)"

fun faulty :: "'s completion \<Rightarrow> bool" where
  "faulty (Throw ReferenceError b) = True"
| "faulty (Throw TypeError b) = True"
| "faulty _ = False"

section \<open>Running scripts\<close>

lemmas script_defs =
  initFractalAnimation_script_def FractalAnimation_script_def QuantumVisualization_script_def

lemmas construction_defs =
  blank_def result_def built_def host.truncate_def Let_def animate_def render_def
  init_defs fractal_uniforms_init_def quantum_uniforms_init_def PerspectiveCamera_def

lemma need_simps [simp]:
  "need None b k = Throw ReferenceError b" "need (Some x) b k = k x"
  by (simp_all add: need_def)

section \<open>Scoped scripts do not go wrong\<close>

lemma built_bound:
  "(\<exists>w. built held b = Some w) \<longleftrightarrow>
     (\<forall>v\<in>{VContainer, VScene, VCamera, VRenderer, VGeometry, VMaterial, VPlane, VClock}.
        bound v b)"
  by (auto simp: built_def split: Option.bind_splits)

lemma bound_update [simp]:
  "bound v (b\<lparr>var_container := Some c\<rparr>) \<longleftrightarrow> v = VContainer \<or> bound v b"
  "bound v (b\<lparr>var_scene := Some n\<rparr>) \<longleftrightarrow> v = VScene \<or> bound v b"
  "bound v (b\<lparr>var_camera := Some cam\<rparr>) \<longleftrightarrow> v = VCamera \<or> bound v b"
  "bound v (b\<lparr>var_renderer := Some r\<rparr>) \<longleftrightarrow> v = VRenderer \<or> bound v b"
  "bound v (b\<lparr>var_geometry := Some geom\<rparr>) \<longleftrightarrow> v = VGeometry \<or> bound v b"
  "bound v (b\<lparr>var_material := Some m\<rparr>) \<longleftrightarrow> v = VMaterial \<or> bound v b"
  "bound v (b\<lparr>var_plane := Some p\<rparr>) \<longleftrightarrow> v = VPlane \<or> bound v b"
  "bound v (b\<lparr>var_clock := Some clk\<rparr>) \<longleftrightarrow> v = VClock \<or> bound v b"
  by (cases v; simp)+

lemma bound_effects [simp]:
  "bound v (b\<lparr>console := msgs\<rparr>) = bound v b"
  "bound v (b\<lparr>canvas_in_dom := x\<rparr>) = bound v b"
  "bound v (b\<lparr>on_resize := x\<rparr>) = bound v b"
  "bound v (b\<lparr>on_click := x\<rparr>) = bound v b"
  "bound v (b\<lparr>requested := k\<rparr>) = bound v b"
  "bound v (b\<lparr>drawn := fs\<rparr>) = bound v b"
  by (cases v; simp)+

lemma agrees_blank [simp]: "agrees [] False (blank gl h)"
  by (simp add: agrees_def)

text \<open>
  One statement of a scoped script: it does not go wrong, and if it completes
  normally the check's knowledge of the next state is right.
\<close>

lemma exec_scoped:
  assumes "set (uses c) \<subseteq> set vs" "dereferences c \<longrightarrow> g" "agrees vs g b"
  shows "\<not> faulty (exec c b)"
    and "exec c b = Normal b' \<Longrightarrow> agrees (declares c @ vs) (guarded g c) b'"
proof -
  have animate: "\<exists>w. built False b = Some w" if "c = CallAnimate"
    using that assms(1,3) unfolding built_bound agrees_def by auto
  from assms animate show "\<not> faulty (exec c b)"
    by (cases c) (auto simp: agrees_def need_def Let_def split: option.splits)
  from assms animate show "agrees (declares c @ vs) (guarded g c) b'"
    if "exec c b = Normal b'"
    using that by (cases c) (auto simp: agrees_def need_def Let_def split: option.splits if_splits)
qed

lemma scoped_sound:
  "scoped vs g cs \<Longrightarrow> agrees vs g b \<Longrightarrow> \<not> faulty (run_script cs b)"
proof (induction cs arbitrary: vs g b)
  case Nil
  show ?case by simp
next
  case (Cons c cs)
  from Cons.prems have c: "set (uses c) \<subseteq> set vs" "dereferences c \<longrightarrow> g"
    and cs: "scoped (declares c @ vs) (guarded g c) cs"
    by simp_all
  note step = exec_scoped [OF c Cons.prems(2)]
  show ?case
  proof (cases "exec c b")
    case (Normal b')
    with Cons.IH [OF cs step(2)] show ?thesis by simp
  next
    case (Return v b')
    then show ?thesis by simp
  next
    case (Throw e b')
    with step(1) show ?thesis by simp
  qed
qed

lemma scripts_scoped:
  "scoped [] False initFractalAnimation_script" "scoped [] False FractalAnimation_script"
  "scoped [] False QuantumVisualization_script"
  by (simp_all add: script_defs)

section \<open>Properties of the constructions\<close>

text \<open>
  The two readings of a script agree. On every host that can give a WebGL context,
  with or without a mount node, what each of the three statement lists leaves its
  caller is what the construction of the same name in \<open>Engine\<close> returns: the same
  world with the same first draw, or the same host with the same console. This
  ties the lists to the record-level constructions the other theories use; it says
  nothing of the source beyond what either reading says.
\<close>

lemma scripts_construct_worlds:
  "outcome (run_script initFractalAnimation_script (blank True h)) =
     Some (initFractalAnimation h) \<and>
   outcome (run_script FractalAnimation_script (blank True h)) = Some (FractalAnimation h) \<and>
   outcome (run_script QuantumVisualization_script (blank True h)) =
     Some (QuantumVisualization h)"
  by (cases "container h") (simp_all add: script_defs construction_defs split: prod.splits)

text \<open>
  C20. The three scripts do not go wrong. On every host, with or without a mount
  node and with or without a WebGL context, none of \<^verbatim>\<open>initFractalAnimation\<close> and
  the two effects throws a \<^verbatim>\<open>ReferenceError\<close> or a \<^verbatim>\<open>TypeError\<close>: every statement
  of the three reads only variables whose declaration precedes it, and
  \<^verbatim>\<open>container.appendChild\<close> comes after the guard for the missing container. The
  exception of the renderer's constructor is the only one a script can end with.
\<close>

theorem scripts_do_not_go_wrong:
  "\<not> faulty (run_script initFractalAnimation_script (blank gl h)) \<and>
   \<not> faulty (run_script FractalAnimation_script (blank gl h)) \<and>
   \<not> faulty (run_script QuantumVisualization_script (blank gl h))"
  by (intro conjI scoped_sound [OF _ agrees_blank] scripts_scoped)

text \<open>
  C25. Without a WebGL context the construction throws and leaves nothing behind.
  On a host with a mount node but no WebGL context, the plain script and the
  interference component end with the exception of the renderer's constructor.
  Their caller gets nothing, no renderer exists, and the page is untouched: no
  canvas, no listener, no animation frame requested, no draw. The only trace is
  the line three.js wrote to the console; the scripts report nothing themselves
  and do not catch the exception.
\<close>

theorem backend_unavailable:
  assumes "container h"
  shows "(\<exists>b. run_script initFractalAnimation_script (blank False h) =
        Throw WebGLContextError b \<and>
      untouched b \<and> var_renderer b = None \<and> console b = console h @ [webgl_error_message]) \<and>
    (\<exists>b. run_script QuantumVisualization_script (blank False h) = Throw WebGLContextError b \<and>
      untouched b \<and> var_renderer b = None \<and> console b = console h @ [webgl_error_message]) \<and>
    outcome (run_script initFractalAnimation_script (blank False h)) = None \<and>
    outcome (run_script QuantumVisualization_script (blank False h)) = None"
  using assms by (simp add: script_defs blank_def untouched_def)

theorem backend_unavailable_witness:
  "(\<exists>b. run_script initFractalAnimation_script (blank False demo_host) =
        Throw WebGLContextError b \<and>
      untouched b \<and> var_renderer b = None \<and>
      console b = console demo_host @ [webgl_error_message]) \<and>
    (\<exists>b. run_script QuantumVisualization_script (blank False demo_host) =
        Throw WebGLContextError b \<and>
      untouched b \<and> var_renderer b = None \<and>
      console b = console demo_host @ [webgl_error_message]) \<and>
    outcome (run_script initFractalAnimation_script (blank False demo_host)) = None \<and>
    outcome (run_script QuantumVisualization_script (blank False demo_host)) = None"
  by (rule backend_unavailable) (simp add: demo_host_def)

text \<open>
  C34. An interrupted construction is never released. Let the statement at
  position \<open>k\<close> of the effect of the interference component throw, on a host with a
  mount node and a WebGL context. The effect then returns no cleanup function, so
  React has nothing to call, and what the statements before \<open>k\<close> did stays: the
  canvas in the page from position 8 on, the resize listener from 13, the click
  listener from 14, the requested animation frame from 16. A construction is
  released only if it has run to its last statement.
\<close>

theorem interrupted_construction_leaks:
  assumes "container h" "k < 17"
  shows "\<exists>b. throws_at k e QuantumVisualization_script (blank True h) = Throw e b \<and>
    outcome (throws_at k e QuantumVisualization_script (blank True h)) = None \<and>
    (canvas_in_dom b \<longleftrightarrow> 8 \<le> k) \<and> (on_resize b \<longleftrightarrow> 13 \<le> k) \<and> (on_click b \<longleftrightarrow> 14 \<le> k) \<and>
    requested b = (if 16 \<le> k then 1 else 0)"
proof -
  have "\<forall>k<17. \<exists>b. throws_at k e QuantumVisualization_script (blank True h) = Throw e b \<and>
    outcome (throws_at k e QuantumVisualization_script (blank True h)) = None \<and>
    (canvas_in_dom b \<longleftrightarrow> 8 \<le> k) \<and> (on_resize b \<longleftrightarrow> 13 \<le> k) \<and> (on_click b \<longleftrightarrow> 14 \<le> k) \<and>
    requested b = (if 16 \<le> k then 1 else 0)"
    using assms(1)
    by (simp add: eval_nat_numeral All_less_Suc throws_at_def script_defs construction_defs
        split: prod.splits)
  with assms(2) show ?thesis by blast
qed

theorem interrupted_construction_leaks_witness:
  "\<exists>b. throws_at 9 TypeError QuantumVisualization_script (blank True demo_host) =
      Throw TypeError b \<and>
    outcome (throws_at 9 TypeError QuantumVisualization_script (blank True demo_host)) = None \<and>
    (canvas_in_dom b \<longleftrightarrow> 8 \<le> (9::nat)) \<and> (on_resize b \<longleftrightarrow> 13 \<le> (9::nat)) \<and>
    (on_click b \<longleftrightarrow> 14 \<le> (9::nat)) \<and>
    requested b = (if 16 \<le> (9::nat) then 1 else 0)"
  by (rule interrupted_construction_leaks) (simp_all add: demo_host_def)

end
