(* ===== verification/Perpetual.thy ===== *)
theory Perpetual
  imports Script_Properties "HOL-Library.Stream"
begin

text \<open>
  Executions that do not end. The render loop is meant to run for as long as the
  page lives, so its executions are infinite: the host's events form a stream, and
  \<open>states\<close> is the stream of the worlds the engine passes through. The finite
  executions of \<open>Engine_Run\<close> are the prefixes of these: the world after \<open>n\<close> events
  is \<open>run\<close> on the first \<open>n\<close> events.

  \<open>always\<close> is invariance along a stream, defined coinductively and proved by
  coinduction from the preservation of the invariant by one event.
  \<open>frames_forever\<close> is what the loop may assume of its host: animation frames keep
  coming. The property of this theory is the liveness of the loop: the draws grow
  beyond every bound, and one further frame is requested at every time.
\<close>

section \<open>Infinite executions\<close>

primcorec states :: "('s \<Rightarrow> event \<Rightarrow> 's) \<Rightarrow> 's \<Rightarrow> event stream \<Rightarrow> 's stream" where
  "states step s es = s ## states step (step s (shd es)) (stl es)"

coinductive always :: "('s \<Rightarrow> bool) \<Rightarrow> 's stream \<Rightarrow> bool" for P :: "'s \<Rightarrow> bool" where
  always: "P (shd xs) \<Longrightarrow> always P (stl xs) \<Longrightarrow> always P xs"

definition frames_forever :: "event stream \<Rightarrow> bool" where
  "frames_forever es \<longleftrightarrow> (\<forall>n. \<exists>m\<ge>n. is_frame (es !! m))"

section \<open>Prefixes\<close>

lemma states_snth: "states step s es !! n = run step s (stake n es)"
  by (induction n arbitrary: s es) simp_all

lemma pred_stream_unfold: "pred_stream P es \<longleftrightarrow> P (shd es) \<and> pred_stream P (stl es)"
  by (cases es) simp

lemma wf_stake: "pred_stream wf_event es \<Longrightarrow> list_all wf_event (stake k es)"
proof (induction k arbitrary: es)
  case 0
  show ?case by simp
next
  case (Suc k)
  from Suc.prems have "wf_event (shd es)" "pred_stream wf_event (stl es)"
    by (simp_all add: pred_stream_unfold [of _ es])
  with Suc.IH [of "stl es"] show ?case by simp
qed

lemma states_reachable:
  "pred_stream wf_event es \<Longrightarrow> reachable step s (states step s es !! n)"
  unfolding states_snth by (rule reachable_run) (rule wf_stake)

section \<open>Invariance\<close>

lemma alwaysD: "always P xs \<Longrightarrow> P (shd xs)" "always P xs \<Longrightarrow> always P (stl xs)"
  by (erule always.cases, simp)+

lemma always_snth: "always P xs \<Longrightarrow> P (xs !! n)"
  by (induction n arbitrary: xs) (simp_all add: alwaysD)

text \<open>What every well-formed event preserves holds along every infinite execution.\<close>

lemma always_states:
  assumes "\<And>s e. P s \<Longrightarrow> wf_event e \<Longrightarrow> P (step s e)"
  shows "P s \<Longrightarrow> pred_stream wf_event es \<Longrightarrow> always P (states step s es)"
proof (coinduction arbitrary: s es)
  case always
  from always(2) have "wf_event (shd es)" "pred_stream wf_event (stl es)"
    by (simp_all add: pred_stream_unfold [of _ es])
  with always(1) assms [of s "shd es"] show ?case by auto
qed

section \<open>Frames without end\<close>

lemma frames_in_prefix:
  assumes "frames_forever es"
  shows "\<exists>k. N \<le> length (filter is_frame (stake k es))"
proof (induction N)
  case 0
  show ?case by simp
next
  case (Suc N)
  then obtain k where k: "N \<le> length (filter is_frame (stake k es))" ..
  from assms obtain m where m: "k \<le> m" "is_frame (es !! m)"
    unfolding frames_forever_def by blast
  have "stake (Suc m) es = stake k es @ stake (m - k) (sdrop k es) @ [es !! m]"
  proof -
    from m(1) have "stake m es = stake k es @ stake (m - k) (sdrop k es)"
      using stake_add [of k es "m - k"] by simp
    then show ?thesis by (simp only: stake_Suc append_assoc)
  qed
  with k m(2) have "Suc N \<le> length (filter is_frame (stake (Suc m) es))" by simp
  then show ?case ..
qed

lemma frames_forever_cycle:
  assumes "es \<noteq> []" "is_frame (hd es)"
  shows "frames_forever (cycle es)"
  unfolding frames_forever_def
proof
  fix n :: nat
  have "sdrop (length es * n) (cycle es) = cycle es"
    by (induction n) (simp_all add: sdrop_add [symmetric] sdrop_cycle_eq [OF assms(1)]
        add.commute)
  then have "shd (sdrop (length es * n) (cycle es)) = shd (cycle es)" by (simp only:)
  then have "cycle es !! (length es * n) = shd (cycle es)" by (simp only: sdrop_simps(1))
  with assms have "is_frame (cycle es !! (length es * n))" by simp
  moreover from assms(1) have "n \<le> length es * n" by (cases es) simp_all
  ultimately show "\<exists>m\<ge>n. is_frame (cycle es !! m)" by blast
qed

section \<open>The render loop\<close>

text \<open>
  C18. The render loop never stops. Let the fractal component run on a host that
  keeps delivering animation frames, among any other events, an unmount included.
  Then at every time the engine's invariant holds and exactly one further frame is
  requested; the draws issued are one for the construction and one for every
  animation frame so far; and their number grows beyond every bound. Nothing in
  an execution ends the loop, the unmount no more than anything else.
\<close>

theorem render_loop_never_stops:
  assumes "FractalAnimation h = Inr s0" "pred_stream wf_event es" "frames_forever es"
  shows "always (\<lambda>s. engine_inv s \<and> raf_queue s = 1) (states step_fractal s0 es) \<and>
    (\<forall>k. length (frames (states step_fractal s0 es !! k)) =
      1 + length (filter is_frame (stake k es))) \<and>
    (\<forall>N. \<exists>k. N \<le> length (frames (states step_fractal s0 es !! k)))"
proof (intro conjI allI)
  note start = fractal_start [OF assms(1)]
  show "always (\<lambda>s. engine_inv s \<and> raf_queue s = 1) (states step_fractal s0 es)"
  proof (rule always_states [OF _ _ assms(2)])
    show "engine_inv s0 \<and> raf_queue s0 = 1" using start by (simp add: inv_defs)
    show "engine_inv (step_fractal s e) \<and> raf_queue (step_fractal s e) = 1"
      if "engine_inv s \<and> raf_queue s = 1" "wf_event e" for s :: fractal_world and e
      using fractal_run(1) [of s "[e]"] that by (simp add: inv_defs)
  qed
  show "length (frames (states step_fractal s0 es !! k)) =
      1 + length (filter is_frame (stake k es))" for k
    using fractal_run(2) [OF start(1) wf_stake [OF assms(2)], of k] start
    by (simp add: states_snth)
  then show "\<exists>k. N \<le> length (frames (states step_fractal s0 es !! k))" for N
    using frames_in_prefix [OF assms(3), of N] by (auto intro: le_SucI)
qed

theorem render_loop_never_stops_witness:
  "always (\<lambda>s. engine_inv s \<and> raf_queue s = 1)
     (states step_fractal (mount (fractal_uniforms_init 800 600) False True demo_host)
       (cycle [Frame 16, Unmount, Frame 17])) \<and>
    (\<forall>k. length (frames (states step_fractal
        (mount (fractal_uniforms_init 800 600) False True demo_host)
        (cycle [Frame 16, Unmount, Frame 17]) !! k)) =
      1 + length (filter is_frame (stake k (cycle [Frame 16, Unmount, Frame 17])))) \<and>
    (\<forall>N. \<exists>k. N \<le> length (frames (states step_fractal
        (mount (fractal_uniforms_init 800 600) False True demo_host)
        (cycle [Frame 16, Unmount, Frame 17]) !! k)))"
proof (rule render_loop_never_stops [OF demo_mounts(2)])
  show "pred_stream wf_event (cycle [Frame 16, Unmount, Frame 17])"
    by (simp add: stream.pred_set sset_cycle)
  show "frames_forever (cycle [Frame 16, Unmount, Frame 17])"
    by (rule frames_forever_cycle) simp_all
qed

end
