(* ===== verification/Raster.thy ===== *)
theory Raster
  imports Screen
begin

text \<open>
  The pixels of the canvas. \<open>Screen\<close> says what a draw shows at a point of the
  continuous viewport. A draw covers the whole canvas (three.js sets the viewport
  to the size given to \<^verbatim>\<open>setSize\<close>), and WebGL shades a pixel with the values
  interpolated at its centre: pixel \<open>(i, j)\<close> of a canvas of \<open>w\<close> by \<open>h\<close> pixels,
  counted from the lower left corner, has its centre at \<open>((2i + 1) / w - 1,
  (2j + 1) / h - 1)\<close> in normalised device coordinates. \<open>canvas_uv\<close> is the texture
  coordinate the latest draw used for a pixel, \<open>None\<close> for a pixel the plane does
  not cover.

  The scripts ask for antialiasing. A pixel that the edge of the plane cuts is
  then a blend of the fragment and the clear colour; \<open>canvas_uv\<close> says which of
  the two the centre of the pixel has. The lemmas give \<open>canvas_uv\<close> in closed form
  and decide, in whole numbers, which columns of the canvas the picture reaches.
\<close>

section \<open>Pixel centres\<close>

definition pixel_centre :: "nat \<Rightarrow> nat \<Rightarrow> nat \<Rightarrow> nat \<Rightarrow> vec2" where
  "pixel_centre w h i j =
     vec2 ((2 * real i + 1) / real w - 1) ((2 * real j + 1) / real h - 1)"

definition canvas_uv :: "'u world \<Rightarrow> nat \<Rightarrow> nat \<Rightarrow> vec2 option" where
  "canvas_uv s i j =
     (if frames s = [] then None
      else let (w, h) = frame_size (last (frames s))
           in if i < w \<and> j < h then screen_uv s (pixel_centre w h i j) else None)"

text \<open>
  Twice the distance, in pixels, of the centre of pixel \<open>i\<close> from the middle of a row
  of \<open>n\<close> pixels.
\<close>

definition offset :: "nat \<Rightarrow> nat \<Rightarrow> int" where
  "offset n i = 2 * int i + 1 - int n"

lemma offset_bounds: "i < n \<Longrightarrow> \<bar>offset n i\<bar> < int n"
  by (simp add: offset_def abs_less_iff)

lemma offset_real: "i < n \<Longrightarrow> \<bar>real_of_int (offset n i)\<bar> < real n"
  using offset_bounds [of i n] by (metis of_int_abs of_int_less_iff of_int_of_nat_eq)

lemma pixel_centre_offset:
  assumes "0 < w" "0 < h"
  shows "vx (pixel_centre w h i j) = real_of_int (offset w i) / real w"
    and "vy (pixel_centre w h i j) = real_of_int (offset h j) / real h"
  using assms by (simp_all add: pixel_centre_def offset_def field_simps)

text \<open>The centre of every pixel of the canvas lies inside the viewport.\<close>

lemma pixel_in_viewport:
  assumes "i < w" "j < h"
  shows "\<bar>vx (pixel_centre w h i j)\<bar> < 1" "\<bar>vy (pixel_centre w h i j)\<bar> < 1"
proof -
  from assms have pos: "0 < w" "0 < h" by simp_all
  from offset_real [OF assms(1)] pos show "\<bar>vx (pixel_centre w h i j)\<bar> < 1"
    by (simp add: pixel_centre_offset)
  from offset_real [OF assms(2)] pos show "\<bar>vy (pixel_centre w h i j)\<bar> < 1"
    by (simp add: pixel_centre_offset)
qed

section \<open>What a pixel shows\<close>

text \<open>
  Every row of the canvas is covered. A column is covered if and only if its
  offset, scaled by the tangent of half the field of view, is at most the height
  of the canvas.
\<close>

lemma window_uv_pixel:
  assumes "i < w" "j < h"
  shows "window_uv w h (pixel_centre w h i j) =
    (let t = half_fov_tan 75;
         uv = vec2 (real_of_int (offset w i) * t / (2 * real h) + 1 / 2)
                (real_of_int (offset h j) * t / (2 * real h) + 1 / 2)
     in if \<bar>real_of_int (offset w i)\<bar> * t \<le> real h then Some uv else None)"
proof -
  let ?t = "half_fov_tan 75" and ?q = "pixel_centre w h i j"
  let ?a = "real_of_int (offset w i)" and ?b = "real_of_int (offset h j)"
  note t = half_fov_tan_75_bounds
  from assms have pos: "0 < w" "0 < h" by simp_all
  have u: "vx ?q * (real w / real h) * ?t / 2 + 1 / 2 = ?a * ?t / (2 * real h) + 1 / 2"
    using pos by (simp add: pixel_centre_offset)
  have v: "vy ?q * ?t / 2 + 1 / 2 = ?b * ?t / (2 * real h) + 1 / 2"
    using pos by (simp add: pixel_centre_offset)
  have "\<bar>?b\<bar> * ?t \<le> \<bar>?b\<bar>" using t by (intro mult_left_le) simp_all
  with offset_real [OF assms(2)] have "\<bar>?b * ?t\<bar> < real h" using t by (simp add: abs_mult)
  then have row: "unit_interval (?b * ?t / (2 * real h) + 1 / 2)"
    using pos by (simp add: unit_interval_def field_simps abs_less_iff)
  have col: "unit_interval (?a * ?t / (2 * real h) + 1 / 2) \<longleftrightarrow> \<bar>?a\<bar> * ?t \<le> real h"
  proof -
    from t have "\<bar>?a\<bar> * ?t = \<bar>?a * ?t\<bar>" by (simp add: abs_mult)
    then show ?thesis using pos by (auto simp: unit_interval_def field_simps abs_le_iff)
  qed
  from pixel_in_viewport [OF assms] pos show ?thesis
    unfolding window_uv_def Let_def u v unit_square_def by (simp add: row col)
qed

text \<open>
  With the tangent between 3/4 and 4/5 the test is decided in whole numbers for all
  columns but those whose offset lies between 5/4 and 4/3 of the height.
\<close>

lemma column_covered:
  assumes "i < w" "j < h"
  shows "4 * \<bar>offset w i\<bar> \<le> 5 * int h \<Longrightarrow> window_uv w h (pixel_centre w h i j) \<noteq> None"
    and "4 * int h \<le> 3 * \<bar>offset w i\<bar> \<Longrightarrow> window_uv w h (pixel_centre w h i j) = None"
proof -
  let ?t = "half_fov_tan 75"
  define a where "a = \<bar>real_of_int (offset w i)\<bar>"
  note t = half_fov_tan_75_bounds
  have a: "0 \<le> a" by (simp add: a_def)
  note uv = window_uv_pixel [OF assms, folded a_def]
  show "window_uv w h (pixel_centre w h i j) \<noteq> None" if "4 * \<bar>offset w i\<bar> \<le> 5 * int h"
  proof -
    from that have "real_of_int (4 * \<bar>offset w i\<bar>) \<le> real_of_int (5 * int h)"
      by (simp only: of_int_le_iff)
    then have "4 * a \<le> 5 * real h" by (simp add: a_def)
    moreover have "a * ?t \<le> a * (4 / 5)" using t a by (intro mult_left_mono) simp_all
    ultimately have "a * ?t \<le> real h" by linarith
    then show ?thesis
      unfolding uv by (simp only: Let_def if_True option.distinct not_False_eq_True)
  qed
  show "window_uv w h (pixel_centre w h i j) = None" if "4 * int h \<le> 3 * \<bar>offset w i\<bar>"
  proof -
    from that have "real_of_int (4 * int h) \<le> real_of_int (3 * \<bar>offset w i\<bar>)"
      by (simp only: of_int_le_iff)
    then have le: "4 * real h \<le> 3 * a" by (simp add: a_def)
    with assms(2) have "0 < a" by simp
    with t have "a * (3 / 4) < a * ?t" by (intro mult_strict_left_mono) simp_all
    with le have "\<not> a * ?t \<le> real h" by linarith
    then show ?thesis unfolding uv by (simp only: Let_def if_False)
  qed
qed

section \<open>The canvas of a mounted component\<close>

lemma frame_size_after_frame:
  assumes "engine_inv s" "resize_listener s"
  shows "frames (dispatch onclick cleanup s (Frame dt)) \<noteq> []"
    and "frame_size (last (frames (dispatch onclick cleanup s (Frame dt)))) =
      (innerWidth s, innerHeight s)"
proof -
  from assms(1) have q: "raf_queue s = 1" by (rule engine_inv_last_frame)
  from assms have "viewport_synced s" by (simp add: engine_inv_def teardown_inv_def)
  with q show "frames (dispatch onclick cleanup s (Frame dt)) \<noteq> []"
    "frame_size (last (frames (dispatch onclick cleanup s (Frame dt)))) =
      (innerWidth s, innerHeight s)"
    by (simp_all add: animate_unfold viewport_synced_def)
qed

lemma fractal_canvas_uv:
  assumes "FractalAnimation h = Inr s0" "list_all wf_event es" "Unmount \<notin> set es"
  shows "canvas_uv (run step_fractal s0 (es @ [Frame dt])) i j =
    (let w = innerWidth (run step_fractal s0 es); h' = innerHeight (run step_fractal s0 es)
     in if i < w \<and> j < h' then window_uv w h' (pixel_centre w h' i j) else None)"
proof -
  let ?s = "run step_fractal s0 es"
  note start = fractal_start [OF assms(1)]
  have inv: "engine_inv ?s" using start(1) assms(2) by (rule fractal_run(1))
  have m: "resize_listener ?s" using fractal_run_mounted [OF start(1) assms(2,3)] start by simp
  note size = frame_size_after_frame [OF inv m, of id cleanup_fractal dt,
      folded step_fractal_def]
  then have size': "frames (run step_fractal s0 (es @ [Frame dt])) \<noteq> []"
    "frame_size (last (frames (run step_fractal s0 (es @ [Frame dt])))) =
      (innerWidth ?s, innerHeight ?s)"
    by simp_all
  show ?thesis
    unfolding canvas_uv_def
    by (simp add: Let_def size' fractal_screen_uv(1) [OF assms] del: run_snoc)
qed

text \<open>
  C26. Which columns of the canvas the picture reaches. After an animation frame of
  the mounted fractal component, in a window of \<open>w\<close> by \<open>h\<close> pixels, the pixel in
  column \<open>i\<close> of any row is shaded if \<open>4 |2i + 1 - w| \<le> 5 h\<close> and keeps the clear
  colour if \<open>3 |2i + 1 - w| \<ge> 4 h\<close>. The picture is a band about the middle of
  the canvas between 5/4 and 4/3 of the canvas's height wide, whatever the width
  of the window: on a canvas of 1920 by 1080 the columns up to 239 and from 1680
  are never drawn, the columns 285 to 1634 always.
\<close>

theorem canvas_columns:
  assumes "FractalAnimation h = Inr s0" "list_all wf_event es" "Unmount \<notin> set es"
    "s = run step_fractal s0 (es @ [Frame dt])" "i < innerWidth s" "j < innerHeight s"
  shows "(4 * \<bar>offset (innerWidth s) i\<bar> \<le> 5 * int (innerHeight s) \<longrightarrow> canvas_uv s i j \<noteq> None) \<and>
    (4 * int (innerHeight s) \<le> 3 * \<bar>offset (innerWidth s) i\<bar> \<longrightarrow> canvas_uv s i j = None)"
proof -
  note win = fractal_screen_uv(2,3) [OF assms(1-3), of dt, folded assms(4)]
  from assms(5,6) have "canvas_uv s i j =
      window_uv (innerWidth s) (innerHeight s) (pixel_centre (innerWidth s) (innerHeight s) i j)"
    unfolding assms(4) fractal_canvas_uv [OF assms(1-3)]
    using win by (simp add: Let_def assms(4))
  with column_covered [OF assms(5,6)] show ?thesis by simp
qed

theorem canvas_columns_witness:
  "canvas_uv (run step_fractal (mount (fractal_uniforms_init 800 600) False True demo_host)
      ([Resize 1920 1080] @ [Frame 16])) 239 0 = None \<and>
   canvas_uv (run step_fractal (mount (fractal_uniforms_init 800 600) False True demo_host)
      ([Resize 1920 1080] @ [Frame 16])) 285 0 \<noteq> None"
proof -
  let ?s = "run step_fractal (mount (fractal_uniforms_init 800 600) False True demo_host)
      ([Resize 1920 1080] @ [Frame 16])"
  have win: "innerHeight ?s = 1080" "innerWidth ?s = 1920"
    by (simp_all add: step_fractal_def mount_unfold handleResize_unfold animate_unfold)
  from canvas_columns [OF demo_mounts(2), of "[Resize 1920 1080]" ?s 16 239 0]
    canvas_columns [OF demo_mounts(2), of "[Resize 1920 1080]" ?s 16 285 0]
  show ?thesis unfolding win by (simp add: offset_def)
qed

end
