(* ===== verification/Spec2Isabelle.thy ===== *)
theory Spec2Isabelle
  imports Fractal_Kernel Fractal_While Interference_Kernel Lifecycle Screen React_Component
    Construction Perpetual Raster
begin

text \<open>
  \<^bold>\<open>FractalMetamorphosis2D: a verification development.\<close>

  \<^bold>\<open>The program.\<close> Three scripts under \<^verbatim>\<open>src/src/scripts\<close> each put one animated
  plane on a web page: \<^verbatim>\<open>FractalAnimation.ts\<close> (a plain function,
  \<^verbatim>\<open>initFractalAnimation\<close>), \<^verbatim>\<open>FractalAnimation.tsx\<close> and
  \<^verbatim>\<open>QuantumVisualization.tsx\<close> (React components whose effect does the same work and
  returns a cleanup function). A script looks for its mount node, builds a three.js
  scene (camera, renderer, a 4 by 4 plane of 100 by 100 segments, a shader material
  with a uniform set), registers a resize listener on the window (the interference
  script also a click listener on the canvas), creates a clock and calls \<open>animate\<close>,
  which requests the next animation frame, copies the clock's elapsed time into the
  \<open>time\<close> uniform and draws. The colour of each pixel is computed by the fragment
  shader of the script: an escape-time fractal of a time-warped coordinate, or an
  interference pattern over a blend of two colours that a click collapses to one.

  \<^bold>\<open>The theories.\<close>
  \<^item> \<open>FM_Prelude\<close>: the fact collections (\<open>vec_simps\<close>, \<open>kernel_defs\<close>, \<open>clock_defs\<close>,
    \<open>engine_defs\<close>), the unit interval and convex combinations, periods of sine and
    cosine, two facts on sorted lists.
  \<^item> \<open>GLSL\<close>: \<open>vec2\<close>, \<open>vec3\<close>, \<open>vec4\<close> as instances of \<open>real_vector\<close>, \<open>length\<close>,
    \<open>mix\<close>, the reading \<open>cplx\<close> of a \<open>vec2\<close> as a complex number.
  \<^item> \<open>Uniforms\<close>: the uniform records; the interference script's is the extension
    of the fractal scripts' by \<open>collapse\<close>.
  \<^item> \<open>Fractal_Kernel\<close>: \<open>fractal_loop\<close>, \<open>fractal\<close>, \<open>main_fractal\<close> (the shader of
    \<^verbatim>\<open>FractalAnimation.ts\<close>, lines 34 to 60, identical in the \<^verbatim>\<open>.tsx\<close> file) and their
    reference \<open>orbit\<close>, \<open>escape_steps\<close>, \<open>escape_time\<close> on \<^typ>\<open>complex\<close>.
  \<^item> \<open>Interference_Kernel\<close>: \<open>interference\<close>, \<open>main_quantum\<close> (the shader of
    \<^verbatim>\<open>QuantumVisualization.tsx\<close>, lines 34 to 64).
  \<^item> \<open>Fractal_While\<close>: the same loop as a \<open>while_option\<close> loop over the record
    \<open>loop_state\<close> of its variables (\<open>loop_init\<close>, \<open>loop_cond\<close>, \<open>loop_body\<close>,
    \<open>fractal_for\<close>), with the invariant and the measure that make it halt.
  \<^item> \<open>Three_Clock\<close>: the three.js clock the scripts read, after the library's
    behaviour (\<open>Clock\<close>, \<open>start\<close>, \<open>stop\<close>, \<open>getDelta\<close>, \<open>getElapsedTime\<close>), and
    the abstract clock of the specification (\<open>elapsed\<close>).
  \<^item> \<open>Engine\<close>: the state (\<open>host\<close>, \<open>world\<close>), the closures \<open>handleResize\<close>,
    \<open>handleClick\<close>, \<open>animate\<close>, \<open>cleanup_fractal\<close>, \<open>cleanup_quantum\<close>, the three
    constructions \<open>initFractalAnimation\<close>, \<open>FractalAnimation\<close>,
    \<open>QuantumVisualization\<close>, and \<open>mount\<close>, the one construction they are instances of.
  \<^item> \<open>Engine_Run\<close>: host events, \<open>dispatch\<close>, \<open>step_fractal\<close>, \<open>step_quantum\<close>,
    \<open>run\<close>, \<open>reachable\<close>, the invariant \<open>engine_inv\<close> and the contracts under which
    every event keeps it.
  \<^item> \<open>Engine_Properties\<close>: lemmas on single events and on runs, generic in the
    script.
  \<^item> \<open>Script_Properties\<close>: the instances for the two step functions and the
    properties of whole executions (mode flag, viewport, time, draws, invariant).
  \<^item> \<open>Lifecycle\<close>: construction with its error path, the unmount, and the relation
    of the plain script to the component.
  \<^item> \<open>Linear4\<close>: homogeneous vectors and \<open>mat4\<close> with the products \<open>mulv\<close> and
    \<open>mulm\<close>, the part of GLSL the vertex shader uses.
  \<^item> \<open>Camera_Projection\<close>: \<open>projectionMatrix\<close> and \<open>modelViewMatrix\<close> as three.js
    computes them from the camera (\<open>makePerspective\<close>, \<open>makeTranslation\<close>,
    \<open>half_fov_tan\<close>), the camera of the scripts (\<open>script_camera\<close>, lines 10 to 16 of
    \<^verbatim>\<open>FractalAnimation.ts\<close>), and bounds on the tangent of 37.5 degrees.
  \<^item> \<open>Plane_Geometry\<close>: the vertex and index buffers of
    \<^verbatim>\<open>PlaneGeometry(4, 4, 100, 100)\<close> (\<open>plane_vertices\<close>, \<open>plane_indices\<close>,
    \<open>script_geometry\<close>, line 23) and \<open>surface_point\<close>, the position as a function of
    the texture coordinate.
  \<^item> \<open>Vertex_Shader\<close>: \<open>main_vertex\<close> (lines 27 to 31, the same in the three
    scripts), clipping and the perspective divide (\<open>clip_to_ndc\<close>), the way of a
    point of the mesh to the viewport (\<open>project_surface\<close>) and back
    (\<open>fragment_uv\<close>).
  \<^item> \<open>Screen\<close>: the scene constants as an invariant of the engine (\<open>scene_inv\<close>),
    \<open>screen_uv\<close>, the texture coordinate the latest draw shows at a point of the
    viewport, and its closed form \<open>window_uv\<close>.
  \<^item> \<open>Engine_Spec\<close>: the engine the specification describes, as a state machine
    of its own (\<open>engine_spec\<close>, \<open>spec_init\<close>, \<open>spec_step\<close>, with the states
    \<open>Running\<close> and \<open>Stopped\<close>), the abstraction \<open>abs_world\<close> from a world of the
    scripts to it, and the invariant \<open>component_inv\<close> of a mounted component.
  \<^item> \<open>Page\<close>: a window with every instance that was constructed on it (\<open>page\<close>,
    \<open>page_event\<close>, \<open>page_step\<close>): a resize and an animation frame reach all
    instances, a click and a cleanup reach one, and a mount adds one.
  \<^item> \<open>React_Component\<close>: what the two components declare to React
    (\<open>useRef_null\<close>, line 5 of \<^verbatim>\<open>FractalAnimation.tsx\<close>; \<open>component_element\<close>,
    line 105; \<open>effect_deps\<close>, line 103) and what React does with it (\<open>commit\<close>,
    \<open>run_effect\<close>, \<open>run_cleanup\<close>, \<open>root_step\<close> over the events \<open>RMount\<close>,
    \<open>RRender\<close>, \<open>RUnmount\<close> of a component's life), strict mode included, and the
    two components as records of their element, effect and closures
    (\<open>FractalAnimation_component\<close>, \<open>QuantumVisualization_component\<close>, lines 4 to
    106 and 4 to 118 of their files).
  \<^item> \<open>Construction\<close>: the three constructions statement by statement
    (\<open>stmt\<close>, \<open>exec\<close>, \<open>run_script\<close>, and the statement lists
    \<open>initFractalAnimation_script\<close>, \<open>FractalAnimation_script\<close>,
    \<open>QuantumVisualization_script\<close>) over the partial state \<open>build\<close> of the
    variables declared so far, with JavaScript's completions (\<open>Normal\<close>, \<open>Return\<close>,
    \<open>Throw\<close>), the failure of the renderer's constructor on a browser without a
    WebGL context, a scope check (\<open>scoped\<close>) and faults injected at a statement
    (\<open>throws_at\<close>).
  \<^item> \<open>Perpetual\<close>: executions that do not end, as streams of events
    (\<open>states\<close>), invariance along a stream (\<open>always\<close>, coinductive) and the
    assumption that animation frames keep coming (\<open>frames_forever\<close>).
  \<^item> \<open>Raster\<close>: the pixels of the canvas: the centre of a pixel in the viewport
    (\<open>pixel_centre\<close>), the texture coordinate the latest draw used for a pixel
    (\<open>canvas_uv\<close>), and the test in whole numbers for the columns the plane covers
    (\<open>offset\<close>).
  \<^item> this theory: the pixels of the drawn frames (\<open>pixel_fractal\<close>,
    \<open>pixel_quantum\<close>) and the colours on the screen (\<open>screen_fractal\<close>,
    \<open>screen_quantum\<close>), where kernels, vertex stage and engine meet.

  \<^bold>\<open>Correspondence.\<close> A shader function is a HOL function of the same name with its
  local variables as \<open>let\<close>s; a shader's \<open>main\<close> takes the uniform record and the
  varying \<open>vUv\<close> and returns \<open>gl_FragColor\<close>. The \<open>for\<close> loop of \<open>fractal\<close> is the
  recursive function \<open>fractal_loop\<close> over (\<open>i\<close>, \<open>z\<close>, \<open>iterations\<close>), total by the
  measure \<open>100 - i\<close>; in \<open>Fractal_While\<close> it is a loop whose halting is proved, and
  the two agree. The vertex shader's \<open>main\<close> takes the two matrix uniforms and the
  attributes \<open>position\<close> and \<open>uv\<close> and returns \<open>gl_Position\<close> and the varying
  \<open>vUv\<close>. A viewport point is a \<open>vec2\<close> in normalised device coordinates, the
  square from \<open>-1\<close> to \<open>1\<close>; what is drawn there is an \<open>option\<close>, \<open>None\<close> where the
  mesh leaves the clear colour. A closure of a script is a function on \<open>world\<close>, the record of
  everything the closure can reach; three.js and DOM calls are the field updates
  they cause (\<^verbatim>\<open>renderer.setSize\<close> writes \<open>canvas_size\<close>,
  \<^verbatim>\<open>renderer.render\<close> appends to \<open>frames\<close>, \<^verbatim>\<open>requestAnimationFrame\<close> increments
  \<open>raf_queue\<close>, \<^verbatim>\<open>addEventListener\<close> sets a listener flag). A construction returns
  \<open>Inl\<close> of the host when the mount node is missing and \<open>Inr\<close> of the world
  otherwise. A page is the host with the list of the worlds constructed on it, in
  the order of their construction; each world keeps its own copy of the window's
  size and time, and \<open>in_step\<close> says that the copies agree with the window. A
  React root is a page with two more fields: whether the component is rendered,
  and the index of the instance whose cleanup function React holds. Mounting
  commits the element, which sets \<open>containerRef.current\<close> (the \<open>container\<close> field of
  the host), and then runs the effect, which is the construction of the script.
  In \<open>Construction\<close> a construction is the list of its statements in the order of
  the source, one constructor of \<open>stmt\<close> per statement form with the literals of
  the source as arguments; a \<^verbatim>\<open>const\<close> is an \<open>option\<close> field of \<open>build\<close>, \<open>None\<close>
  until the declaration ran; a statement returns a completion, and the list stops
  at the first \<open>Return\<close> or \<open>Throw\<close>. \<open>built\<close> reads a world off a state in
  which every variable is bound, and the constructions of \<open>Engine\<close> are shown to
  be what the lists compute. An infinite execution is a stream of events, and the
  finite executions are its prefixes (\<open>states_snth\<close>). Pixel \<open>(i, j)\<close> of a
  canvas of \<open>w\<close> by \<open>h\<close> pixels, counted from the lower left corner, is the
  viewport point \<open>((2i + 1) / w - 1, (2j + 1) / h - 1)\<close>.

  \<^bold>\<open>What is shown.\<close> For the fractal kernel: the loop computes the escape time of
  \<open>z \<mapsto> z\<^sup>2 + c\<close> under the cap of 100; the count is between 1 and 100, is 1 outside
  the disc of radius 2 and 100 within radius 1/4, counts exactly the iterates
  inside the disc, and is symmetric about the midline; the picture is grey, opaque,
  within range and \<open>2\<pi>\<close>-periodic in time. For the interference kernel: the colour
  on both values of the mode flag, the range of the channels, the period \<open>\<pi>\<close> in
  time and \<open>\<pi>/5\<close> in space, the midpoint at time 0. For the engine: every
  reachable world satisfies \<open>engine_inv\<close>; the mode flag is the parity of the
  clicks before the unmount; a resize reaches the resolution uniform, the canvas,
  the aspect and the projection, and is idempotent; the time uniform is the
  specification's elapsed time and the times of the draws never decrease; there is
  one draw per animation frame. For the life cycle: construction aborts without a
  mount node and establishes the invariant with one; the plain script and the
  component agree until the unmount; the cleanup functions are idempotent and
  leave no listener behind. For engine and kernels together: what the latest draw
  shows, that every colour drawn is in range, that a click shows in the next
  draw. For the vertex stage: the loop of the kernel halts; the mesh is well
  formed; where each grid vertex lands in the viewport; projection and
  rasterisation are inverse to each other. For the screen: the camera constants
  and the mesh are invariant, so that after every frame of a mounted script the
  colour at a viewport point is a closed-form function of the window's aspect,
  the time and the mode flag (\<open>screen_shows_escape_time\<close>,
  \<open>screen_shows_interference\<close>). For the specification: the interference
  component is a functional refinement of the specification's engine,
  \<open>abs_world (run step s es) = run spec_step (abs_world s) es\<close>, for every
  execution up to the unmount, and agrees with it on viewport, resolution, mode
  and status for every execution (\<open>engine_refines_specification\<close>); the status
  of a world is read off its listeners, \<open>Running\<close> while the resize listener is
  registered, and not off the frame loop, which the code never stops. For a page:
  an instance behaves as the single engine does on the events that reach it
  (\<open>instance_on_page_is_engine\<close>, a fact of the page that holds for every
  construction and step function), and every instance stays in step with the
  window (\<open>page_instances_in_step\<close>). For React: mounting a component never takes
  the guard for a missing mount node (\<open>react_mount_never_aborts\<close>), a render
  never runs the effect again, a mounted root is its page (\<open>root_run_page\<close>), and
  in strict mode the mode flag of the live interference instance is the parity of
  the clicks on its canvas while the instance torn down stays deaf
  (\<open>strict_mode_click\<close>). For the constructions statement by statement: the
  statement lists compute the worlds of \<open>Engine\<close>, with the guard's early return
  and the logged line of the plain script (\<open>scripts_construct_worlds\<close>, which
  ties the two readings of a script together and says nothing more of the
  source); a list that passes the scope check never reads a variable before its
  declaration (\<open>scoped_sound\<close>), the three lists pass it, and so none of the
  three scripts throws a \<^verbatim>\<open>ReferenceError\<close> or a \<^verbatim>\<open>TypeError\<close> on any host
  (\<open>scripts_do_not_go_wrong\<close>).
  For executions without end: the invariant holds at every time, one frame is
  requested at every time, and on a host that keeps delivering animation frames
  the number of draws grows beyond every bound (\<open>render_loop_never_stops\<close>). For
  the canvas: the centre of every pixel lies inside the viewport, every row is
  covered, and column \<open>i\<close> of a canvas of \<open>w\<close> by \<open>h\<close> pixels is covered if
  \<open>4 |2i + 1 - w| \<le> 5 h\<close> and is not if \<open>3 |2i + 1 - w| \<ge> 4 h\<close>
  (\<open>canvas_columns\<close>).

  The development also records where the code leaves its specification. The
  cleanup functions do not cancel the requested animation frame, so draws go on
  after the unmount, on a disposed renderer (\<open>teardown_keeps_drawing\<close>), one for
  every animation frame, which is exactly what the component does beyond the
  specification's engine (\<open>draws_beyond_specification\<close>), and without end
  (\<open>render_loop_never_stops\<close>); without a WebGL context the constructor of the
  renderer throws, no script catches it, and the only report is the line three.js
  writes (\<open>backend_unavailable\<close>); an exception at any later statement leaves
  behind what the statements before it put on the page, a canvas, listeners or a
  running loop, since the cleanup function is returned by the last statement only
  (\<open>interrupted_construction_leaks\<close>); on a page the loops of
  all instances that were ever mounted keep running, so every frame costs one
  draw per mount (\<open>frame_loops_accumulate\<close>), and under React's strict mode every
  frame draws twice from the first mount on (\<open>strict_mode_doubles_draws\<close>); the plain
  script can never be released (\<open>plain_script_never_released\<close>); the two
  components abort silently, without the logged error
  (\<open>missing_container_aborts\<close>); a window of height 0 gives an aspect that is not
  a number (\<open>degenerate_viewport\<close>); no shader reads the resolution uniform
  (\<open>resize_changes_no_pixel\<close>); the count outside the disc of radius 2 is
  always 1, never 0 (\<open>fractal_far_parameter\<close>); and the surface is not
  full-viewport: the top and bottom tenth of the picture are never visible, and
  in a window of 4 to 3 or wider the plane leaves bars at the sides
  (\<open>plane_leaves_viewport_uncovered\<close>).

  \<^bold>\<open>Idealisations and bounds.\<close> GLSL floats and JavaScript doubles are real
  numbers; rounding is not modelled. Window sizes are natural numbers; the one
  division that can leave the reals is a \<open>jsnum\<close>. The loop needs no fuel: its
  bound of 100 is the source's. An execution is a finite list of events, of one
  instance (\<open>run\<close>), of a page (\<open>page_run\<close>) or of a React root (\<open>root_run\<close>), and
  the properties hold for every list; the number of instances on a page is not
  bounded. The executions of one instance are also given without an end, as
  streams, where a property speaks of all time; liveness is proved under the
  assumption \<open>frames_forever\<close> on the host, which every browser with a visible
  page meets and the witness meets with a periodic stream. A statement of a
  construction throws only where \<open>throws_at\<close> says so or where the renderer's
  constructor finds no context; the text of the console line is three.js's, and
  a new canvas has the default size of HTML, 300 by 150, until \<^verbatim>\<open>setSize\<close> ran. A React root holds one component, as the two files export one each,
  and React is taken to run the effect after the commit that attaches the ref and
  to compare dependency lists element by element, as its documentation says.
  The host's time is read at animation frames only, so it advances with the
  \<open>Frame\<close> events, each carrying the milliseconds since the previous frame; it is
  assumed not to run backwards (\<open>wf_event\<close>) where a property depends on it. An
  animation frame runs every callback requested since the previous one
  (\<open>raf_queue\<close>), which the invariant shows to be exactly one. The \<open>while\<close> form of
  the kernel's loop uses no fuel either: \<open>while_option\<close> returns \<open>None\<close> for a loop
  that does not halt, and \<open>fractal_for_terminates\<close> shows that it returns \<open>Some\<close>.
  The viewport is continuous: a point of it is a pair of reals, and a pixel is
  the point at its centre; a pixel that the edge of the plane cuts is taken to
  show what its centre shows. The test for the columns of the canvas is exact
  but for the columns whose offset lies between 5/4 and 4/3 of the height, where
  it depends on more digits of the tangent than the bounds give. The plane is
  flat and faces the camera, so the texture coordinate at a viewport
  point has a closed form (\<open>fragment_uv\<close>), and interpolation over the 20000
  triangles of the mesh gives the same value as this affine map;
  \<open>surface_fragment_roundtrip\<close> ties it to the vertex shader. The tangent of half
  the field of view is bounded between 3/4 and 4/5 from the exact values of sine
  and cosine at 75 degrees, which is all the properties of the screen need.

  \<^bold>\<open>Not modelled.\<close> The blend of antialiased pixels at the edge of the plane, the
  depth buffer, shader compilation and the GPU resources of the WebGL backend (a
  draw is a log entry, and its picture is a function on the viewport); the loss
  of a WebGL context after the construction; React's reconciliation beyond the mount, render and unmount of this one component, and
  the layout that gives the container its size of \<^verbatim>\<open>100vw\<close> by \<^verbatim>\<open>100vh\<close> (the
  scripts size the canvas from the window, not from the container); the scene
  graph beyond the number of meshes; rounding of GLSL floats, for which the
  logic's library has no floating-point numbers to state a bound in. These are
  library and framework code outside the repository, reached from the scripts
  only through the calls that are modelled.

  \<^bold>\<open>Plan.\<close> Done: the kernels, the engine's closures and invariant, whole
  executions, the life cycle, the pixels of the drawn frames, the vertex shader
  with the camera's projection and the mesh, the screen, the specification's
  engine with the refinement, several instances on one page, the React component
  with remounts and strict mode, the constructions statement by statement with
  their exceptions, executions without end, the pixel grid of the canvas. Every
  line of the three scripts but the imports and the exports is the subject of a
  definition. Open: bounds on the rounding error of the kernels in single
  precision; the columns of the canvas between the two bounds of
  \<open>canvas_columns\<close>, which need the tangent to more digits.
\<close>

section \<open>The pixels of a drawn frame\<close>

text \<open>
  The backend evaluates the script's fragment shader at every surface coordinate
  with the uniforms the draw was issued with.
\<close>

definition pixel_fractal :: "'u frame \<Rightarrow> vec2 \<Rightarrow> vec4" where
  "pixel_fractal f uv = main_fractal (frame_uniforms f) uv"

definition pixel_quantum :: "unit quantum_uniforms_ext frame \<Rightarrow> vec2 \<Rightarrow> vec4" where
  "pixel_quantum f uv = main_quantum (frame_uniforms f) uv"

text \<open>
  The mesh pairs the plane with the material: the colour at a point of the
  viewport is the shader's colour at the texture coordinate the plane has there,
  and none where the plane is not.
\<close>

definition screen_fractal :: "'u world \<Rightarrow> vec2 \<Rightarrow> vec4 option" where
  "screen_fractal s q = map_option (pixel_fractal (last (frames s))) (screen_uv s q)"

definition screen_quantum :: "unit quantum_uniforms_ext world \<Rightarrow> vec2 \<Rightarrow> vec4 option" where
  "screen_quantum s q = map_option (pixel_quantum (last (frames s))) (screen_uv s q)"

section \<open>Engine and kernels together\<close>

text \<open>A draw issued with the mode flag at \<open>0\<close> or \<open>1\<close> has every colour in range.\<close>

lemma mode_inv_pixel:
  assumes "mode_inv s" "f \<in> set (frames s)"
  shows "channels_in 0 (4/5) (rgb (pixel_quantum f uv)) \<and> alpha (pixel_quantum f uv) = 1"
proof -
  from assms have "collapse (frame_uniforms f) \<in> {0, 1}"
    by (simp add: mode_inv_def list_all_iff)
  then have "unit_interval (collapse (frame_uniforms f))" by auto
  from channels_shaded [OF this] show ?thesis
    by (simp add: pixel_quantum_def main_quantum_unfold)
qed

text \<open>
  The draw of an animation frame is issued with the uniforms as they are after
  it, and with the mode flag at the parity of the clicks.
\<close>

lemma quantum_frame_mode:
  assumes "QuantumVisualization h = Inr s0" "list_all wf_event es"
  shows "frame_uniforms (last (frames (run step_quantum s0 (es @ [Frame dt])))) =
      material_uniforms (run step_quantum s0 (es @ [Frame dt]))"
    and "collapse (material_uniforms (run step_quantum s0 (es @ [Frame dt]))) =
      real (clicks_before_unmount es mod 2)"
proof -
  let ?s1 = "run step_quantum s0 es"
  let ?s2 = "step_quantum ?s1 (Frame dt)"
  note start = quantum_start [OF assms(1)]
  have "raf_queue ?s1 = 1"
    using quantum_run(1) [OF start(1) assms(2)] by (rule engine_inv_last_frame(2))
  then have "frame_uniforms (last (frames ?s2)) = material_uniforms ?s2"
    unfolding step_quantum_def by (rule dispatch_frame_projection(3))
  then show "frame_uniforms (last (frames (run step_quantum s0 (es @ [Frame dt])))) =
      material_uniforms (run step_quantum s0 (es @ [Frame dt]))"
    by simp
  show "collapse (material_uniforms (run step_quantum s0 (es @ [Frame dt]))) =
      real (clicks_before_unmount es mod 2)"
    using run_quantum_parity [of s0 0 es] start(4,5,8) by (simp add: step_quantum_collapse)
qed

text \<open>
  C28. What the fractal component shows. In any execution the latest draw colours
  the surface coordinate \<open>uv\<close> with the grey \<open>n / 100\<close>, where \<open>n\<close> is the escape
  time of the parameter at \<open>uv\<close> warped by the time, in seconds, of all animation
  frames delivered so far.
\<close>

theorem latest_fractal_picture:
  assumes "FractalAnimation h = Inr s0" "list_all wf_event es"
  shows "pixel_fractal (last (frames (run step_fractal s0 es))) uv =
    vec4 (vec3s (real (escape_time (param (warp (sum_list (map frame_ms es) / 1000) uv))) / 100)) 1"
proof -
  note start = fractal_start [OF assms(1)]
  note r = fractal_run [OF start(1) assms(2)]
  have t: "time (frame_uniforms (last (frames (run step_fractal s0 es)))) =
      sum_list (map frame_ms es) / 1000"
    using engine_inv_last_frame(1) [OF r(1)] r(3) start(7) by simp
  show ?thesis unfolding pixel_fractal_def main_fractal_warp fractal_escape_time t ..
qed

theorem latest_fractal_picture_witness:
  "pixel_fractal (last (frames (run step_fractal
      (mount (fractal_uniforms_init 800 600) False True demo_host) [Frame 16, Frame 17])))
      (vec2 (1/2) (1/2)) =
    vec4 (vec3s (real (escape_time (param
      (warp (sum_list (map frame_ms [Frame 16, Frame 17]) / 1000) (vec2 (1/2) (1/2))))) / 100)) 1"
  by (rule latest_fractal_picture [OF demo_mounts(2)]) simp

text \<open>
  C29. Every colour the interference component ever draws is in range: for each
  draw of an execution and each surface coordinate the three channels lie between
  \<open>0\<close> and \<open>0.8\<close> and alpha is \<open>1\<close>, because the engine writes only \<open>0\<close> and \<open>1\<close>
  into the mode flag.
\<close>

theorem drawn_colours_in_range:
  assumes "QuantumVisualization h = Inr s0" "list_all wf_event es"
    "f \<in> set (frames (run step_quantum s0 es))"
  shows "channels_in 0 (4/5) (rgb (pixel_quantum f uv)) \<and> alpha (pixel_quantum f uv) = 1"
proof -
  note start = quantum_start [OF assms(1)]
  have "mode_inv (run step_quantum s0 es)"
    using start(1,10) assms(2) by (rule run_quantum_mode_inv)
  then show ?thesis using assms(3) by (rule mode_inv_pixel)
qed

theorem drawn_colours_in_range_witness:
  "channels_in 0 (4/5) (rgb (pixel_quantum
      (hd (frames (mount (quantum_uniforms_init 800 600) True True demo_host))) (vec2 0 0))) \<and>
   alpha (pixel_quantum
      (hd (frames (mount (quantum_uniforms_init 800 600) True True demo_host))) (vec2 0 0)) = 1"
  by (rule drawn_colours_in_range [OF demo_mounts(3), of "[]"]) (simp_all add: mount_unfold)

text \<open>
  C30. A click shows in the next draw. The draw of an animation frame colours
  \<open>uv\<close> with \<open>stateA\<close>, scaled by the pattern's brightness, when the number of
  clicks delivered while mounted is odd, and with the superposition of the two
  states, scaled likewise, when it is even.
\<close>

theorem click_shows_in_next_frame:
  assumes "QuantumVisualization h = Inr s0" "list_all wf_event es"
  shows "let s = run step_quantum s0 (es @ [Frame dt]); t = time (material_uniforms s) in
    pixel_quantum (last (frames s)) uv =
      vec4 (brightness uv t *\<^sub>R
        (if even (clicks_before_unmount es) then superposition t else stateA)) 1"
  using quantum_frame_mode [OF assms, of dt]
  by (cases "even (clicks_before_unmount es)")
    (simp_all add: pixel_quantum_def main_quantum_unfold Let_def mod_2_eq_odd)

theorem click_shows_in_next_frame_witness:
  "let s = run step_quantum (mount (quantum_uniforms_init 800 600) True True demo_host)
      ([Click, Resize 640 480] @ [Frame 16]);
     t = time (material_uniforms s) in
    pixel_quantum (last (frames s)) (vec2 0 0) =
      vec4 (brightness (vec2 0 0) t *\<^sub>R
        (if even (clicks_before_unmount [Click, Resize 640 480]) then superposition t else stateA)) 1"
  by (rule click_shows_in_next_frame [OF demo_mounts(3)]) simp

text \<open>
  C31. The resolution uniform reaches no pixel. Both fragment shaders declare
  \<open>resolution\<close> and neither reads it: the draw of the next animation frame is the
  same picture whether or not a resize came before it.
\<close>

theorem resize_changes_no_pixel:
  assumes "raf_queue s = 1" "raf_queue s' = 1"
  shows "pixel_quantum (last (frames (step_quantum (step_quantum s (Resize w h)) (Frame dt)))) uv =
      pixel_quantum (last (frames (step_quantum s (Frame dt)))) uv \<and>
    pixel_fractal (last (frames (step_fractal (step_fractal s' (Resize w h)) (Frame dt)))) uv =
      pixel_fractal (last (frames (step_fractal s' (Frame dt)))) uv"
  using assms
  by (simp add: step_quantum_def step_fractal_def Let_def handleResize_unfold animate_unfold
      pixel_quantum_def pixel_fractal_def main_quantum_unfold main_fractal_warp)

theorem resize_changes_no_pixel_witness:
  "pixel_quantum (last (frames (step_quantum (step_quantum
        (mount (quantum_uniforms_init 800 600) True True demo_host) (Resize 640 480)) (Frame 16))))
      (vec2 0 0) =
    pixel_quantum (last (frames (step_quantum
        (mount (quantum_uniforms_init 800 600) True True demo_host) (Frame 16)))) (vec2 0 0) \<and>
   pixel_fractal (last (frames (step_fractal (step_fractal
        (mount (fractal_uniforms_init 800 600) False True demo_host) (Resize 640 480)) (Frame 16))))
      (vec2 0 0) =
    pixel_fractal (last (frames (step_fractal
        (mount (fractal_uniforms_init 800 600) False True demo_host) (Frame 16)))) (vec2 0 0)"
  by (rule resize_changes_no_pixel) (simp_all add: mount_unfold)

section \<open>From the window to the colour on the screen\<close>

text \<open>
  Whatever the interference component has on the screen is a colour in range,
  and after a frame of the mounted component it is there exactly where the plane
  is.
\<close>

lemma screen_quantum_in_range:
  assumes "QuantumVisualization h = Inr s0" "list_all wf_event es"
    "screen_quantum (run step_quantum s0 es) q = Some c"
  shows "channels_in 0 (4/5) (rgb c) \<and> alpha c = 1"
proof -
  let ?s = "run step_quantum s0 es"
  note start = quantum_start [OF assms(1)]
  from assms(3) obtain uv where c: "c = pixel_quantum (last (frames ?s)) uv"
    and "screen_uv ?s q = Some uv"
    by (auto simp: screen_quantum_def)
  then have "last (frames ?s) \<in> set (frames ?s)"
    by (auto simp: screen_uv_def split: if_splits)
  moreover have "mode_inv ?s" using start(1,10) assms(2) by (rule run_quantum_mode_inv)
  ultimately show ?thesis unfolding c by (intro mode_inv_pixel)
qed

lemma screen_quantum_covered:
  assumes "QuantumVisualization h = Inr s0" "list_all wf_event es" "Unmount \<notin> set es"
  shows "screen_quantum (run step_quantum s0 (es @ [Frame dt])) q \<noteq> None \<longleftrightarrow>
    window_uv (innerWidth (run step_quantum s0 es)) (innerHeight (run step_quantum s0 es)) q
      \<noteq> None"
  unfolding screen_quantum_def quantum_screen_uv [OF assms] by simp

text \<open>
  The interference component on the screen: where the plane is, the colour is
  \<open>stateA\<close> or the superposition, by the parity of the clicks, scaled by the
  brightness of the pattern at that place.
\<close>

lemma screen_shows_interference:
  assumes "QuantumVisualization h = Inr s0" "list_all wf_event es" "Unmount \<notin> set es"
  shows "let s = run step_quantum s0 (es @ [Frame dt]); t = time (material_uniforms s) in
    screen_quantum s q =
      map_option
        (\<lambda>uv. vec4 (brightness uv t *\<^sub>R
           (if even (clicks_before_unmount es) then superposition t else stateA)) 1)
        (window_uv (innerWidth (run step_quantum s0 es)) (innerHeight (run step_quantum s0 es)) q)"
proof -
  let ?s = "run step_quantum s0 (es @ [Frame dt])"
  let ?t = "time (material_uniforms ?s)"
  have "pixel_quantum (last (frames ?s)) =
      (\<lambda>uv. vec4 (brightness uv ?t *\<^sub>R
         (if even (clicks_before_unmount es) then superposition ?t else stateA)) 1)"
    using quantum_frame_mode [OF assms(1,2), of dt]
    by (intro ext, cases "even (clicks_before_unmount es)")
      (simp_all add: pixel_quantum_def main_quantum_unfold Let_def mod_2_eq_odd)
  then show ?thesis
    unfolding Let_def screen_quantum_def quantum_screen_uv [OF assms] by (simp only:)
qed

text \<open>
  C40. What the mounted fractal component puts on the screen. After an animation
  frame, the point \<open>q\<close> of the viewport (both coordinates from \<open>-1\<close> to \<open>1\<close>) has a
  colour exactly when the window is not degenerate and the texture coordinate
  \<open>uv = (q\<^sub>x * aspect * tan 37.5\<degree> / 2 + 1/2, q\<^sub>y * tan 37.5\<degree> / 2 + 1/2)\<close> lies in
  the unit square; the colour is then the grey \<open>n / 100\<close>, \<open>n\<close> the escape time of
  the parameter at \<open>uv\<close> warped by the time of all frames delivered. Camera,
  plane, vertex stage, clock, engine and kernel each contribute one factor.
\<close>

theorem screen_shows_escape_time:
  assumes "FractalAnimation h = Inr s0" "list_all wf_event es" "Unmount \<notin> set es" "0 \<le> dt"
  shows "let s = run step_fractal s0 (es @ [Frame dt]) in
    screen_fractal s q =
      map_option
        (\<lambda>uv. vec4 (vec3s (real (escape_time
           (param (warp ((sum_list (map frame_ms es) + dt) / 1000) uv))) / 100)) 1)
        (window_uv (innerWidth s) (innerHeight s) q)"
proof -
  let ?s = "run step_fractal s0 (es @ [Frame dt])"
  note start = fractal_start [OF assms(1)]
  from assms(2,4) have wf: "list_all wf_event (es @ [Frame dt])" by simp
  note r = fractal_run [OF start(1) wf]
  have "time (frame_uniforms (last (frames ?s))) = (sum_list (map frame_ms es) + dt) / 1000"
    using engine_inv_last_frame(1) [OF r(1)] r(3) start(7) by simp
  then have "pixel_fractal (last (frames ?s)) =
      (\<lambda>uv. vec4 (vec3s (real (escape_time
         (param (warp ((sum_list (map frame_ms es) + dt) / 1000) uv))) / 100)) 1)"
    by (intro ext) (simp only: pixel_fractal_def main_fractal_warp fractal_escape_time)
  then show ?thesis
    unfolding Let_def screen_fractal_def fractal_screen_uv [OF assms(1-3)] by (simp only:)
qed

theorem screen_shows_escape_time_witness:
  "let s = run step_fractal (mount (fractal_uniforms_init 800 600) False True demo_host)
      ([Resize 1024 768] @ [Frame 16]) in
    screen_fractal s (vec2 0 0) =
      map_option
        (\<lambda>uv. vec4 (vec3s (real (escape_time
           (param (warp ((sum_list (map frame_ms [Resize 1024 768]) + 16) / 1000) uv))) / 100)) 1)
        (window_uv (innerWidth s) (innerHeight s) (vec2 0 0))"
  by (rule screen_shows_escape_time [OF demo_mounts(2)]) simp_all

end
